theory Spec2Isabelle
  imports Complex_Main "HOL-Library.AList"
begin

section \<open>Python values shared by the two modules\<close>

text \<open>
  The exceptions the modelled code can raise. Each carries the message or the name
  the interpreter would report.
\<close>

datatype error =
  ValueError string
  | AttributeError string
  | UnboundLocalError string
  | RuntimeError string
  | IndexError string
  | TypeError string
  | KeyError string

text \<open>\<^verbatim>\<open>range(a, b)\<close> over Python's unbounded integers; empty when \<open>b \<le> a\<close>.\<close>

definition py_range :: "int \<Rightarrow> int \<Rightarrow> int list" where
  "py_range a b = [a..b - 1]"

section \<open>The time-window controller of \<^verbatim>\<open>hf4rec/recsys_main.py\<close>\<close>

subsection \<open>Window selection (lines 235 to 251 of \<^verbatim>\<open>main\<close>)\<close>

text \<open>The fields of \<^verbatim>\<open>data_args\<close> the loop reads.\<close>

record data_args =
  start_time_window_index :: int
  final_time_window_index :: int
  no_incremental_training :: bool
  training_time_window_size :: int

text \<open>
  \<^verbatim>\<open>time_indices_train\<close> is a list of indices in sliding-window mode and a bare
  integer in incremental mode.
\<close>

datatype time_indices = Single int | Span "int list"

definition max_time_index :: "data_args \<Rightarrow> int" where
  "max_time_index da =
     (if no_incremental_training da
      then final_time_window_index da - training_time_window_size da + 1
      else final_time_window_index da)"

text \<open>The values the \<^verbatim>\<open>for\<close> loop gives to \<^verbatim>\<open>time_index\<close>, in order.\<close>

definition loop_time_indices :: "data_args \<Rightarrow> int list" where
  "loop_time_indices da = py_range (start_time_window_index da) (max_time_index da)"

text \<open>
  The first statement of the loop body: the pair
  \<^verbatim>\<open>(time_indices_train, time_index_eval)\<close> for one value of \<^verbatim>\<open>time_index\<close>.
\<close>

definition select_window :: "data_args \<Rightarrow> int \<Rightarrow> time_indices \<times> int" where
  "select_window da time_index =
     (if no_incremental_training da
      then (Span (py_range time_index (time_index + training_time_window_size da)),
            time_index + training_time_window_size da)
      else (Single time_index, time_index + 1))"

text \<open>The last index trained on; a span of no index has none.\<close>

fun last_train_index :: "time_indices \<Rightarrow> int option" where
  "last_train_index (Single t) = Some t"
| "last_train_index (Span ts) = (if ts = [] then None else Some (last ts))"

subsection \<open>Python dictionaries\<close>

text \<open>
  A dictionary is the list of its entries in insertion order, with distinct keys.
  \<^verbatim>\<open>d[k] = v\<close> replaces the value of a key already there and appends a new key
  otherwise; \<^verbatim>\<open>{**a, **b}\<close> starts from \<open>a\<close> and stores the entries of \<open>b\<close> in order,
  so \<open>b\<close> wins on a shared key.
\<close>

type_synonym ('k, 'v) dict = "('k \<times> 'v) list"

definition dict_set :: "'k \<Rightarrow> 'v \<Rightarrow> ('k, 'v) dict \<Rightarrow> ('k, 'v) dict" where
  "dict_set k v d = AList.update k v d"

definition dict_merge :: "('k, 'v) dict \<Rightarrow> ('k, 'v) dict \<Rightarrow> ('k, 'v) dict" where
  "dict_merge a b = fold (\<lambda>(k, v). dict_set k v) b a"

subsection \<open>The item frequencies for negative sampling (\<^verbatim>\<open>get_items_sorted_freq\<close>)\<close>

text \<open>
  \<^verbatim>\<open>get_items_sorted_freq\<close> (lines 93 to 108). Reading a file gives the item-id
  column, one list of item ids per row; \<open>read_parquet\<close> stands for
  \<^verbatim>\<open>pd.read_parquet\<close> on the files present. \<^verbatim>\<open>pd.concat\<close> of no frame raises.
  \<^verbatim>\<open>explode\<close> gives one row per item, \<^verbatim>\<open>groupby(...).size()\<close> the number of
  rows of each item in the order of the item ids, and \<^verbatim>\<open>sort_values\<close> orders the
  items by that number, ascending. Items of equal number stay in the order of their ids
  here, one of the orders the sort of \<^verbatim>\<open>pandas\<close> may give.
\<close>

definition get_items_sorted_freq ::
  "(string \<Rightarrow> int list list) \<Rightarrow> string list \<Rightarrow> error + (int \<times> nat) list" where
  "get_items_sorted_freq read_parquet train_data_paths =
     (if train_data_paths = [] then Inl (ValueError ''No objects to concatenate'')
      else (let concat_df = concat (map read_parquet train_data_paths);
                exploded = concat concat_df;
                sizes = map (\<lambda>i. (i, count_list exploded i)) (sort (remdups exploded))
            in Inr (sort_key snd sizes)))"

subsection \<open>The loop of \<^verbatim>\<open>main\<close> (lines 233 to 345)\<close>

text \<open>The fields of \<^verbatim>\<open>model_args\<close> and \<^verbatim>\<open>training_args\<close> the loop reads.\<close>

record model_args =
  negative_sampling :: bool
  neg_sampling_extra_samples_per_batch :: int

record training_args =
  do_train :: bool
  do_eval :: bool

text \<open>
  What the loop calls and this file does not define: the resolution of the files of a
  set of time indices (\<^verbatim>\<open>get_parquet_files_names\<close>, with its \<^verbatim>\<open>is_train\<close>
  flag), the reading of a file, and the trainer on a model of type \<open>'m\<close>: handing the
  frequencies to the model's sampler, training on files, evaluating on files under a
  prefix.
\<close>

record 'm collaborators =
  get_parquet_files_names :: "data_args \<Rightarrow> time_indices \<Rightarrow> bool \<Rightarrow> string list"
  read_parquet :: "string \<Rightarrow> int list list"
  set_items_freq_for_sampling :: "(int \<times> nat) list \<Rightarrow> 'm \<Rightarrow> 'm"
  train :: "'m \<Rightarrow> string list \<Rightarrow> 'm"
  evaluate :: "'m \<Rightarrow> string list \<Rightarrow> string \<Rightarrow> (string, real) dict"

text \<open>
  The variables of \<^verbatim>\<open>main\<close> that live across the steps. \<^verbatim>\<open>train_data_paths\<close>
  is a local variable with no value before its first assignment: \<open>None\<close>.
\<close>

record 'm loop_state =
  train_data_paths :: "string list option"
  model :: 'm
  results_over_time :: "(int, (string, real) dict) dict"

text \<open>
  One step of the loop, statement by statement: the window, the refresh of the sampling
  frequencies from \<^verbatim>\<open>train_data_paths\<close> as it is at that point, the assignment
  of \<^verbatim>\<open>train_data_paths\<close> and \<^verbatim>\<open>eval_data_paths\<close> for this step, training,
  the two evaluations and the record of the step under the evaluation index.
\<close>

definition loop_body ::
  "'m collaborators \<Rightarrow> data_args \<Rightarrow> model_args \<Rightarrow> training_args \<Rightarrow>
   'm loop_state \<Rightarrow> int \<Rightarrow> error + 'm loop_state" where
  "loop_body c da ma ta st time_index =
     (let (time_indices_train, time_index_eval) = select_window da time_index;
          refreshed =
            (if negative_sampling ma \<and> 0 < neg_sampling_extra_samples_per_batch ma
             then (case train_data_paths st of
                     None \<Rightarrow> Inl (UnboundLocalError ''train_data_paths'')
                   | Some paths \<Rightarrow>
                       (case get_items_sorted_freq (read_parquet c) paths of
                          Inl e \<Rightarrow> Inl e
                        | Inr items_sorted_freq_series \<Rightarrow>
                            Inr (st\<lparr>model :=
                              set_items_freq_for_sampling c items_sorted_freq_series (model st)\<rparr>)))
             else Inr st)
      in case refreshed of
           Inl e \<Rightarrow> Inl e
         | Inr st1 \<Rightarrow>
             (let paths = get_parquet_files_names c da time_indices_train True;
                  eval_data_paths = get_parquet_files_names c da (Span [time_index_eval]) False;
                  st2 = st1\<lparr>train_data_paths := Some paths\<rparr>;
                  st3 = (if do_train ta then st2\<lparr>model := train c (model st2) paths\<rparr> else st2)
              in Inr (if do_eval ta
                      then (let train_metrics = evaluate c (model st3) paths ''train'';
                                eval_metrics = evaluate c (model st3) eval_data_paths ''eval''
                            in st3\<lparr>results_over_time :=
                                 dict_set time_index_eval (dict_merge eval_metrics train_metrics)
                                   (results_over_time st3)\<rparr>)
                      else st3)))"

text \<open>The \<^verbatim>\<open>for\<close> loop: the steps in order, stopped by the first exception.\<close>

fun run_steps ::
  "'m collaborators \<Rightarrow> data_args \<Rightarrow> model_args \<Rightarrow> training_args \<Rightarrow>
   'm loop_state \<Rightarrow> int list \<Rightarrow> error + 'm loop_state" where
  "run_steps c da ma ta st [] = Inr st"
| "run_steps c da ma ta st (t # ts) =
     (case loop_body c da ma ta st t of
        Inl e \<Rightarrow> Inl e
      | Inr st' \<Rightarrow> run_steps c da ma ta st' ts)"

definition main_loop ::
  "'m collaborators \<Rightarrow> data_args \<Rightarrow> model_args \<Rightarrow> training_args \<Rightarrow> 'm \<Rightarrow>
   error + 'm loop_state" where
  "main_loop c da ma ta m =
     run_steps c da ma ta \<lparr>train_data_paths = None, model = m, results_over_time = []\<rparr>
       (loop_time_indices da)"

subsection \<open>The average over time (lines 358 to 375)\<close>

text \<open>
  \<^verbatim>\<open>pd.DataFrame.from_dict(results_over_time, orient="index")\<close> has one row per
  recorded window and one column per key that occurs in some window's record; a key a
  window lacks is a missing value there. \<^verbatim>\<open>results_df.mean()\<close> gives, for each
  column, the mean of the values present, missing values left out. Metric values are
  floating-point numbers in the program and real numbers here.
\<close>

definition df_columns :: "(int, (string, real) dict) dict \<Rightarrow> string list" where
  "df_columns rot = rev (remdups (rev (concat (map (\<lambda>(t, row). map fst row) rot))))"

definition column_values :: "(int, (string, real) dict) dict \<Rightarrow> string \<Rightarrow> real list" where
  "column_values rot k = List.map_filter (\<lambda>(t, row). map_of row k) rot"

definition mean :: "real list \<Rightarrow> real" where
  "mean xs = sum_list xs / real (length xs)"

definition results_avg_time :: "(int, (string, real) dict) dict \<Rightarrow> (string, real) dict" where
  "results_avg_time rot =
     map (\<lambda>k. (k @ ''_AOD'', mean (column_values rot k))) (df_columns rot)"

text \<open>
  The end of \<^verbatim>\<open>main\<close>: on the main process, when \<^verbatim>\<open>do_eval\<close> is set, the
  summary that is logged and written; nothing otherwise.
\<close>

definition final_summary ::
  "bool \<Rightarrow> training_args \<Rightarrow> (int, (string, real) dict) dict \<Rightarrow> (string, real) dict option" where
  "final_summary is_world_process_zero ta rot =
     (if is_world_process_zero \<and> do_eval ta then Some (results_avg_time rot) else None)"

section \<open>The prediction task of \<^verbatim>\<open>transformers4rec/torch/model/prediction_task.py\<close>\<close>

subsection \<open>Tensors\<close>

text \<open>
  A one-dimensional tensor is the list of its elements. Tensors of two and three
  dimensions carry their sizes, so that a tensor of no row still has a row width, and
  hold their elements in row-major order, as \<^verbatim>\<open>torch\<close> does for a
  contiguous tensor.
\<close>

record 'a tensor2 =
  size0 :: nat
  size1 :: nat
  data :: "'a list"

record 'a tensor3 =
  dim0 :: nat
  dim1 :: nat
  dim2 :: nat
  data3 :: "'a list"

definition wf2 :: "'a tensor2 \<Rightarrow> bool" where
  "wf2 t \<longleftrightarrow> length (data t) = size0 t * size1 t"

definition wf3 :: "'a tensor3 \<Rightarrow> bool" where
  "wf3 t \<longleftrightarrow> length (data3 t) = dim0 t * dim1 t * dim2 t"

text \<open>The rows of a two-dimensional tensor: \<open>n\<close> slices of width \<open>d\<close>.\<close>

fun chunks :: "nat \<Rightarrow> nat \<Rightarrow> 'a list \<Rightarrow> 'a list list" where
  "chunks 0 d xs = []"
| "chunks (Suc n) d xs = take d xs # chunks n d (drop d xs)"

definition rows_of :: "'a tensor2 \<Rightarrow> 'a list list" where
  "rows_of t = chunks (size0 t) (size1 t) (data t)"

subsection \<open>The tensor operations of the label-extraction step\<close>

text \<open>\<^verbatim>\<open>labels.flatten()\<close>: the elements in row-major order.\<close>

definition flatten :: "'a tensor2 \<Rightarrow> 'a list" where
  "flatten t = data t"

text \<open>\<^verbatim>\<open>trg_flat != self.padding_idx\<close>, elementwise.\<close>

definition ne_mask :: "int list \<Rightarrow> int \<Rightarrow> bool list" where
  "ne_mask trg_flat padding_idx = map (\<lambda>v. v \<noteq> padding_idx) trg_flat"

text \<open>
  \<^verbatim>\<open>torch.masked_select\<close> on an input and a mask of the same shape, both given by
  their elements in row-major order: the elements at the positions where the mask holds,
  in order.
\<close>

definition masked_select :: "'a list \<Rightarrow> bool list \<Rightarrow> 'a list" where
  "masked_select xs msk = map fst (filter snd (zip xs msk))"

text \<open>\<^verbatim>\<open>inp_tensor.flatten(end_dim=1)\<close> on a tensor of three dimensions.\<close>

definition flatten_end_dim1 :: "'a tensor3 \<Rightarrow> 'a tensor2" where
  "flatten_end_dim1 t = \<lparr>size0 = dim0 t * dim1 t, size1 = dim2 t, data = data3 t\<rparr>"

text \<open>
  \<^verbatim>\<open>non_pad_mask.unsqueeze(1).expand_as(inp_tensor)\<close>: the mask of shape \<open>[n]\<close>
  becomes \<open>[n, 1]\<close> and is expanded to the shape \<open>[m, d]\<close> of the input, which
  \<^verbatim>\<open>torch\<close> allows when \<open>n = m\<close> or \<open>n = 1\<close> and refuses otherwise.
\<close>

definition unsqueeze1_expand_as :: "bool list \<Rightarrow> 'a tensor2 \<Rightarrow> error + bool tensor2" where
  "unsqueeze1_expand_as msk inp =
     (if length msk = size0 inp
      then Inr \<lparr>size0 = size0 inp, size1 = size1 inp,
                data = concat (map (replicate (size1 inp)) msk)\<rparr>
      else if length msk = 1
      then Inr \<lparr>size0 = size0 inp, size1 = size1 inp,
                data = replicate (size0 inp * size1 inp) (hd msk)\<rparr>
      else Inl (RuntimeError ''The expanded size of the tensor must match the existing size''))"

text \<open>
  \<^verbatim>\<open>inp_tensor_fl.view(-1, d)\<close> on a one-dimensional tensor. With \<open>d = 0\<close> the
  free dimension cannot be inferred, and a length that \<open>d\<close> does not divide has no
  such shape: \<^verbatim>\<open>torch\<close> raises in both cases.
\<close>

definition view_rows :: "'a list \<Rightarrow> nat \<Rightarrow> error + 'a tensor2" where
  "view_rows xs d =
     (if d = 0
      then Inl (RuntimeError ''cannot reshape tensor into shape [-1, 0]'')
      else if length xs mod d \<noteq> 0
      then Inl (RuntimeError ''shape is invalid for input size'')
      else Inr \<lparr>size0 = length xs div d, size1 = d, data = xs\<rparr>)"

text \<open>\<^verbatim>\<open>NextItemPredictionTask.remove_pad_3d\<close> (lines 449 to 456).\<close>

definition remove_pad_3d :: "'a tensor3 \<Rightarrow> bool list \<Rightarrow> error + 'a tensor2" where
  "remove_pad_3d inp_tensor non_pad_mask =
     (let inp = flatten_end_dim1 inp_tensor in
      case unsqueeze1_expand_as non_pad_mask inp of
        Inl e \<Rightarrow> Inl e
      | Inr m \<Rightarrow> view_rows (masked_select (data inp) (data m)) (size1 inp))"

text \<open>
  The label-extraction step of \<^verbatim>\<open>NextItemPredictionTask.forward\<close> (lines 426 to
  430, under the comment \<^verbatim>\<open># remove padded items\<close>): the pair of
  \<^verbatim>\<open>labels_all\<close> and the filtered \<^verbatim>\<open>x\<close>.
\<close>

definition remove_padded_items ::
  "int tensor2 \<Rightarrow> int \<Rightarrow> 'a tensor3 \<Rightarrow> error + (int list \<times> 'a tensor2)" where
  "remove_padded_items labels padding_idx x =
     (let trg_flat = flatten labels;
          non_pad_mask = ne_mask trg_flat padding_idx;
          labels_all = masked_select trg_flat non_pad_mask
      in case remove_pad_3d x non_pad_mask of
           Inl e \<Rightarrow> Inl e
         | Inr x' \<Rightarrow> Inr (labels_all, x'))"

subsection \<open>Parameters and their storage\<close>

text \<open>
  A \<^verbatim>\<open>torch.nn.Parameter\<close> is a mutable tensor that modules hold by reference:
  training changes the tensor in place, and every module holding the reference sees the
  change. The store maps the address of each parameter to its present value; a module
  holds addresses. Tensor elements are floating-point numbers in the program and real
  numbers here.
\<close>

type_synonym addr = nat

datatype param = P1 "real list" | P2 "real tensor2"

record store =
  cells :: "addr \<Rightarrow> param option"
  next_addr :: addr

text \<open>Every parameter in use lies below the next free address.\<close>

definition store_ok :: "store \<Rightarrow> bool" where
  "store_ok s \<longleftrightarrow> (\<forall>a. cells s a \<noteq> None \<longrightarrow> a < next_addr s)"

text \<open>Creating a parameter: a new address that holds the given value.\<close>

definition alloc :: "param \<Rightarrow> store \<Rightarrow> addr \<times> store" where
  "alloc p s =
     (next_addr s, s\<lparr>cells := (cells s)(next_addr s \<mapsto> p), next_addr := Suc (next_addr s)\<rparr>)"

text \<open>
  A \<^verbatim>\<open>torch.nn.Embedding\<close>: the reference to its weight of shape
  \<open>[num_embeddings, dim]\<close>, and \<^verbatim>\<open>num_embeddings\<close>.
\<close>

record embedding_table =
  weight :: addr
  num_embeddings :: nat

subsection \<open>The scoring head \<^verbatim>\<open>_NextItemPredictionTask\<close>\<close>

text \<open>
  The attributes of the module. \<^verbatim>\<open>output_layer_bias\<close> exists in weight-tying mode
  only and \<^verbatim>\<open>output_layer\<close> (a \<^verbatim>\<open>torch.nn.Linear\<close>, the references to
  its weight and its bias) in the other mode only.
\<close>

record head =
  head_input_size :: "int list"
  head_target_dim :: nat
  head_weight_tying :: bool
  head_item_embedding_table :: "embedding_table option"
  head_softmax_temperature :: real
  output_layer_bias :: "addr option"
  output_layer :: "(addr \<times> addr) option"

text \<open>
  The initial values \<^verbatim>\<open>torch.nn.Linear\<close> draws at random for a weight of shape
  \<open>[out, in]\<close> and a bias of size \<open>out\<close>: a parameter of the model.
\<close>

type_synonym linear_init = "nat \<Rightarrow> nat \<Rightarrow> real tensor2 \<times> real list"

text \<open>
  \<^verbatim>\<open>_NextItemPredictionTask.__init__\<close> (lines 543 to 563). In weight-tying mode it
  creates one parameter, the bias of size \<^verbatim>\<open>target_dim\<close> filled with zeros; in
  the other mode \<^verbatim>\<open>torch.nn.Linear(self.input_size[-1], self.target_dim)\<close> creates
  a weight and a bias.
\<close>

definition head_init ::
  "linear_init \<Rightarrow> store \<Rightarrow> int list \<Rightarrow> nat \<Rightarrow> bool \<Rightarrow> embedding_table option \<Rightarrow> real \<Rightarrow>
   error + (head \<times> store)" where
  "head_init rnd s input_size target_dim weight_tying item_embedding_table softmax_temperature =
     (let h = \<lparr>head_input_size = input_size, head_target_dim = target_dim,
               head_weight_tying = weight_tying,
               head_item_embedding_table = item_embedding_table,
               head_softmax_temperature = softmax_temperature,
               output_layer_bias = None, output_layer = None\<rparr>
      in if weight_tying
         then (let (b, s') = alloc (P1 (replicate target_dim 0)) s
               in Inr (h\<lparr>output_layer_bias := Some b\<rparr>, s'))
         else if input_size = [] then Inl (IndexError ''list index out of range'')
         else if last input_size < 0
         then Inl (RuntimeError ''Trying to create tensor with negative dimension'')
         else (let (w0, b0) = rnd target_dim (nat (last input_size));
                   (w, s1) = alloc (P2 w0) s;
                   (b, s2) = alloc (P1 b0) s1
               in Inr (h\<lparr>output_layer := Some (w, b)\<rparr>, s2)))"

text \<open>
  \<^verbatim>\<open>torch.nn.functional.linear(inputs, weight, bias)\<close> on an input of shape
  \<open>[N, D]\<close>, a weight of shape \<open>[V, D]\<close> and a bias: the entry at row \<open>n\<close> and column
  \<open>v\<close> is the dot product of row \<open>n\<close> of the input and row \<open>v\<close> of the weight, plus
  entry \<open>v\<close> of the bias (the product with the transposed weight). A bias of size
  \<open>V\<close> is added as it is and a bias of size 1 is broadcast to every column; a bias of
  another size is refused.
\<close>

definition dot :: "real list \<Rightarrow> real list \<Rightarrow> real" where
  "dot xs ys = sum_list (map (\<lambda>(x, y). x * y) (zip xs ys))"

definition broadcast_bias :: "real list \<Rightarrow> nat \<Rightarrow> real list" where
  "broadcast_bias b v = (if length b = v then b else replicate v (hd b))"

definition functional_linear :: "real tensor2 \<Rightarrow> real tensor2 \<Rightarrow> real list \<Rightarrow> error + real tensor2" where
  "functional_linear inputs w b =
     (if size1 inputs \<noteq> size1 w
      then Inl (RuntimeError ''mat1 and mat2 shapes cannot be multiplied'')
      else if length b \<noteq> size0 w \<and> length b \<noteq> 1
      then Inl (RuntimeError ''The size of the bias must match the size of the output'')
      else Inr \<lparr>size0 = size0 inputs, size1 = size0 w,
                data = concat (map (\<lambda>r. map (\<lambda>(wr, bv). dot r wr + bv)
                                          (zip (rows_of w) (broadcast_bias b (size0 w))))
                                   (rows_of inputs))\<rparr>)"

text \<open>Reading a parameter of the expected rank through its reference.\<close>

definition read_matrix :: "store \<Rightarrow> addr \<Rightarrow> error + real tensor2" where
  "read_matrix s a =
     (case cells s a of
        Some (P2 w) \<Rightarrow> Inr w
      | _ \<Rightarrow> Inl (RuntimeError ''no matrix parameter at this reference''))"

definition read_vector :: "store \<Rightarrow> addr \<Rightarrow> error + real list" where
  "read_vector s a =
     (case cells s a of
        Some (P1 b) \<Rightarrow> Inr b
      | _ \<Rightarrow> Inl (RuntimeError ''no vector parameter at this reference''))"

text \<open>
  The first statement of \<^verbatim>\<open>_NextItemPredictionTask.forward\<close> (lines 566 to 573):
  the logits. In weight-tying mode the weight is read, at the time of the call, through
  the embedding table the head refers to.
\<close>

definition head_logits :: "store \<Rightarrow> head \<Rightarrow> real tensor2 \<Rightarrow> error + real tensor2" where
  "head_logits s h inputs =
     (if head_weight_tying h
      then (case head_item_embedding_table h of
              None \<Rightarrow> Inl (AttributeError ''NoneType object has no attribute weight'')
            | Some tbl \<Rightarrow>
                (case output_layer_bias h of
                   None \<Rightarrow> Inl (AttributeError ''output_layer_bias'')
                 | Some b \<Rightarrow>
                     (case read_matrix s (weight tbl) of
                        Inl e \<Rightarrow> Inl e
                      | Inr wv \<Rightarrow>
                          (case read_vector s b of
                             Inl e \<Rightarrow> Inl e
                           | Inr bv \<Rightarrow> functional_linear inputs wv bv))))
      else (case output_layer h of
              None \<Rightarrow> Inl (AttributeError ''output_layer'')
            | Some (w, b) \<Rightarrow>
                (case read_matrix s w of
                   Inl e \<Rightarrow> Inl e
                 | Inr wv \<Rightarrow>
                     (case read_vector s b of
                        Inl e \<Rightarrow> Inl e
                      | Inr bv \<Rightarrow> functional_linear inputs wv bv))))"

text \<open>\<^verbatim>\<open>torch.div(logits, tau)\<close>, elementwise.\<close>

definition tensor_div :: "real tensor2 \<Rightarrow> real \<Rightarrow> real tensor2" where
  "tensor_div t tau = t\<lparr>data := map (\<lambda>v. v / tau) (data t)\<rparr>"

text \<open>\<^verbatim>\<open>torch.nn.LogSoftmax(dim=-1)\<close>: each row minus the logarithm of the sum of its exponentials.\<close>

definition log_softmax_row :: "real list \<Rightarrow> real list" where
  "log_softmax_row xs = map (\<lambda>x. x - ln (sum_list (map exp xs))) xs"

definition log_softmax :: "real tensor2 \<Rightarrow> real tensor2" where
  "log_softmax t = t\<lparr>data := concat (map log_softmax_row (rows_of t))\<rparr>"

text \<open>
  \<^verbatim>\<open>_NextItemPredictionTask.forward\<close> (lines 565 to 582). The test
  \<^verbatim>\<open>if self.softmax_temperature:\<close> holds for every number but 0.
\<close>

definition head_forward :: "store \<Rightarrow> head \<Rightarrow> real tensor2 \<Rightarrow> error + real tensor2" where
  "head_forward s h inputs =
     (case head_logits s h inputs of
        Inl e \<Rightarrow> Inl e
      | Inr logits \<Rightarrow>
          (let logits' = (if head_softmax_temperature h \<noteq> 0
                          then tensor_div logits (head_softmax_temperature h)
                          else logits)
           in Inr (log_softmax logits')))"

subsection \<open>What \<^verbatim>\<open>NextItemPredictionTask\<close> is linked to\<close>

text \<open>
  A built block is a module with an output size (\<^verbatim>\<open>Block\<close>,
  \<^verbatim>\<open>SequentialBlock\<close>); what it computes on a tensor of three dimensions is a
  function of the model. A task block is such a module, or a \<^verbatim>\<open>BuildableBlock\<close>
  that gives one when built on an input size.
\<close>

record built_block =
  block_apply :: "real tensor3 \<Rightarrow> error + real tensor3"
  output_size :: "int list"

datatype block = Module built_block | Buildable "int list \<Rightarrow> error + built_block"

text \<open>
  The class \<^verbatim>\<open>MLPBlock\<close> is imported from \<^verbatim>\<open>..block.mlp\<close>: its constructor
  takes the layer dimensions, and building it on an input size gives a module or
  raises. It is a parameter of \<^verbatim>\<open>build\<close> here.
\<close>

type_synonym mlp_block = "nat list \<Rightarrow> int list \<Rightarrow> error + built_block"

text \<open>
  The masking module gives the padding index and the masked targets; the categorical
  module gives the item embedding table and the item sequence of the batch, both of
  shape \<open>[B, S]\<close>. The input block names the item-id column, if there is one.
\<close>

record masking_module =
  masking_padding_idx :: int
  masked_targets :: "int tensor2"

record categorical_module =
  cat_item_embedding_table :: "embedding_table option"
  item_seq :: "int tensor2"

record input_block =
  item_id :: "string option"
  categorical_module :: "categorical_module option"
  inputs_masking :: "masking_module option"

record body =
  body_inputs :: "input_block option"

text \<open>The declared input size: a shape, or a dictionary of shapes.\<close>

datatype input_size = Shape "int list" | DictShape "(string, int list) dict"

fun len_input_size :: "input_size \<Rightarrow> nat" where
  "len_input_size (Shape sh) = length sh"
| "len_input_size (DictShape d) = length d"

fun is_dict :: "input_size \<Rightarrow> bool" where
  "is_dict (Shape sh) = False"
| "is_dict (DictShape d) = True"

subsection \<open>Metrics\<close>

text \<open>
  A \<^verbatim>\<open>torchmetrics.Metric\<close> as the task uses it: the name of its class, its
  \<^verbatim>\<open>top_ks\<close> attribute (\<open>None\<close> when the class has none), its accumulated state,
  what a call \<^verbatim>\<open>metric(predictions, targets)\<close> returns and makes of the state, and
  what \<^verbatim>\<open>metric.compute()\<close> returns.
\<close>

record 's metric =
  metric_class :: string
  top_ks :: "nat list option"
  metric_state :: 's
  metric_call :: "real tensor2 \<Rightarrow> int list \<Rightarrow> 's \<Rightarrow> real list \<times> 's"
  metric_compute :: "'s \<Rightarrow> real list"

subsection \<open>\<^verbatim>\<open>NextItemPredictionTask\<close>\<close>

text \<open>
  The attributes of the task. \<^verbatim>\<open>target_name\<close> is never set by this class, so it is
  \<^verbatim>\<open>None\<close> throughout and left out. \<^verbatim>\<open>pre\<close> is \<^verbatim>\<open>None\<close> before
  \<^verbatim>\<open>build\<close> and the built scoring head after; \<^verbatim>\<open>embeddings\<close> is set by
  \<^verbatim>\<open>build\<close>.
\<close>

record 's task =
  loss :: "real tensor2 \<Rightarrow> int list \<Rightarrow> real"
  metrics :: "'s metric list"
  task_block :: "block option"
  task_name_attr :: string
  softmax_temperature :: real
  weight_tying :: bool
  padding_idx :: int
  target_dim :: "nat option"
  hf_format :: bool
  item_embedding_table :: "embedding_table option"
  masking :: "masking_module option"
  embeddings :: "categorical_module option"
  pre :: "head option"
  built :: bool

text \<open>
  \<^verbatim>\<open>NextItemPredictionTask.__init__\<close> (lines 345 to 365); the defaults are
  \<^verbatim>\<open>task_name="next-item"\<close>, \<^verbatim>\<open>weight_tying=False\<close>,
  \<^verbatim>\<open>softmax_temperature=1\<close>, \<^verbatim>\<open>padding_idx=0\<close>, \<^verbatim>\<open>target_dim=None\<close> and
  \<^verbatim>\<open>hf_format=False\<close>.
\<close>

definition task_init ::
  "(real tensor2 \<Rightarrow> int list \<Rightarrow> real) \<Rightarrow> 's metric list \<Rightarrow> block option \<Rightarrow> string \<Rightarrow> bool \<Rightarrow>
   real \<Rightarrow> int \<Rightarrow> nat option \<Rightarrow> bool \<Rightarrow> 's task" where
  "task_init loss' metrics' task_block' task_name' weight_tying' softmax_temperature'
       padding_idx' target_dim' hf_format' =
     \<lparr>loss = loss', metrics = metrics', task_block = task_block',
      task_name_attr = task_name', softmax_temperature = softmax_temperature',
      weight_tying = weight_tying', padding_idx = padding_idx', target_dim = target_dim',
      hf_format = hf_format', item_embedding_table = None, masking = None,
      embeddings = None, pre = None, built = False\<rparr>"

text \<open>
  \<^verbatim>\<open>PredictionTask.build\<close> (lines 90 to 136) as \<^verbatim>\<open>NextItemPredictionTask.build\<close>
  calls it: \<^verbatim>\<open>pre\<close> is always the \<^verbatim>\<open>NextItemPredictionPrepareBlock\<close> made from
  the task's attributes, whose \<^verbatim>\<open>build\<close> constructs the scoring head on the size
  the task block puts out. A task block given to \<^verbatim>\<open>build\<close> replaces the task's
  own. Copying a module leaves what it computes as it is.
\<close>

definition PredictionTask_build ::
  "linear_init \<Rightarrow> store \<Rightarrow> 's task \<Rightarrow> int list \<Rightarrow> block option \<Rightarrow> nat \<Rightarrow>
   error + ('s task \<times> store)" where
  "PredictionTask_build rnd s self input_size task_block_arg pre_target_dim =
     (let self1 = (case task_block_arg of
                     None \<Rightarrow> self
                   | Some b \<Rightarrow> self\<lparr>task_block := Some b\<rparr>);
          blk = (case task_block self1 of
                   None \<Rightarrow> Inr (self1, input_size)
                 | Some (Module m) \<Rightarrow> Inr (self1, output_size m)
                 | Some (Buildable bld) \<Rightarrow>
                     (case bld input_size of
                        Inl e \<Rightarrow> Inl e
                      | Inr m \<Rightarrow> Inr (self1\<lparr>task_block := Some (Module m)\<rparr>, output_size m)))
      in case blk of
           Inl e \<Rightarrow> Inl e
         | Inr (self2, pre_input_size) \<Rightarrow>
             (case head_init rnd s pre_input_size pre_target_dim (weight_tying self2)
                     (item_embedding_table self2) (softmax_temperature self2) of
                Inl e \<Rightarrow> Inl e
              | Inr (h, s') \<Rightarrow> Inr (self2\<lparr>pre := Some h, built := True\<rparr>, s')))"

text \<open>The truth value Python gives to an optional string: false for \<^verbatim>\<open>None\<close> and for the empty string.\<close>

fun truthy_str :: "string option \<Rightarrow> bool" where
  "truthy_str None = False"
| "truthy_str (Some s) = (s \<noteq> [])"

text \<open>The truth value of an optional number: false for \<^verbatim>\<open>None\<close> and for 0.\<close>

fun truthy_nat :: "nat option \<Rightarrow> bool" where
  "truthy_nat None = False"
| "truthy_nat (Some n) = (n \<noteq> 0)"

text \<open>Whether a result is a raised \<^verbatim>\<open>ValueError\<close>.\<close>

fun is_ValueError :: "error + 'a \<Rightarrow> bool" where
  "is_ValueError (Inl (ValueError msg)) = True"
| "is_ValueError r = False"

text \<open>Running the next statements on a value unless an exception was raised.\<close>

definition bind_err :: "error + 'a \<Rightarrow> ('a \<Rightarrow> error + 'b) \<Rightarrow> error + 'b" where
  "bind_err r f = (case r of Inl e \<Rightarrow> Inl e | Inr v \<Rightarrow> f v)"

text \<open>\<^verbatim>\<open>if not inputs: inputs = body.inputs\<close> (lines 375 and 376).\<close>

definition resolve_inputs :: "input_block option \<Rightarrow> body \<Rightarrow> input_block option" where
  "resolve_inputs inputs bdy = (case inputs of None \<Rightarrow> body_inputs bdy | Some i \<Rightarrow> Some i)"

text \<open>
  \<^verbatim>\<open>getattr(inputs, "item_id", None)\<close>: \<^verbatim>\<open>None\<close> when there is no input block.
\<close>

definition getattr_item_id :: "input_block option \<Rightarrow> string option" where
  "getattr_item_id inputs = (case inputs of None \<Rightarrow> None | Some i \<Rightarrow> item_id i)"

text \<open>
  \<^verbatim>\<open>self.embeddings.item_embedding_table\<close>; reading an attribute of \<^verbatim>\<open>None\<close>
  raises \<^verbatim>\<open>AttributeError\<close>.
\<close>

definition embeddings_item_embedding_table :: "'s task \<Rightarrow> error + embedding_table" where
  "embeddings_item_embedding_table self =
     (case embeddings self of
        None \<Rightarrow> Inl (AttributeError ''NoneType object has no attribute item_embedding_table'')
      | Some emb \<Rightarrow>
          (case cat_item_embedding_table emb of
             None \<Rightarrow> Inl (AttributeError ''NoneType object has no attribute num_embeddings'')
           | Some tbl \<Rightarrow> Inr tbl))"

text \<open>Lines 383 and 384: a target dimension that is not set is the table's number of items.\<close>

definition set_target_dim :: "'s task \<Rightarrow> error + 's task" where
  "set_target_dim self =
     (if \<not> truthy_nat (target_dim self)
      then bind_err (embeddings_item_embedding_table self)
             (\<lambda>tbl. Inr (self\<lparr>target_dim := Some (num_embeddings tbl)\<rparr>))
      else Inr self)"

text \<open>
  Lines 385 to 395: with weight tying the task refers to the table, and when the last
  input dimension differs from the width of the table's weight and no task block was
  given to \<^verbatim>\<open>build\<close>, the task block becomes \<^verbatim>\<open>MLPBlock([item_dim])\<close> (after
  a warning in the log).
\<close>

definition tie_weights ::
  "mlp_block \<Rightarrow> store \<Rightarrow> 's task \<Rightarrow> int list \<Rightarrow> block option \<Rightarrow> error + ('s task \<times> block option)" where
  "tie_weights MLPBlock s self input_size task_block_arg =
     (if weight_tying self
      then bind_err (embeddings_item_embedding_table self) (\<lambda>tbl.
           bind_err (read_matrix s (weight tbl)) (\<lambda>w.
             let item_dim = size1 w
             in Inr (self\<lparr>item_embedding_table := Some tbl\<rparr>,
                     case task_block_arg of
                       None \<Rightarrow>
                         (if last input_size \<noteq> int item_dim
                          then Some (Buildable (MLPBlock [item_dim]))
                          else None)
                     | Some b \<Rightarrow> Some b)))
      else Inr (self, task_block_arg))"

text \<open>Lines 397 to 400: the masking of the input block and its padding index.\<close>

definition set_masking :: "'s task \<Rightarrow> input_block \<Rightarrow> 's task" where
  "set_masking self inp =
     (case inputs_masking inp of
        None \<Rightarrow> self\<lparr>masking := None\<rparr>
      | Some mk \<Rightarrow> self\<lparr>masking := Some mk, padding_idx := masking_padding_idx mk\<rparr>)"

text \<open>
  \<^verbatim>\<open>NextItemPredictionTask.build\<close> (lines 367 to 410). The two tests that raise
  \<^verbatim>\<open>ValueError\<close> come first; past them the input size is a shape and there is an
  input block, so the last case of the definition is never reached.
\<close>

definition build ::
  "mlp_block \<Rightarrow> linear_init \<Rightarrow> store \<Rightarrow> 's task \<Rightarrow> body \<Rightarrow> input_size \<Rightarrow> input_block option \<Rightarrow>
   block option \<Rightarrow> error + ('s task \<times> store)" where
  "build MLPBlock rnd s self bdy input_size inputs task_block_arg =
     (if \<not> len_input_size input_size = 3 \<or> is_dict input_size
      then Inl (ValueError ''NextItemPredictionTask needs a 3-dim vector as input'')
      else if \<not> truthy_str (getattr_item_id (resolve_inputs inputs bdy))
      then Inl (ValueError ''For Item Prediction task a categorical_module including an item_id column is required.'')
      else (case (input_size, resolve_inputs inputs bdy) of
              (Shape isz, Some inp) \<Rightarrow>
                bind_err (set_target_dim (self\<lparr>embeddings := categorical_module inp\<rparr>))
                  (\<lambda>self2.
                bind_err (tie_weights MLPBlock s self2 isz task_block_arg)
                  (\<lambda>(self3, task_block1).
                PredictionTask_build rnd s (set_masking self3 inp) isz task_block1
                  (case target_dim self3 of None \<Rightarrow> 0 | Some n \<Rightarrow> n)))
            | _ \<Rightarrow> Inl (ValueError ''unreachable'')))"

text \<open>
  What \<^verbatim>\<open>NextItemPredictionTask.forward\<close> returns: the predictions, or with
  \<^verbatim>\<open>hf_format\<close> the loss, the labels and the predictions.
\<close>

datatype forward_output = Predictions "real tensor2" | HF_outputs real "int list" "real tensor2"

text \<open>
  \<^verbatim>\<open>NextItemPredictionTask.forward\<close> (lines 412 to 447) on a tensor of three
  dimensions (of a tuple or list the code takes the first element, and it converts the
  tensor to floating point, first of all). Calling a task block that was never built,
  or \<^verbatim>\<open>self.pre\<close> while it is \<^verbatim>\<open>None\<close>, raises \<^verbatim>\<open>TypeError\<close>.
\<close>

definition forward :: "store \<Rightarrow> 's task \<Rightarrow> real tensor3 \<Rightarrow> error + forward_output" where
  "forward s self inputs =
     (let after_block =
            (case task_block self of
               None \<Rightarrow> Inr inputs
             | Some (Module m) \<Rightarrow> block_apply m inputs
             | Some (Buildable bld) \<Rightarrow> Inl (TypeError ''object is not callable''));
          labels =
            (case masking self of
               Some mk \<Rightarrow> Inr (masked_targets mk)
             | None \<Rightarrow>
                 (case embeddings self of
                    None \<Rightarrow> Inl (AttributeError ''embeddings'')
                  | Some emb \<Rightarrow> Inr (item_seq emb)))
      in case after_block of
           Inl e \<Rightarrow> Inl e
         | Inr x \<Rightarrow>
             (case labels of
                Inl e \<Rightarrow> Inl e
              | Inr lbls \<Rightarrow>
                  (case remove_padded_items lbls (padding_idx self) x of
                     Inl e \<Rightarrow> Inl e
                   | Inr (labels_all, x1) \<Rightarrow>
                       (case pre self of
                          None \<Rightarrow> Inl (TypeError ''NoneType object is not callable'')
                        | Some h \<Rightarrow>
                            (case head_forward s h x1 of
                               Inl e \<Rightarrow> Inl e
                             | Inr x2 \<Rightarrow>
                                 Inr (if hf_format self
                                      then HF_outputs (loss self x2 labels_all) labels_all x2
                                      else Predictions x2))))))"

subsection \<open>Metric names and metric results\<close>

text \<open>\<^verbatim>\<open>name_fn\<close> (lines 36 and 37): \<^verbatim>\<open>None\<close> for an empty name.\<close>

definition name_fn :: "string \<Rightarrow> string \<Rightarrow> string option" where
  "name_fn name inp = (if name \<noteq> [] then Some (name @ ''/'' @ inp) else None)"

text \<open>
  The property \<^verbatim>\<open>task_name\<close> (lines 152 to 159).
  \<^verbatim>\<open>camelcase_to_snakecase\<close> is imported from \<^verbatim>\<open>merlin_standard_lib.registry\<close>
  and is a parameter here. The target name of this class is \<^verbatim>\<open>None\<close>, so the name
  that is built is the converted class name.
\<close>

definition task_name :: "(string \<Rightarrow> string) \<Rightarrow> 's task \<Rightarrow> string" where
  "task_name camelcase_to_snakecase self =
     (if task_name_attr self \<noteq> [] then task_name_attr self
      else camelcase_to_snakecase ''NextItemPredictionTask'')"

definition child_name :: "(string \<Rightarrow> string) \<Rightarrow> 's task \<Rightarrow> string \<Rightarrow> string option" where
  "child_name camelcase_to_snakecase self name =
     name_fn (task_name camelcase_to_snakecase self) name"

text \<open>\<^verbatim>\<open>PredictionTask.metric_name\<close> (lines 214 and 215).\<close>

definition metric_name :: "(string \<Rightarrow> string) \<Rightarrow> 's task \<Rightarrow> 's metric \<Rightarrow> string option" where
  "metric_name camelcase_to_snakecase self m =
     child_name camelcase_to_snakecase self (camelcase_to_snakecase (metric_class m))"

text \<open>What an f-string makes of an optional string and of a natural number.\<close>

definition py_format :: "string option \<Rightarrow> string" where
  "py_format name = (case name of None \<Rightarrow> ''None'' | Some s \<Rightarrow> s)"

definition digit_char :: "nat \<Rightarrow> char" where
  "digit_char d = ''0123456789'' ! d"

function string_of_nat :: "nat \<Rightarrow> string" where
  "string_of_nat n =
     (if n < 10 then [digit_char n] else string_of_nat (n div 10) @ [digit_char (n mod 10)])"
  by pat_completeness auto
termination
  by (relation "measure id") auto

declare string_of_nat.simps [simp del]

text \<open>One call \<^verbatim>\<open>metric(predictions, targets)\<close>: the value returned and the metric after it.\<close>

definition call_metric :: "'s metric \<Rightarrow> real tensor2 \<Rightarrow> int list \<Rightarrow> real list \<times> 's metric" where
  "call_metric m predictions targets =
     (let (v, st) = metric_call m predictions targets (metric_state m)
      in (v, m\<lparr>metric_state := st\<rparr>))"

text \<open>
  The two ways \<^verbatim>\<open>calculate_metrics\<close> is called: with \<^verbatim>\<open>forward=True\<close> on the
  inputs of the task, or with \<^verbatim>\<open>forward=False\<close> on predictions.
\<close>

datatype metrics_call = With_forward "real tensor3" | Without_forward "real tensor2"

text \<open>
  \<^verbatim>\<open>NextItemPredictionTask.calculate_metrics\<close> (lines 458 to 475): the outputs and
  the task with its metrics after their calls. \<^verbatim>\<open>forward_to_prediction_fn\<close> is the
  identity for this class. Every metric of the task is called, in order, on the
  predictions and the targets.
\<close>

definition calculate_metrics ::
  "(string \<Rightarrow> string) \<Rightarrow> store \<Rightarrow> 's task \<Rightarrow> metrics_call \<Rightarrow> int list \<Rightarrow>
   error + ((string option, real list) dict \<times> 's task)" where
  "calculate_metrics camelcase_to_snakecase s self call targets =
     bind_err
       (case call of
          Without_forward p \<Rightarrow> Inr (p, targets)
        | With_forward x \<Rightarrow>
            bind_err (forward s self x)
              (\<lambda>out. case out of
                        HF_outputs l labels preds \<Rightarrow> Inr (preds, labels)
                      | Predictions preds \<Rightarrow> Inr (preds, targets)))
       (\<lambda>(predictions, targets').
          Inr (fold (\<lambda>m. dict_set (metric_name camelcase_to_snakecase self m)
                            (fst (call_metric m predictions targets')))
                 (metrics self) [],
               self\<lparr>metrics := map (\<lambda>m. snd (call_metric m predictions targets'))
                                  (metrics self)\<rparr>))"

text \<open>
  The labels \<^verbatim>\<open>forward\<close> retrieves (lines 420 to 424): the masked targets when the
  task has a masking module, the item sequence of the embeddings otherwise; none when
  the task has neither.
\<close>

definition retrieve_labels :: "'s task \<Rightarrow> int tensor2 option" where
  "retrieve_labels self =
     (case masking self of
        Some mk \<Rightarrow> Some (masked_targets mk)
      | None \<Rightarrow>
          (case embeddings self of
             None \<Rightarrow> None
           | Some emb \<Rightarrow> Some (item_seq emb)))"

text \<open>
  What \<^verbatim>\<open>calculate_metrics\<close> with \<^verbatim>\<open>forward=True\<close> takes from the output of
  \<^verbatim>\<open>forward\<close> (lines 466 to 469): the predictions, and as targets the labels of
  the output in \<^verbatim>\<open>hf_format\<close> and the targets of the caller otherwise.
\<close>

fun predictions_of :: "forward_output \<Rightarrow> real tensor2" where
  "predictions_of (Predictions preds) = preds"
| "predictions_of (HF_outputs l labels preds) = preds"

fun targets_of :: "forward_output \<Rightarrow> int list \<Rightarrow> int list" where
  "targets_of (Predictions preds) targets = targets"
| "targets_of (HF_outputs l labels preds) targets = labels"

text \<open>The truth value of \<^verbatim>\<open>getattr(metric, "top_ks", None)\<close>: false without the attribute and for an empty list.\<close>

fun truthy_ks :: "nat list option \<Rightarrow> bool" where
  "truthy_ks None = False"
| "truthy_ks (Some ks) = (ks \<noteq> [])"

text \<open>
  The loop at the end of \<^verbatim>\<open>compute_metrics\<close> (lines 487 to 490): for each name
  and computed vector, one result per pair of a measure and a cutoff, under the key
  \<^verbatim>\<open>f"{name}_{k}"\<close>.
\<close>

fun explode_metrics ::
  "(string option, real list) dict \<Rightarrow> (string option, nat list) dict \<Rightarrow> (string, real) dict \<Rightarrow>
   error + (string, real) dict" where
  "explode_metrics [] topks results = Inr results"
| "explode_metrics ((name, metric) # rest) topks results =
     (case map_of topks name of
        None \<Rightarrow> Inl (KeyError (py_format name))
      | Some ks \<Rightarrow>
          explode_metrics rest topks
            (fold (\<lambda>(measure, k). dict_set (py_format name @ ''_'' @ string_of_nat k) measure)
               (zip metric ks) results))"

text \<open>
  \<^verbatim>\<open>NextItemPredictionTask.compute_metrics\<close> (lines 477 to 491). The first
  dictionary holds the metrics with a non-empty \<^verbatim>\<open>top_ks\<close>; the second reads
  \<^verbatim>\<open>metric.top_ks\<close> of every metric, which raises for a metric without the
  attribute.
\<close>

definition compute_metrics ::
  "(string \<Rightarrow> string) \<Rightarrow> 's task \<Rightarrow> error + (string, real) dict" where
  "compute_metrics camelcase_to_snakecase self =
     (let metrics_d =
            fold (\<lambda>m. dict_set (metric_name camelcase_to_snakecase self m)
                         (metric_compute m (metric_state m)))
              (filter (\<lambda>m. truthy_ks (top_ks m)) (metrics self)) []
      in if list_ex (\<lambda>m. top_ks m = None) (metrics self)
         then Inl (AttributeError ''top_ks'')
         else (let topks =
                     fold (\<lambda>m. dict_set (metric_name camelcase_to_snakecase self m)
                                  (case top_ks m of None \<Rightarrow> [] | Some ks \<Rightarrow> ks))
                       (metrics self) []
               in explode_metrics metrics_d topks []))"

subsection \<open>The ranking metrics\<close>

text \<open>
  Modelled from the spec: the rank of the true item. The classes \<^verbatim>\<open>NDCGAt\<close>,
  \<^verbatim>\<open>AvgPrecisionAt\<close> and \<^verbatim>\<open>RecallAt\<close> are imported from
  \<^verbatim>\<open>..ranking_metric\<close>, which is not among the sources. The spec (section 4.3) has
  each row of scores judged by the predicted rank of its one relevant item: here 1 plus
  the number of items with a greater score. A label that is no index of the row has no
  rank.
\<close>

definition rank_of :: "real list \<Rightarrow> int \<Rightarrow> nat option" where
  "rank_of scores label =
     (if 0 \<le> label \<and> nat label < length scores
      then Some (Suc (length (filter (\<lambda>v. scores ! nat label < v) scores)))
      else None)"

text \<open>
  Modelled from the spec: the value of one row at cutoff \<open>k\<close>. Section 4.3: Recall at
  \<open>k\<close> is 1 if the rank of the true item is at most \<open>k\<close> and 0 otherwise; NDCG at \<open>k\<close> is
  \<open>1 / log2 (rank + 1)\<close> if the rank is at most \<open>k\<close> and 0 otherwise; average precision at
  \<open>k\<close> is \<open>1 / rank\<close> if the rank is at most \<open>k\<close> and 0 otherwise. A row without a rank
  counts 0.
\<close>

definition recall_at :: "nat \<Rightarrow> real list \<Rightarrow> int \<Rightarrow> real" where
  "recall_at k scores label =
     (case rank_of scores label of
        None \<Rightarrow> 0
      | Some r \<Rightarrow> if r \<le> k then 1 else 0)"

definition ndcg_at :: "nat \<Rightarrow> real list \<Rightarrow> int \<Rightarrow> real" where
  "ndcg_at k scores label =
     (case rank_of scores label of
        None \<Rightarrow> 0
      | Some r \<Rightarrow> if r \<le> k then 1 / log 2 (real r + 1) else 0)"

definition avg_precision_at :: "nat \<Rightarrow> real list \<Rightarrow> int \<Rightarrow> real" where
  "avg_precision_at k scores label =
     (case rank_of scores label of
        None \<Rightarrow> 0
      | Some r \<Rightarrow> if r \<le> k then 1 / real r else 0)"

text \<open>
  Modelled from the spec: the accumulators of a ranking metric. Section 4.3: the
  aggregator "maintains running sums/counts per metric-cutoff pair across calls within
  one evaluation pass (streaming mean)", "compute" finalizes to the mean and "reset"
  clears the accumulators. The state is one pair of a running sum and a running count
  per cutoff; a call on a batch adds, for each cutoff, the values of the rows of the
  batch to the sum and their number to the count.
\<close>

type_synonym ranking_state = "(real \<times> nat) list"

definition ranking_reset :: "nat list \<Rightarrow> ranking_state" where
  "ranking_reset ks = map (\<lambda>k. (0, 0)) ks"

definition ranking_update ::
  "(nat \<Rightarrow> real list \<Rightarrow> int \<Rightarrow> real) \<Rightarrow> nat list \<Rightarrow> real tensor2 \<Rightarrow> int list \<Rightarrow>
   ranking_state \<Rightarrow> ranking_state" where
  "ranking_update row_value ks predictions targets acc =
     map (\<lambda>(k, (total, n)).
            (total + (\<Sum>(scores, label)\<leftarrow>zip (rows_of predictions) targets. row_value k scores label),
             n + length (zip (rows_of predictions) targets)))
       (zip ks acc)"

definition ranking_compute :: "ranking_state \<Rightarrow> real list" where
  "ranking_compute acc = map (\<lambda>(total, n). total / real n) acc"

text \<open>
  Modelled from the spec: a ranking metric as the task calls it. The value a call
  returns is the list of the values of the rows of the batch at each cutoff (the
  per-example metric values of the prediction record, section 3); the state after the
  call is the updated accumulators.
\<close>

definition ranking_metric ::
  "string \<Rightarrow> (nat \<Rightarrow> real list \<Rightarrow> int \<Rightarrow> real) \<Rightarrow> nat list \<Rightarrow> ranking_state \<Rightarrow>
   ranking_state metric" where
  "ranking_metric cls row_value ks acc =
     \<lparr>metric_class = cls, top_ks = Some ks, metric_state = acc,
      metric_call = (\<lambda>predictions targets a.
         (concat (map (\<lambda>(scores, label). map (\<lambda>k. row_value k scores label) ks)
                    (zip (rows_of predictions) targets)),
          ranking_update row_value ks predictions targets a)),
      metric_compute = ranking_compute\<rparr>"

section \<open>A small configuration for the examples\<close>

text \<open>
  An embedding table of two items of dimension 1 at reference 0, the zero bias of a tied
  head at reference 1, and the tied head itself.
\<close>

definition example_table :: embedding_table where
  "example_table = \<lparr>weight = 0, num_embeddings = 2\<rparr>"

definition example_store :: store where
  "example_store =
     \<lparr>cells = [0 \<mapsto> P2 \<lparr>size0 = 2, size1 = 1, data = [1, 2]\<rparr>, 1 \<mapsto> P1 [0, 0]],
      next_addr = 2\<rparr>"

definition example_head :: head where
  "example_head =
     \<lparr>head_input_size = [1, 2, 1], head_target_dim = 2, head_weight_tying = True,
      head_item_embedding_table = Some example_table,
      head_softmax_temperature = 1, output_layer_bias = Some 1, output_layer = None\<rparr>"

text \<open>
  A metric of the \<^verbatim>\<open>torchmetrics\<close> kind whose state is the number of batches it
  was called on.
\<close>

definition batch_counter :: "string \<Rightarrow> nat list \<Rightarrow> nat \<Rightarrow> nat metric" where
  "batch_counter cls ks n =
     \<lparr>metric_class = cls, top_ks = Some ks, metric_state = n,
      metric_call = (\<lambda>predictions targets count. ([], Suc count)),
      metric_compute = (\<lambda>count. map (\<lambda>k. real count) ks)\<rparr>"

text \<open>
  One session of two positions, both padding, with hidden states of dimension 1, and a
  built task in \<^verbatim>\<open>hf_format\<close> that takes its labels from the masking module.
\<close>

definition padding_labels :: "int tensor2" where
  "padding_labels = \<lparr>size0 = 1, size1 = 2, data = [0, 0]\<rparr>"

definition example_states :: "real tensor3" where
  "example_states = \<lparr>dim0 = 1, dim1 = 2, dim2 = 1, data3 = [3, 4]\<rparr>"

definition example_task :: "nat task" where
  "example_task =
     (task_init (\<lambda>predictions labels. 0) [batch_counter ''NDCGAt'' [10, 20] 0] None
        ''next-item'' True 1 0 (Some 2) True)
     \<lparr>item_embedding_table := Some example_table,
      masking := Some \<lparr>masking_padding_idx = 0, masked_targets = padding_labels\<rparr>,
      pre := Some example_head, built := True\<rparr>"

text \<open>
  Collaborators for the examples: an \<^verbatim>\<open>MLPBlock\<close> of one layer whose units
  all put out the sum of the components of the hidden vector (a linear layer with
  weights 1, no bias and no activation), so that a tensor of shape \<open>[B, S, D]\<close> becomes
  one of shape \<open>[B, S, d]\<close> for the last layer dimension \<open>d\<close>; a linear layer
  initialised with zeros; a task as its constructor leaves it, with weight tying; and
  an input block with an item-id column over the example table.
\<close>

definition example_mlp :: mlp_block where
  "example_mlp dims input_size =
     Inr \<lparr>block_apply = (\<lambda>x.
             Inr \<lparr>dim0 = dim0 x, dim1 = dim1 x, dim2 = last dims,
                  data3 = concat (map (\<lambda>row. replicate (last dims) (sum_list row))
                                     (chunks (dim0 x * dim1 x) (dim2 x) (data3 x)))\<rparr>),
           output_size = butlast input_size @ [int (last dims)]\<rparr>"

definition example_linear_init :: linear_init where
  "example_linear_init v d =
     (\<lparr>size0 = v, size1 = d, data = replicate (v * d) 0\<rparr>, replicate v 0)"

definition example_new_task :: "nat task" where
  "example_new_task =
     task_init (\<lambda>predictions labels. 0) [batch_counter ''NDCGAt'' [10, 20] 0] None
       ''next-item'' True 1 0 None False"

definition example_inputs :: input_block where
  "example_inputs =
     \<lparr>item_id = Some ''item_id'',
      categorical_module =
        Some \<lparr>cat_item_embedding_table = Some example_table, item_seq = padding_labels\<rparr>,
      inputs_masking = None\<rparr>"

text \<open>
  An input block whose item sequence is one session of an item 1 and a padding
  position, and hidden states of dimension 2 for that session.
\<close>

definition session_inputs :: input_block where
  "session_inputs =
     \<lparr>item_id = Some ''item_id'',
      categorical_module =
        Some \<lparr>cat_item_embedding_table = Some example_table,
              item_seq = \<lparr>size0 = 1, size1 = 2, data = [1, 0]\<rparr>\<rparr>,
      inputs_masking = None\<rparr>"

definition session_states :: "real tensor3" where
  "session_states = \<lparr>dim0 = 1, dim1 = 2, dim2 = 2, data3 = [1, 2, 3, 4]\<rparr>"

text \<open>
  The built task of the all-padding session with the NDCG metric at the cutoffs 10 and
  20, its accumulators cleared.
\<close>

definition padding_task :: "ranking_state task" where
  "padding_task =
     (task_init (\<lambda>predictions labels. 0)
        [ranking_metric ''NDCGAt'' ndcg_at [10, 20] (ranking_reset [10, 20])] None
        ''next-item'' True 1 0 (Some 2) True)
     \<lparr>item_embedding_table := Some example_table,
      masking := Some \<lparr>masking_padding_idx = 0, masked_targets = padding_labels\<rparr>,
      pre := Some example_head, built := True\<rparr>"

section \<open>Properties\<close>

subsection \<open>Dictionaries\<close>

lemma dict_set_keys: "fst ` set (dict_set k v d) = insert k (fst ` set d)"
  by (simp add: dict_set_def dom_update)

lemma dict_set_distinct: "distinct (map fst d) \<Longrightarrow> distinct (map fst (dict_set k v d))"
  by (simp add: dict_set_def distinct_update)

lemma dict_set_fresh: "k \<notin> fst ` set d \<Longrightarrow> dict_set k v d = d @ [(k, v)]"
  by (induction d) (auto simp: dict_set_def)

lemma fold_dict_set_keys:
  "fst ` set (fold (\<lambda>x. dict_set (f x) (g x)) xs d) = f ` set xs \<union> fst ` set d"
  by (induction xs arbitrary: d) (auto simp: dict_set_keys)

lemma fold_dict_set_distinct:
  "distinct (map fst d) \<Longrightarrow> distinct (map fst (fold (\<lambda>x. dict_set (f x) (g x)) xs d))"
  by (induction xs arbitrary: d) (simp_all add: dict_set_distinct)

lemma fold_dict_set_fresh:
  "distinct (map f xs) \<Longrightarrow> f ` set xs \<inter> fst ` set d = {} \<Longrightarrow>
   fold (\<lambda>x. dict_set (f x) (g x)) xs d = d @ map (\<lambda>x. (f x, g x)) xs"
proof (induction xs arbitrary: d)
  case Nil
  then show ?case by simp
next
  case (Cons x xs)
  from Cons.prems have fresh: "f x \<notin> fst ` set d" by auto
  then have step: "dict_set (f x) (g x) d = d @ [(f x, g x)]" by (rule dict_set_fresh)
  from Cons.prems have "distinct (map f xs)"
    and "f ` set xs \<inter> fst ` set (d @ [(f x, g x)]) = {}"
    by auto
  then have "fold (\<lambda>x. dict_set (f x) (g x)) xs (d @ [(f x, g x)]) =
      (d @ [(f x, g x)]) @ map (\<lambda>x. (f x, g x)) xs"
    by (rule Cons.IH)
  then show ?case by (simp add: step)
qed

subsection \<open>Window selection\<close>

lemma length_py_range: "length (py_range a b) = nat (b - a)"
  by (simp add: py_range_def)

lemma nth_py_range: "i < length (py_range a b) \<Longrightarrow> py_range a b ! i = a + int i"
  by (simp add: py_range_def)

lemma py_range_eq_Nil: "py_range a b = [] \<longleftrightarrow> b \<le> a"
  by (auto simp: py_range_def)

lemma last_py_range: "a < b \<Longrightarrow> last (py_range a b) = b - 1"
proof -
  assume ab: "a < b"
  then have ne: "py_range a b \<noteq> []" by (simp add: py_range_eq_Nil)
  have len: "length (py_range a b) = nat (b - a)" by (rule length_py_range)
  from ab len have idx: "length (py_range a b) - 1 < length (py_range a b)" by simp
  have "last (py_range a b) = py_range a b ! (length (py_range a b) - 1)"
    using ne by (rule last_conv_nth)
  also have "\<dots> = a + int (length (py_range a b) - 1)"
    using idx by (rule nth_py_range)
  also have "\<dots> = b - 1" using ab len by simp
  finally show ?thesis .
qed

text \<open>
  Claim C2. At the step of number \<open>i\<close> of the loop (counting from 0) the loop variable is
  \<open>s + i\<close>. In sliding-window mode with window size \<open>K\<close> the step trains on the
  contiguous indices \<open>s + i, \<dots>, s + i + K - 1\<close> and evaluates on \<open>s + i + K\<close>; in
  incremental mode it trains on the single index \<open>s + i\<close> and evaluates on \<open>s + i + 1\<close>.
  In both modes (a sliding window holding at least one index) the evaluation index is
  the last training index plus 1.
\<close>

theorem window_controller_spans:
  assumes "i < length (loop_time_indices da)"
  shows "loop_time_indices da ! i = start_time_window_index da + int i \<and>
    (no_incremental_training da \<longrightarrow>
       select_window da (start_time_window_index da + int i) =
         (Span [start_time_window_index da + int i..
                start_time_window_index da + int i + training_time_window_size da - 1],
          start_time_window_index da + int i + training_time_window_size da)) \<and>
    (\<not> no_incremental_training da \<longrightarrow>
       select_window da (start_time_window_index da + int i) =
         (Single (start_time_window_index da + int i),
          start_time_window_index da + int i + 1)) \<and>
    ((no_incremental_training da \<longrightarrow> 1 \<le> training_time_window_size da) \<longrightarrow>
       last_train_index (fst (select_window da (start_time_window_index da + int i))) =
         Some (snd (select_window da (start_time_window_index da + int i)) - 1))"
proof -
  let ?t = "start_time_window_index da + int i"
  let ?K = "training_time_window_size da"
  have t: "loop_time_indices da ! i = ?t"
    using assms unfolding loop_time_indices_def by (rule nth_py_range)
  have sliding: "select_window da ?t = (Span [?t..?t + ?K - 1], ?t + ?K)"
    if "no_incremental_training da"
    using that by (simp add: select_window_def py_range_def)
  have incremental: "select_window da ?t = (Single ?t, ?t + 1)"
    if "\<not> no_incremental_training da"
    using that by (simp add: select_window_def)
  have eval_next: "last_train_index (fst (select_window da ?t)) =
      Some (snd (select_window da ?t) - 1)"
    if K: "no_incremental_training da \<longrightarrow> 1 \<le> ?K"
  proof (cases "no_incremental_training da")
    case True
    with K have "?t < ?t + ?K" by simp
    then have "py_range ?t (?t + ?K) \<noteq> []" and "last (py_range ?t (?t + ?K)) = ?t + ?K - 1"
      by (simp_all add: py_range_eq_Nil last_py_range)
    with True show ?thesis by (simp add: select_window_def)
  next
    case False
    then show ?thesis by (simp add: select_window_def)
  qed
  from t sliding incremental eval_next show ?thesis by blast
qed

text \<open>
  A run from index 1 to final index 6 with a sliding window of 2: the step of number 1
  trains on the indices 2 and 3 and evaluates on 4.
\<close>

theorem window_controller_spans_witness:
  "(1::nat) < length (loop_time_indices
       \<lparr>start_time_window_index = 1, final_time_window_index = 6,
        no_incremental_training = True, training_time_window_size = 2\<rparr>) \<and>
   select_window
       \<lparr>start_time_window_index = 1, final_time_window_index = 6,
        no_incremental_training = True, training_time_window_size = 2\<rparr> 2 =
     (Span [2, 3], 4) \<and>
   last_train_index (Span [2, 3]) = Some 3"
proof -
  let ?da = "\<lparr>start_time_window_index = 1, final_time_window_index = 6,
        no_incremental_training = True, training_time_window_size = 2\<rparr>"
  have len: "(1::nat) < length (loop_time_indices ?da)"
    by (simp add: loop_time_indices_def max_time_index_def length_py_range)
  have up: "[2..3] = [2, 3::int]" by (simp add: upto.simps)
  from window_controller_spans [OF len] have
    "select_window ?da (1 + int 1) = (Span [1 + int 1..1 + int 1 + 2 - 1], 1 + int 1 + 2)"
    by simp
  then have "select_window ?da 2 = (Span [2, 3], 4)" by (simp add: up)
  with len show ?thesis by simp
qed

subsection \<open>The refresh of the sampling frequencies\<close>

lemma get_items_sorted_freq_ascending:
  "get_items_sorted_freq rd paths = Inr series \<Longrightarrow> sorted (map snd series)"
  by (auto simp: get_items_sorted_freq_def Let_def split: if_splits)

text \<open>
  With negative sampling on, a step that finds \<^verbatim>\<open>train_data_paths\<close> unassigned stops
  with the interpreter's error for a local variable read before its assignment.
\<close>

lemma loop_body_unbound:
  assumes "negative_sampling ma" and "0 < neg_sampling_extra_samples_per_batch ma"
    and "train_data_paths st = None"
  shows "loop_body c da ma ta st t = Inl (UnboundLocalError ''train_data_paths'')"
  using assms by (simp add: loop_body_def split: prod.splits)

lemma main_loop_unbound:
  assumes "negative_sampling ma" and "0 < neg_sampling_extra_samples_per_batch ma"
    and "loop_time_indices da \<noteq> []"
  shows "main_loop c da ma ta m = Inl (UnboundLocalError ''train_data_paths'')"
proof -
  from assms(3) obtain t ts where ts: "loop_time_indices da = t # ts"
    by (cases "loop_time_indices da") auto
  have "loop_body c da ma ta \<lparr>train_data_paths = None, model = m, results_over_time = []\<rparr> t =
      Inl (UnboundLocalError ''train_data_paths'')"
    using assms(1,2) by (rule loop_body_unbound) simp
  then show ?thesis by (simp add: main_loop_def ts)
qed

text \<open>
  At a later step the frequencies handed to the sampler are computed from the value
  \<^verbatim>\<open>train_data_paths\<close> has when the step begins, the files of the step before, and
  the files of the step itself are assigned afterwards.
\<close>

lemma loop_body_refresh_from_previous_paths:
  assumes "negative_sampling ma" and "0 < neg_sampling_extra_samples_per_batch ma"
    and "train_data_paths st = Some previous"
    and "get_items_sorted_freq (read_parquet c) previous = Inr series"
    and "\<not> do_train ta" and "\<not> do_eval ta"
  shows "loop_body c da ma ta st t =
     Inr (st\<lparr>model := set_items_freq_for_sampling c series (model st),
             train_data_paths :=
               Some (get_parquet_files_names c da (fst (select_window da t)) True)\<rparr>)"
  using assms by (simp add: loop_body_def Let_def split: prod.splits)

text \<open>
  Claim C6, evaluated at a run the code can receive: negative sampling on with one extra
  sample per batch, incremental training from index 1 to final index 3. The claim has
  the ranking computed from the files of the first step before the first training; the
  loop stops at its first step, before any file is resolved, whatever the collaborators,
  the other flags and the model are.
\<close>

theorem negative_sampling_first_step_fails:
  "main_loop c
     \<lparr>start_time_window_index = 1, final_time_window_index = 3,
      no_incremental_training = False, training_time_window_size = 1\<rparr>
     \<lparr>negative_sampling = True, neg_sampling_extra_samples_per_batch = 1\<rparr> ta m =
   Inl (UnboundLocalError ''train_data_paths'')"
  by (rule main_loop_unbound)
    (simp_all add: loop_time_indices_def max_time_index_def py_range_eq_Nil)

text \<open>
  Without the refresh of the sampling frequencies every step runs, and with
  \<^verbatim>\<open>do_eval\<close> the table of results gets one record per step, under the
  evaluation index of the step.
\<close>

lemma loop_body_without_sampling:
  assumes "\<not> (negative_sampling ma \<and> 0 < neg_sampling_extra_samples_per_batch ma)"
  shows "\<exists>st'. loop_body c da ma ta st t = Inr st' \<and>
           train_data_paths st' =
             Some (get_parquet_files_names c da (fst (select_window da t)) True) \<and>
           fst ` set (results_over_time st') =
             (if do_eval ta then insert (snd (select_window da t)) (fst ` set (results_over_time st))
              else fst ` set (results_over_time st))"
  using assms
  by (cases "select_window da t") (auto simp: loop_body_def Let_def dict_set_def dom_update)

lemma run_steps_without_sampling:
  assumes "\<not> (negative_sampling ma \<and> 0 < neg_sampling_extra_samples_per_batch ma)"
  shows "\<exists>st'. run_steps c da ma ta st ts = Inr st' \<and>
           fst ` set (results_over_time st') =
             fst ` set (results_over_time st) \<union>
             (if do_eval ta then (\<lambda>t. snd (select_window da t)) ` set ts else {})"
proof (induction ts arbitrary: st)
  case Nil
  then show ?case by simp
next
  case (Cons t ts)
  from loop_body_without_sampling [OF assms, of c da ta st t]
  obtain st1 where b: "loop_body c da ma ta st t = Inr st1"
    and k1: "fst ` set (results_over_time st1) =
             (if do_eval ta then insert (snd (select_window da t)) (fst ` set (results_over_time st))
              else fst ` set (results_over_time st))"
    by blast
  from Cons.IH [of st1] obtain st' where r: "run_steps c da ma ta st1 ts = Inr st'"
    and k: "fst ` set (results_over_time st') =
             fst ` set (results_over_time st1) \<union>
             (if do_eval ta then (\<lambda>t. snd (select_window da t)) ` set ts else {})"
    by blast
  have "run_steps c da ma ta st (t # ts) = Inr st'" by (simp add: b r)
  moreover have "fst ` set (results_over_time st') =
             fst ` set (results_over_time st) \<union>
             (if do_eval ta then (\<lambda>t. snd (select_window da t)) ` set (t # ts) else {})"
    unfolding k k1 by auto
  ultimately show ?case by blast
qed

lemma main_loop_records_eval_indices:
  assumes "\<not> (negative_sampling ma \<and> 0 < neg_sampling_extra_samples_per_batch ma)"
    and "do_eval ta"
  shows "\<exists>st'. main_loop c da ma ta m = Inr st' \<and>
           fst ` set (results_over_time st') =
             (\<lambda>t. snd (select_window da t)) ` set (loop_time_indices da)"
  using run_steps_without_sampling [OF assms(1), of c da ta
      "\<lparr>train_data_paths = None, model = m, results_over_time = []\<rparr>" "loop_time_indices da"]
    assms(2)
  by (simp add: main_loop_def)

subsection \<open>The average over time\<close>

lemma map_of_suffixed:
  "k \<in> set ks \<Longrightarrow> map_of (map (\<lambda>k. (k @ sfx, f k)) ks) (k @ sfx) = Some (f k)"
  by (induction ks) auto

lemma set_df_columns: "set (df_columns rot) = (\<Union>(t, row)\<in>set rot. fst ` set row)"
  by (auto simp: df_columns_def)

lemma column_values_every_window:
  "\<forall>(t, row)\<in>set rot. map_of row k \<noteq> None \<Longrightarrow>
   column_values rot k = map (\<lambda>(t, row). the (map_of row k)) rot"
proof (induction rot)
  case Nil
  then show ?case by (simp add: column_values_def map_filter_simps)
next
  case (Cons w rot)
  obtain t row where w: "w = (t, row)" by (cases w)
  with Cons.prems obtain v where v: "map_of row k = Some v" by auto
  from Cons have "column_values rot k = map (\<lambda>(t, row). the (map_of row k)) rot" by simp
  then show ?case using v by (simp add: column_values_def map_filter_simps w)
qed

text \<open>
  Claim C3. On the main process with \<^verbatim>\<open>do_eval\<close> set, the summary is computed from
  the table of the recorded windows. Its keys are the columns of the table with the
  suffix \<^verbatim>\<open>_AOD\<close>; the value under \<open>k_AOD\<close> is the arithmetic mean of the values
  recorded under \<open>k\<close>, which, for a metric that every window records, is the sum of its
  values over all recorded windows divided by the number of windows.
\<close>

theorem average_over_time_summary:
  "final_summary True (ta\<lparr>do_eval := True\<rparr>) rot = Some (results_avg_time rot) \<and>
   fst ` set (results_avg_time rot) = (\<lambda>k. k @ ''_AOD'') ` set (df_columns rot) \<and>
   (k \<in> set (df_columns rot) \<longrightarrow>
      map_of (results_avg_time rot) (k @ ''_AOD'') = Some (mean (column_values rot k))) \<and>
   ((\<forall>(t, row)\<in>set rot. map_of row k \<noteq> None) \<longrightarrow>
      mean (column_values rot k) =
        sum_list (map (\<lambda>(t, row). the (map_of row k)) rot) / real (length rot))"
proof -
  have keys: "fst ` set (results_avg_time rot) = (\<lambda>k. k @ ''_AOD'') ` set (df_columns rot)"
    by (force simp: results_avg_time_def)
  have val: "map_of (results_avg_time rot) (k @ ''_AOD'') = Some (mean (column_values rot k))"
    if "k \<in> set (df_columns rot)"
    unfolding results_avg_time_def using that by (rule map_of_suffixed)
  have all: "mean (column_values rot k) =
        sum_list (map (\<lambda>(t, row). the (map_of row k)) rot) / real (length rot)"
    if "\<forall>(t, row)\<in>set rot. map_of row k \<noteq> None"
    using column_values_every_window [OF that] by (simp add: mean_def)
  from keys val all show ?thesis by (simp add: final_summary_def)
qed

text \<open>
  The fixture of two windows that record \<^verbatim>\<open>ndcg_10\<close> as 0.5 and 0.7: the summary
  holds 0.6 under \<^verbatim>\<open>ndcg_10_AOD\<close>.
\<close>

theorem average_over_time_summary_witness:
  "''ndcg_10'' \<in> set (df_columns [(1, [(''ndcg_10'', 0.5)]), (2, [(''ndcg_10'', 0.7)])]) \<and>
   map_of (results_avg_time [(1, [(''ndcg_10'', 0.5)]), (2, [(''ndcg_10'', 0.7)])])
     ''ndcg_10_AOD'' = Some 0.6"
proof -
  let ?rot = "[(1::int, [(''ndcg_10'', 0.5::real)]), (2, [(''ndcg_10'', 0.7)])]"
  have col: "''ndcg_10'' \<in> set (df_columns ?rot)" by (simp add: set_df_columns)
  have every: "\<forall>(t, row)\<in>set ?rot. map_of row ''ndcg_10'' \<noteq> None"
    by (simp del: not_None_eq)
  from average_over_time_summary [of ta ?rot "''ndcg_10''"] col every
  have "map_of (results_avg_time ?rot) (''ndcg_10'' @ ''_AOD'') =
      Some (sum_list (map (\<lambda>(t, row). the (map_of row ''ndcg_10'')) ?rot) / real (length ?rot))"
    by simp
  then have "map_of (results_avg_time ?rot) ''ndcg_10_AOD'' = Some 0.6" by simp
  with col show ?thesis by simp
qed

subsection \<open>Label extraction\<close>

lemma masked_select_Nil [simp]: "masked_select [] ms = []" "masked_select xs [] = []"
  by (simp_all add: masked_select_def)

lemma masked_select_Cons [simp]:
  "masked_select (x # xs) (m # ms) = (if m then x # masked_select xs ms else masked_select xs ms)"
  by (simp add: masked_select_def)

lemma masked_select_ne_mask: "masked_select xs (ne_mask xs p) = filter (\<lambda>v. v \<noteq> p) xs"
  by (induction xs) (simp_all add: ne_mask_def)

lemma masked_select_append:
  "length xs = length ms \<Longrightarrow>
   masked_select (xs @ ys) (ms @ ns) = masked_select xs ms @ masked_select ys ns"
  by (simp add: masked_select_def)

lemma masked_select_replicate_True: "masked_select r (replicate (length r) True) = r"
  by (induction r) simp_all

lemma masked_select_replicate_False: "masked_select r (replicate (length r) False) = []"
  by (induction r) simp_all

lemma masked_select_replicate:
  "masked_select r (replicate (length r) m) = (if m then r else [])"
  by (simp add: masked_select_replicate_True masked_select_replicate_False)

lemma masked_select_rows:
  assumes "length rs = length ms" and "\<forall>r\<in>set rs. length r = d"
  shows "masked_select (concat rs) (concat (map (replicate d) ms)) =
         concat (masked_select rs ms)"
  using assms
proof (induction rs ms rule: list_induct2)
  case Nil
  then show ?case by simp
next
  case (Cons r rs m ms)
  then have d: "length r = d" by simp
  have "masked_select (r @ concat rs) (replicate d m @ concat (map (replicate d) ms)) =
        masked_select r (replicate d m) @ masked_select (concat rs) (concat (map (replicate d) ms))"
    by (rule masked_select_append) (simp add: d)
  with Cons d show ?case using masked_select_replicate [of r m] by simp
qed

lemma length_chunks [simp]: "length (chunks n d xs) = n"
  by (induction n arbitrary: xs) simp_all

lemma concat_chunks: "length xs = n * d \<Longrightarrow> concat (chunks n d xs) = xs"
  by (induction n arbitrary: xs) simp_all

lemma chunks_row_length: "length xs = n * d \<Longrightarrow> r \<in> set (chunks n d xs) \<Longrightarrow> length r = d"
proof (induction n arbitrary: xs)
  case 0
  then show ?case by simp
next
  case (Suc n)
  from Suc.prems(1) have rest: "length (drop d xs) = n * d" by simp
  from Suc.prems(2) consider "r = take d xs" | "r \<in> set (chunks n d (drop d xs))" by auto
  then show ?case
  proof cases
    case 1
    with Suc.prems(1) show ?thesis by simp
  next
    case 2
    show ?thesis by (rule Suc.IH [OF rest 2])
  qed
qed

lemma chunks_concat:
  "\<forall>r\<in>set rs. length r = d \<Longrightarrow> chunks (length rs) d (concat rs) = rs"
  by (induction rs) simp_all

lemma length_concat_rows: "\<forall>r\<in>set rs. length r = d \<Longrightarrow> length (concat rs) = length rs * d"
  by (induction rs) simp_all

lemma masked_select_subset: "set (masked_select xs ms) \<subseteq> set xs"
  by (auto simp: masked_select_def dest: set_zip_leftD)

lemma zip_masked_select:
  "length xs = length ys \<Longrightarrow>
   zip (masked_select xs ms) (masked_select ys ms) = masked_select (zip xs ys) ms"
proof (induction xs ys arbitrary: ms rule: list_induct2)
  case Nil
  then show ?case by simp
next
  case (Cons x xs y ys)
  then show ?case by (cases ms) simp_all
qed

lemma masked_select_zip_ne_mask:
  "length xs = length ys \<Longrightarrow>
   masked_select (zip xs ys) (ne_mask xs p) = filter (\<lambda>(l, r). l \<noteq> p) (zip xs ys)"
  by (induction xs ys rule: list_induct2) (simp_all add: ne_mask_def)


lemma length_masked_select_ne_mask:
  "length xs = length ys \<Longrightarrow>
   length (masked_select ys (ne_mask xs p)) = length (filter (\<lambda>v. v \<noteq> p) xs)"
  by (induction xs ys rule: list_induct2) (simp_all add: ne_mask_def)

lemma length_ne_mask [simp]: "length (ne_mask xs p) = length xs"
  by (simp add: ne_mask_def)

lemma rows_of_flatten_end_dim1:
  assumes "wf3 x"
  shows "length (rows_of (flatten_end_dim1 x)) = dim0 x * dim1 x"
    and "concat (rows_of (flatten_end_dim1 x)) = data3 x"
    and "\<forall>r\<in>set (rows_of (flatten_end_dim1 x)). length r = dim2 x"
proof -
  from assms have len: "length (data3 x) = (dim0 x * dim1 x) * dim2 x"
    by (simp add: wf3_def)
  show "length (rows_of (flatten_end_dim1 x)) = dim0 x * dim1 x"
    by (simp add: rows_of_def flatten_end_dim1_def)
  show "concat (rows_of (flatten_end_dim1 x)) = data3 x"
    using len by (simp add: rows_of_def flatten_end_dim1_def concat_chunks)
  show "\<forall>r\<in>set (rows_of (flatten_end_dim1 x)). length r = dim2 x"
    using len by (auto simp: rows_of_def flatten_end_dim1_def dest: chunks_row_length)
qed

lemma remove_pad_3d_rows:
  assumes wf: "wf3 x" and n: "length msk = dim0 x * dim1 x" and d: "0 < dim2 x"
  shows "remove_pad_3d x msk =
     Inr \<lparr>size0 = length (masked_select (rows_of (flatten_end_dim1 x)) msk),
          size1 = dim2 x,
          data = concat (masked_select (rows_of (flatten_end_dim1 x)) msk)\<rparr>"
proof -
  let ?inp = "flatten_end_dim1 x"
  let ?rs = "rows_of ?inp"
  let ?sel = "masked_select ?rs msk"
  note rows = rows_of_flatten_end_dim1 [OF wf]
  have sizes: "size0 ?inp = dim0 x * dim1 x" "size1 ?inp = dim2 x" "data ?inp = data3 x"
    by (simp_all add: flatten_end_dim1_def)
  have expand: "unsqueeze1_expand_as msk ?inp =
      Inr \<lparr>size0 = dim0 x * dim1 x, size1 = dim2 x,
           data = concat (map (replicate (dim2 x)) msk)\<rparr>"
    using n by (simp add: unsqueeze1_expand_as_def sizes)
  have "masked_select (concat ?rs) (concat (map (replicate (dim2 x)) msk)) = concat ?sel"
    using rows(1) rows(3) n by (intro masked_select_rows) simp_all
  then have sel: "masked_select (data3 x) (concat (map (replicate (dim2 x)) msk)) = concat ?sel"
    by (simp add: rows(2))
  have "\<forall>r\<in>set ?sel. length r = dim2 x"
    using rows(3) masked_select_subset [of ?rs msk] by blast
  then have len: "length (concat ?sel) = length ?sel * dim2 x"
    by (rule length_concat_rows)
  have "view_rows (concat ?sel) (dim2 x) =
      Inr \<lparr>size0 = length ?sel, size1 = dim2 x, data = concat ?sel\<rparr>"
    using d len by (simp add: view_rows_def)
  then show ?thesis
    by (simp add: remove_pad_3d_def Let_def expand sizes sel)
qed

text \<open>
  With hidden states of width 0 the last step of \<^verbatim>\<open>remove_pad_3d\<close> has no shape
  to infer and raises: the width is at least 1 in what follows.
\<close>

lemma remove_pad_3d_zero_width:
  "dim2 x = 0 \<Longrightarrow> length msk = dim0 x * dim1 x \<Longrightarrow> isl (remove_pad_3d x msk)"
  by (simp add: remove_pad_3d_def Let_def flatten_end_dim1_def unsqueeze1_expand_as_def
      view_rows_def)

text \<open>
  Claim C1. For labels of shape \<open>[B, S]\<close>, a padding value \<open>p\<close> and hidden states of
  shape \<open>[B, S, D]\<close> with \<open>D\<close> at least 1, the label-extraction step does not raise;
  the flat labels are the labels different from \<open>p\<close> in row-major order, so their number
  is the number of positions different from \<open>p\<close>; the states are a well-formed matrix
  of as many rows of width \<open>D\<close>, the rows of the flattened input selected by the same
  mask in the same order; and pairing the flat labels with the rows of the states gives
  exactly the pairs of label and hidden vector of the positions whose label is not \<open>p\<close>.
\<close>

theorem label_extraction_aligned:
  assumes "wf2 labels" and "wf3 x"
    and "size0 labels = dim0 x" and "size1 labels = dim1 x" and "0 < dim2 x"
  shows "case remove_padded_items labels p x of
      Inl e \<Rightarrow> False
    | Inr (labels_flat, states_flat) \<Rightarrow>
        labels_flat = filter (\<lambda>v. v \<noteq> p) (flatten labels) \<and>
        length labels_flat = length (filter (\<lambda>v. v \<noteq> p) (flatten labels)) \<and>
        wf2 states_flat \<and>
        size0 states_flat = length labels_flat \<and>
        size1 states_flat = dim2 x \<and>
        rows_of states_flat =
          masked_select (rows_of (flatten_end_dim1 x)) (ne_mask (flatten labels) p) \<and>
        zip labels_flat (rows_of states_flat) =
          filter (\<lambda>(l, r). l \<noteq> p) (zip (flatten labels) (rows_of (flatten_end_dim1 x)))"
proof -
  let ?ls = "flatten labels"
  let ?m = "ne_mask ?ls p"
  let ?rs = "rows_of (flatten_end_dim1 x)"
  let ?sel = "masked_select ?rs ?m"
  let ?st = "\<lparr>size0 = length ?sel, size1 = dim2 x, data = concat ?sel\<rparr>"
  note rows = rows_of_flatten_end_dim1 [OF assms(2)]
  have len_ls: "length ?ls = dim0 x * dim1 x"
    using assms(1,3,4) by (simp add: wf2_def flatten_def)
  then have same: "length ?ls = length ?rs" by (simp add: rows(1))
  have rp: "remove_pad_3d x ?m = Inr ?st"
    using assms(2) _ assms(5) by (rule remove_pad_3d_rows) (simp add: len_ls)
  have run: "remove_padded_items labels p x = Inr (filter (\<lambda>v. v \<noteq> p) ?ls, ?st)"
    by (simp add: remove_padded_items_def Let_def rp masked_select_ne_mask)
  have sel_rows: "\<forall>r\<in>set ?sel. length r = dim2 x"
    using rows(3) masked_select_subset [of ?rs ?m] by blast
  have wf: "wf2 ?st"
    using sel_rows by (simp add: wf2_def length_concat_rows)
  have cnt: "length ?sel = length (filter (\<lambda>v. v \<noteq> p) ?ls)"
    using same by (rule length_masked_select_ne_mask)
  have rows_st: "rows_of ?st = ?sel"
    using sel_rows by (simp add: rows_of_def chunks_concat)
  have "zip (masked_select ?ls ?m) ?sel = masked_select (zip ?ls ?rs) ?m"
    using same by (rule zip_masked_select)
  also have "\<dots> = filter (\<lambda>(l, r). l \<noteq> p) (zip ?ls ?rs)"
    using same by (rule masked_select_zip_ne_mask)
  finally have aligned: "zip (filter (\<lambda>v. v \<noteq> p) ?ls) (rows_of ?st) =
      filter (\<lambda>(l, r). l \<noteq> p) (zip ?ls ?rs)"
    by (simp add: masked_select_ne_mask rows_st)
  show ?thesis
    unfolding run using wf cnt rows_st aligned by simp
qed

text \<open>
  Two sessions of two positions with labels 5, 0 and 0, 7 and padding 0: the labels 5
  and 7 are kept with the hidden vectors of their positions.
\<close>

theorem label_extraction_aligned_witness:
  "wf2 \<lparr>size0 = 2, size1 = 2, data = [5, 0, 0, 7 :: int]\<rparr> \<and>
   wf3 \<lparr>dim0 = 2, dim1 = 2, dim2 = 1, data3 = [10, 20, 30, 40 :: int]\<rparr> \<and>
   remove_padded_items \<lparr>size0 = 2, size1 = 2, data = [5, 0, 0, 7]\<rparr> 0
       \<lparr>dim0 = 2, dim1 = 2, dim2 = 1, data3 = [10, 20, 30, 40 :: int]\<rparr> =
     Inr ([5, 7], \<lparr>size0 = 2, size1 = 1, data = [10, 40]\<rparr>)"
proof -
  let ?labels = "\<lparr>size0 = 2, size1 = 2, data = [5, 0, 0, 7 :: int]\<rparr>"
  let ?x = "\<lparr>dim0 = 2, dim1 = 2, dim2 = 1, data3 = [10, 20, 30, 40 :: int]\<rparr>"
  have h1: "wf2 ?labels" by (simp add: wf2_def)
  have h2: "wf3 ?x" by (simp add: wf3_def)
  have h3: "size0 ?labels = dim0 ?x" "size1 ?labels = dim1 ?x" "0 < dim2 ?x" by simp_all
  have run: "remove_padded_items ?labels 0 ?x =
      Inr ([5, 7], \<lparr>size0 = 2, size1 = 1, data = [10, 40]\<rparr>)"
    by (simp add: remove_padded_items_def remove_pad_3d_def flatten_def ne_mask_def
        flatten_end_dim1_def unsqueeze1_expand_as_def view_rows_def Let_def)
  from label_extraction_aligned [OF h1 h2 h3, of 0] h1 h2 run show ?thesis by simp
qed

subsection \<open>The scoring head\<close>

lemma head_logits_temperature [simp]:
  "head_logits s (h\<lparr>head_softmax_temperature := tau\<rparr>) inputs = head_logits s h inputs"
  by (simp add: head_logits_def split: option.splits)

lemma tensor_div_one [simp]: "tensor_div t 1 = t"
  by (simp add: tensor_div_def)

lemma chunks_map: "chunks n d (map f xs) = map (map f) (chunks n d xs)"
  by (induction n arbitrary: xs) (simp_all add: take_map drop_map)

lemma rows_of_tensor_div: "rows_of (tensor_div t tau) = map (map (\<lambda>v. v / tau)) (rows_of t)"
  by (simp add: rows_of_def tensor_div_def chunks_map)

lemma log_softmax_row_scaled:
  "log_softmax_row (map (\<lambda>v. v / tau) row) =
   map (\<lambda>v. v / tau - ln (\<Sum>u\<leftarrow>row. exp (u / tau))) row"
  by (simp add: log_softmax_row_def comp_def)

lemma log_softmax_tensor_div:
  "log_softmax (tensor_div t tau) =
   \<lparr>size0 = size0 t, size1 = size1 t,
    data = concat (map (\<lambda>row. map (\<lambda>v. v / tau - ln (\<Sum>u\<leftarrow>row. exp (u / tau))) row)
                       (rows_of t))\<rparr>"
proof -
  have "map log_softmax_row (rows_of (tensor_div t tau)) =
      map (\<lambda>row. map (\<lambda>v. v / tau - ln (\<Sum>u\<leftarrow>row. exp (u / tau))) row) (rows_of t)"
    by (simp add: rows_of_tensor_div log_softmax_row_scaled comp_def)
  then show ?thesis by (simp add: log_softmax_def tensor_div_def)
qed

lemma log_softmax_plain:
  "log_softmax t =
   \<lparr>size0 = size0 t, size1 = size1 t,
    data = concat (map (\<lambda>row. map (\<lambda>v. v - ln (\<Sum>u\<leftarrow>row. exp u)) row) (rows_of t))\<rparr>"
  using log_softmax_tensor_div [of t 1] by simp

text \<open>
  Claim C5. For every store, head and input and every temperature \<open>tau > 0\<close> (so not the
  disabling value 0), each entry \<open>v\<close> of the output is \<open>v / tau\<close> minus the logarithm of
  the sum of \<open>exp (u / tau)\<close> over the entries \<open>u\<close> of its row of logits: every logit is
  divided by \<open>tau\<close> before the row is normalised, and the normalised value is not
  divided again. With the disabling value 0 nothing is divided, and with \<open>tau = 1\<close> the
  output equals the output with scaling disabled.
\<close>

theorem temperature_before_log_softmax:
  "(0 < tau \<longrightarrow>
      head_forward s (h\<lparr>head_softmax_temperature := tau\<rparr>) inputs =
        (case head_logits s h inputs of
           Inl e \<Rightarrow> Inl e
         | Inr logits \<Rightarrow>
             Inr \<lparr>size0 = size0 logits, size1 = size1 logits,
                  data = concat (map (\<lambda>row. map (\<lambda>v. v / tau - ln (\<Sum>u\<leftarrow>row. exp (u / tau))) row)
                                     (rows_of logits))\<rparr>)) \<and>
   head_forward s (h\<lparr>head_softmax_temperature := 0\<rparr>) inputs =
     (case head_logits s h inputs of
        Inl e \<Rightarrow> Inl e
      | Inr logits \<Rightarrow>
          Inr \<lparr>size0 = size0 logits, size1 = size1 logits,
               data = concat (map (\<lambda>row. map (\<lambda>v. v - ln (\<Sum>u\<leftarrow>row. exp u)) row)
                                  (rows_of logits))\<rparr>) \<and>
   head_forward s (h\<lparr>head_softmax_temperature := 1\<rparr>) inputs =
     head_forward s (h\<lparr>head_softmax_temperature := 0\<rparr>) inputs"
proof (intro conjI impI)
  assume "0 < tau"
  then show "head_forward s (h\<lparr>head_softmax_temperature := tau\<rparr>) inputs =
        (case head_logits s h inputs of
           Inl e \<Rightarrow> Inl e
         | Inr logits \<Rightarrow>
             Inr \<lparr>size0 = size0 logits, size1 = size1 logits,
                  data = concat (map (\<lambda>row. map (\<lambda>v. v / tau - ln (\<Sum>u\<leftarrow>row. exp (u / tau))) row)
                                     (rows_of logits))\<rparr>)"
    by (simp add: head_forward_def log_softmax_tensor_div split: sum.splits)
next
  show "head_forward s (h\<lparr>head_softmax_temperature := 0\<rparr>) inputs =
     (case head_logits s h inputs of
        Inl e \<Rightarrow> Inl e
      | Inr logits \<Rightarrow>
          Inr \<lparr>size0 = size0 logits, size1 = size1 logits,
               data = concat (map (\<lambda>row. map (\<lambda>v. v - ln (\<Sum>u\<leftarrow>row. exp u)) row)
                                  (rows_of logits))\<rparr>)"
    by (simp add: head_forward_def log_softmax_plain split: sum.splits)
next
  show "head_forward s (h\<lparr>head_softmax_temperature := 1\<rparr>) inputs =
     head_forward s (h\<lparr>head_softmax_temperature := 0\<rparr>) inputs"
    by (simp add: head_forward_def split: sum.splits)
qed

text \<open>
  A head tied to a table of two items of dimension 1 with weights 1 and 2 and a zero
  bias, on the input 3: the logits are 3 and 6, and with temperature 2 the output
  holds \<open>3/2 - ln (exp (3/2) + exp 3)\<close> and \<open>3 - ln (exp (3/2) + exp 3)\<close>.
\<close>

theorem temperature_before_log_softmax_witness:
  "(0::real) < 2 \<and>
   head_forward
     \<lparr>cells = [0 \<mapsto> P2 \<lparr>size0 = 2, size1 = 1, data = [1, 2]\<rparr>, 1 \<mapsto> P1 [0, 0]],
      next_addr = 2\<rparr>
     \<lparr>head_input_size = [1], head_target_dim = 2, head_weight_tying = True,
      head_item_embedding_table = Some \<lparr>weight = 0, num_embeddings = 2\<rparr>,
      head_softmax_temperature = 2, output_layer_bias = Some 1, output_layer = None\<rparr>
     \<lparr>size0 = 1, size1 = 1, data = [3]\<rparr> =
   Inr \<lparr>size0 = 1, size1 = 2,
        data = [3 / 2 - ln (exp (3 / 2) + exp 3), 3 - ln (exp (3 / 2) + exp 3)]\<rparr>"
proof -
  let ?s = "\<lparr>cells = [0 \<mapsto> P2 \<lparr>size0 = 2, size1 = 1, data = [1, 2]\<rparr>, 1 \<mapsto> P1 [0, 0]],
      next_addr = 2\<rparr>"
  let ?h = "\<lparr>head_input_size = [1], head_target_dim = 2, head_weight_tying = True,
      head_item_embedding_table = Some \<lparr>weight = 0, num_embeddings = 2\<rparr>,
      head_softmax_temperature = 2, output_layer_bias = Some 1, output_layer = None\<rparr>"
  let ?x = "\<lparr>size0 = 1, size1 = 1, data = [3::real]\<rparr>"
  have logits: "head_logits ?s ?h ?x = Inr \<lparr>size0 = 1, size1 = 2, data = [3, 6]\<rparr>"
    by (simp add: head_logits_def read_matrix_def read_vector_def functional_linear_def
        broadcast_bias_def rows_of_def dot_def eval_nat_numeral)
  have rows: "rows_of \<lparr>size0 = 1, size1 = 2, data = [3, 6::real]\<rparr> = [[3, 6]]"
    by (simp add: rows_of_def eval_nat_numeral)
  from temperature_before_log_softmax [of 2 ?s ?h ?x, THEN conjunct1] logits rows
  show ?thesis by simp
qed

text \<open>
  Dividing after the normalisation would give another result: on the logits 0 and 0
  with temperature 2, the output is \<open>- ln 2\<close> twice, not \<open>- ln 2 / 2\<close>.
\<close>

lemma scaling_after_log_softmax_differs:
  "log_softmax (tensor_div \<lparr>size0 = 1, size1 = 2, data = [0, 0]\<rparr> 2) \<noteq>
   tensor_div (log_softmax \<lparr>size0 = 1, size1 = 2, data = [0, 0]\<rparr>) 2"
proof -
  have "ln (2::real) \<noteq> 0" by simp
  then show ?thesis
    by (simp add: log_softmax_def tensor_div_def rows_of_def log_softmax_row_def
        eval_nat_numeral)
qed

lemma alloc_fresh: "store_ok s \<Longrightarrow> cells s (next_addr s) = None"
  by (auto simp: store_ok_def)

lemma alloc_store_ok: "store_ok s \<Longrightarrow> store_ok (snd (alloc p s))"
  by (auto simp: store_ok_def alloc_def less_Suc_eq)

lemma allocated_not_next: "store_ok s \<Longrightarrow> cells s a \<noteq> None \<Longrightarrow> a \<noteq> next_addr s \<and> a \<noteq> Suc (next_addr s)"
  by (auto simp: store_ok_def)

lemma read_matrix_other:
  "a \<noteq> b \<Longrightarrow> read_matrix (st\<lparr>cells := (cells st)(b \<mapsto> p)\<rparr>) a = read_matrix st a"
  by (simp add: read_matrix_def)

lemma read_vector_other:
  "a \<noteq> b \<Longrightarrow> read_vector (st\<lparr>cells := (cells st)(b \<mapsto> p)\<rparr>) a = read_vector st a"
  by (simp add: read_vector_def)

text \<open>
  Claim C4. In weight-tying mode the constructor creates one parameter only, a bias of
  size \<open>V\<close> filled with zeros, and no weight matrix; whatever the store holds at the
  time of a call, the logits are the linear map of the input with the weight found at
  the embedding table's own reference and that bias, so a change of the table's weight
  is a change of the head's weight. In the other mode the constructor creates a weight
  and a bias of its own at two new references, the logits are the linear map with
  these, and a change of the table's weight leaves the logits as they are.
\<close>

theorem weight_tying_shares_embedding_weight:
  assumes "store_ok s" and "cells s (weight tbl) \<noteq> None"
  shows "(case head_init rnd s isz V True (Some tbl) temp of
            Inl e \<Rightarrow> False
          | Inr (h, s') \<Rightarrow>
              output_layer h = None \<and>
              output_layer_bias h = Some (next_addr s) \<and>
              next_addr s \<noteq> weight tbl \<and>
              cells s' = (cells s)(next_addr s \<mapsto> P1 (replicate V 0)) \<and>
              (\<forall>st x. head_logits st h x =
                 (case read_matrix st (weight tbl) of
                    Inl e \<Rightarrow> Inl e
                  | Inr wv \<Rightarrow>
                      (case read_vector st (next_addr s) of
                         Inl e \<Rightarrow> Inl e
                       | Inr bv \<Rightarrow> functional_linear x wv bv)))) \<and>
         (isz \<noteq> [] \<and> 0 \<le> last isz \<longrightarrow>
          (case head_init rnd s isz V False tbl_opt temp of
            Inl e \<Rightarrow> False
          | Inr (h, s') \<Rightarrow>
              output_layer_bias h = None \<and>
              output_layer h = Some (next_addr s, Suc (next_addr s)) \<and>
              weight tbl \<noteq> next_addr s \<and> weight tbl \<noteq> Suc (next_addr s) \<and>
              cells s' = (cells s)
                (next_addr s \<mapsto> P2 (fst (rnd V (nat (last isz)))),
                 Suc (next_addr s) \<mapsto> P1 (snd (rnd V (nat (last isz))))) \<and>
              (\<forall>st x. head_logits st h x =
                 (case read_matrix st (next_addr s) of
                    Inl e \<Rightarrow> Inl e
                  | Inr wv \<Rightarrow>
                      (case read_vector st (Suc (next_addr s)) of
                         Inl e \<Rightarrow> Inl e
                       | Inr bv \<Rightarrow> functional_linear x wv bv))) \<and>
              (\<forall>st p x. head_logits (st\<lparr>cells := (cells st)(weight tbl \<mapsto> p)\<rparr>) h x =
                         head_logits st h x)))"
proof -
  from assms have ne: "weight tbl \<noteq> next_addr s" "weight tbl \<noteq> Suc (next_addr s)"
    using allocated_not_next by blast+
  have tied: "head_init rnd s isz V True (Some tbl) temp =
      Inr (\<lparr>head_input_size = isz, head_target_dim = V, head_weight_tying = True,
            head_item_embedding_table = Some tbl, head_softmax_temperature = temp,
            output_layer_bias = Some (next_addr s), output_layer = None\<rparr>,
           s\<lparr>cells := (cells s)(next_addr s \<mapsto> P1 (replicate V 0)),
             next_addr := Suc (next_addr s)\<rparr>)"
    by (simp add: head_init_def alloc_def)
  have untied: "head_init rnd s isz V False tbl_opt temp =
      Inr (\<lparr>head_input_size = isz, head_target_dim = V, head_weight_tying = False,
            head_item_embedding_table = tbl_opt, head_softmax_temperature = temp,
            output_layer_bias = None,
            output_layer = Some (next_addr s, Suc (next_addr s))\<rparr>,
           s\<lparr>cells := (cells s)
               (next_addr s \<mapsto> P2 (fst (rnd V (nat (last isz)))),
                Suc (next_addr s) \<mapsto> P1 (snd (rnd V (nat (last isz))))),
             next_addr := Suc (Suc (next_addr s))\<rparr>)"
    if "isz \<noteq> []" and "0 \<le> last isz"
    using that by (simp add: head_init_def alloc_def split: prod.splits)
  have part1: "case head_init rnd s isz V True (Some tbl) temp of
            Inl e \<Rightarrow> False
          | Inr (h, s') \<Rightarrow>
              output_layer h = None \<and>
              output_layer_bias h = Some (next_addr s) \<and>
              next_addr s \<noteq> weight tbl \<and>
              cells s' = (cells s)(next_addr s \<mapsto> P1 (replicate V 0)) \<and>
              (\<forall>st x. head_logits st h x =
                 (case read_matrix st (weight tbl) of
                    Inl e \<Rightarrow> Inl e
                  | Inr wv \<Rightarrow>
                      (case read_vector st (next_addr s) of
                         Inl e \<Rightarrow> Inl e
                       | Inr bv \<Rightarrow> functional_linear x wv bv)))"
    unfolding tied using ne by (simp add: head_logits_def)
  have part2: "case head_init rnd s isz V False tbl_opt temp of
            Inl e \<Rightarrow> False
          | Inr (h, s') \<Rightarrow>
              output_layer_bias h = None \<and>
              output_layer h = Some (next_addr s, Suc (next_addr s)) \<and>
              weight tbl \<noteq> next_addr s \<and> weight tbl \<noteq> Suc (next_addr s) \<and>
              cells s' = (cells s)
                (next_addr s \<mapsto> P2 (fst (rnd V (nat (last isz)))),
                 Suc (next_addr s) \<mapsto> P1 (snd (rnd V (nat (last isz))))) \<and>
              (\<forall>st x. head_logits st h x =
                 (case read_matrix st (next_addr s) of
                    Inl e \<Rightarrow> Inl e
                  | Inr wv \<Rightarrow>
                      (case read_vector st (Suc (next_addr s)) of
                         Inl e \<Rightarrow> Inl e
                       | Inr bv \<Rightarrow> functional_linear x wv bv))) \<and>
              (\<forall>st p x. head_logits (st\<lparr>cells := (cells st)(weight tbl \<mapsto> p)\<rparr>) h x =
                         head_logits st h x)"
    if "isz \<noteq> []" and "0 \<le> last isz"
    unfolding untied [OF that] using ne
    by (simp add: head_logits_def read_matrix_other read_vector_other cong: sum.case_cong)
  from part1 part2 show ?thesis by blast
qed

text \<open>
  A table of two items of dimension 1 at reference 0: the tied head gets the zero bias
  at reference 1, and once training has set the table's weight to 10 and 20 the head
  maps the input 3 to the logits 30 and 60. The head that is not tied gets a weight and
  a bias of its own at the references 1 and 2, and after the same change of the table
  it still maps the input 3 with its own zero weight.
\<close>

theorem weight_tying_shares_embedding_weight_witness:
  "store_ok \<lparr>cells = [0 \<mapsto> P2 \<lparr>size0 = 2, size1 = 1, data = [1, 2]\<rparr>], next_addr = 1\<rparr> \<and>
   cells \<lparr>cells = [0 \<mapsto> P2 \<lparr>size0 = 2, size1 = 1, data = [1, 2]\<rparr>], next_addr = 1\<rparr>
     (weight \<lparr>weight = 0, num_embeddings = 2\<rparr>) \<noteq> None \<and>
   head_logits
     \<lparr>cells = [0 \<mapsto> P2 \<lparr>size0 = 2, size1 = 1, data = [10, 20]\<rparr>, 1 \<mapsto> P1 [0, 0]],
      next_addr = 2\<rparr>
     \<lparr>head_input_size = [1], head_target_dim = 2, head_weight_tying = True,
      head_item_embedding_table = Some \<lparr>weight = 0, num_embeddings = 2\<rparr>,
      head_softmax_temperature = 1, output_layer_bias = Some 1, output_layer = None\<rparr>
     \<lparr>size0 = 1, size1 = 1, data = [3]\<rparr> =
   Inr \<lparr>size0 = 1, size1 = 2, data = [30, 60]\<rparr> \<and>
   head_init (\<lambda>v d. (\<lparr>size0 = v, size1 = d, data = replicate (v * d) 0\<rparr>, replicate v 0))
     \<lparr>cells = [0 \<mapsto> P2 \<lparr>size0 = 2, size1 = 1, data = [1, 2]\<rparr>], next_addr = 1\<rparr>
     [1] 2 False None 1 =
   Inr (\<lparr>head_input_size = [1], head_target_dim = 2, head_weight_tying = False,
         head_item_embedding_table = None, head_softmax_temperature = 1,
         output_layer_bias = None, output_layer = Some (1, 2)\<rparr>,
        \<lparr>cells = [0 \<mapsto> P2 \<lparr>size0 = 2, size1 = 1, data = [1, 2]\<rparr>,
                  1 \<mapsto> P2 \<lparr>size0 = 2, size1 = 1, data = [0, 0]\<rparr>, 2 \<mapsto> P1 [0, 0]],
         next_addr = 3\<rparr>) \<and>
   head_logits
     \<lparr>cells = [0 \<mapsto> P2 \<lparr>size0 = 2, size1 = 1, data = [10, 20]\<rparr>,
               1 \<mapsto> P2 \<lparr>size0 = 2, size1 = 1, data = [0, 0]\<rparr>, 2 \<mapsto> P1 [0, 0]],
      next_addr = 3\<rparr>
     \<lparr>head_input_size = [1], head_target_dim = 2, head_weight_tying = False,
      head_item_embedding_table = None, head_softmax_temperature = 1,
      output_layer_bias = None, output_layer = Some (1, 2)\<rparr>
     \<lparr>size0 = 1, size1 = 1, data = [3]\<rparr> =
   Inr \<lparr>size0 = 1, size1 = 2, data = [0, 0]\<rparr>"
proof -
  let ?s = "\<lparr>cells = [0 \<mapsto> P2 \<lparr>size0 = 2, size1 = 1, data = [1, 2]\<rparr>], next_addr = 1\<rparr>"
  let ?tbl = "\<lparr>weight = 0, num_embeddings = 2\<rparr>"
  let ?st = "\<lparr>cells = [0 \<mapsto> P2 \<lparr>size0 = 2, size1 = 1, data = [10, 20]\<rparr>, 1 \<mapsto> P1 [0, 0]],
      next_addr = 2\<rparr>"
  let ?h = "\<lparr>head_input_size = [1], head_target_dim = 2, head_weight_tying = True,
      head_item_embedding_table = Some ?tbl,
      head_softmax_temperature = 1, output_layer_bias = Some 1, output_layer = None\<rparr>"
  let ?x = "\<lparr>size0 = 1, size1 = 1, data = [3::real]\<rparr>"
  let ?rnd = "\<lambda>v d. (\<lparr>size0 = v, size1 = d, data = replicate (v * d) 0\<rparr>, replicate v 0)"
  have ok: "store_ok ?s" by (auto simp: store_ok_def split: if_splits)
  have tbl: "cells ?s (weight ?tbl) \<noteq> None" by simp
  have init: "head_init ?rnd ?s [1] 2 True (Some ?tbl) 1 =
      Inr (?h, \<lparr>cells = [0 \<mapsto> P2 \<lparr>size0 = 2, size1 = 1, data = [1, 2]\<rparr>,
                         1 \<mapsto> P1 [0, 0]], next_addr = 2\<rparr>)"
    by (simp add: head_init_def alloc_def eval_nat_numeral)
  note shared = weight_tying_shares_embedding_weight
    [OF ok tbl, where rnd = ?rnd and isz = "[1]" and V = 2 and temp = 1 and tbl_opt = None]
  from shared [THEN conjunct1]
  have "\<forall>st x. head_logits st ?h x =
      (case read_matrix st 0 of
         Inl e \<Rightarrow> Inl e
       | Inr wv \<Rightarrow>
           (case read_vector st 1 of
              Inl e \<Rightarrow> Inl e
            | Inr bv \<Rightarrow> functional_linear x wv bv))"
    unfolding init by (simp cong: sum.case_cong)
  then have "head_logits ?st ?h ?x =
      (case read_matrix ?st 0 of
         Inl e \<Rightarrow> Inl e
       | Inr wv \<Rightarrow>
           (case read_vector ?st 1 of
              Inl e \<Rightarrow> Inl e
            | Inr bv \<Rightarrow> functional_linear ?x wv bv))"
    by blast
  then have tied: "head_logits ?st ?h ?x = Inr \<lparr>size0 = 1, size1 = 2, data = [30, 60]\<rparr>"
    by (simp add: read_matrix_def read_vector_def functional_linear_def broadcast_bias_def rows_of_def dot_def
        eval_nat_numeral)
  let ?h2 = "\<lparr>head_input_size = [1], head_target_dim = 2, head_weight_tying = False,
      head_item_embedding_table = None, head_softmax_temperature = 1,
      output_layer_bias = None, output_layer = Some (1, 2)\<rparr>"
  let ?s2 = "\<lparr>cells = [0 \<mapsto> P2 \<lparr>size0 = 2, size1 = 1, data = [1, 2]\<rparr>,
                  1 \<mapsto> P2 \<lparr>size0 = 2, size1 = 1, data = [0, 0]\<rparr>, 2 \<mapsto> P1 [0, 0]],
         next_addr = 3\<rparr>"
  let ?st2 = "\<lparr>cells = [0 \<mapsto> P2 \<lparr>size0 = 2, size1 = 1, data = [10, 20]\<rparr>,
               1 \<mapsto> P2 \<lparr>size0 = 2, size1 = 1, data = [0, 0]\<rparr>, 2 \<mapsto> P1 [0, 0]],
      next_addr = 3\<rparr>"
  have init2: "head_init ?rnd ?s [1] 2 False None 1 = Inr (?h2, ?s2)"
    by (simp add: head_init_def alloc_def eval_nat_numeral)
  have pos: "[1::int] \<noteq> [] \<and> 0 \<le> last [1::int]" by simp
  from shared [THEN conjunct2] pos
  have "\<forall>st x. head_logits st ?h2 x =
      (case read_matrix st 1 of
         Inl e \<Rightarrow> Inl e
       | Inr wv \<Rightarrow>
           (case read_vector st 2 of
              Inl e \<Rightarrow> Inl e
            | Inr bv \<Rightarrow> functional_linear x wv bv))"
    unfolding init2 by (simp add: numeral_2_eq_2 cong: sum.case_cong)
  then have "head_logits ?st2 ?h2 ?x =
      (case read_matrix ?st2 1 of
         Inl e \<Rightarrow> Inl e
       | Inr wv \<Rightarrow>
           (case read_vector ?st2 2 of
              Inl e \<Rightarrow> Inl e
            | Inr bv \<Rightarrow> functional_linear ?x wv bv))"
    by blast
  then have untied: "head_logits ?st2 ?h2 ?x = Inr \<lparr>size0 = 1, size1 = 2, data = [0, 0]\<rparr>"
    by (simp add: read_matrix_def read_vector_def functional_linear_def broadcast_bias_def rows_of_def dot_def
        eval_nat_numeral)
  from ok tbl tied init2 untied show ?thesis by simp
qed

subsection \<open>A batch of padding only\<close>

lemma masked_select_all_padding:
  "\<forall>v\<in>set ls. v = p \<Longrightarrow> masked_select ys (ne_mask ls p) = []"
proof (induction ls arbitrary: ys)
  case Nil
  then show ?case by (simp add: ne_mask_def)
next
  case (Cons l ls)
  then have "masked_select (tl ys) (ne_mask ls p) = []" by simp
  with Cons.prems show ?case by (cases ys) (simp_all add: ne_mask_def)
qed

lemma remove_padded_items_all_padding:
  assumes "wf2 labels" and "wf3 x"
    and "size0 labels = dim0 x" and "size1 labels = dim1 x" and "0 < dim2 x"
    and "\<forall>v\<in>set (flatten labels). v = p"
  shows "remove_padded_items labels p x =
     Inr ([], \<lparr>size0 = 0, size1 = dim2 x, data = []\<rparr>)"
proof -
  let ?m = "ne_mask (flatten labels) p"
  have len: "length ?m = dim0 x * dim1 x"
    using assms(1,3,4) by (simp add: wf2_def flatten_def)
  have rp: "remove_pad_3d x ?m =
      Inr \<lparr>size0 = length (masked_select (rows_of (flatten_end_dim1 x)) ?m),
           size1 = dim2 x,
           data = concat (masked_select (rows_of (flatten_end_dim1 x)) ?m)\<rparr>"
    using assms(2) len assms(5) by (rule remove_pad_3d_rows)
  show ?thesis
    by (simp add: remove_padded_items_def Let_def rp masked_select_all_padding [OF assms(6)])
qed

lemma functional_linear_no_rows:
  "size0 inputs = 0 \<Longrightarrow> functional_linear inputs w b = Inr out \<Longrightarrow>
   size0 out = 0 \<and> data out = []"
  by (auto simp: functional_linear_def broadcast_bias_def rows_of_def split: if_splits)

lemma head_logits_no_rows:
  "size0 inputs = 0 \<Longrightarrow> head_logits s h inputs = Inr out \<Longrightarrow> size0 out = 0 \<and> data out = []"
  by (auto simp: head_logits_def split: if_splits option.splits sum.splits
      dest: functional_linear_no_rows)

lemma head_forward_no_rows:
  assumes "size0 inputs = 0" and "head_forward s h inputs = Inr preds"
  shows "size0 preds = 0 \<and> data preds = []"
proof -
  from assms(2) obtain logits where lg: "head_logits s h inputs = Inr logits"
    and preds: "preds = log_softmax (if head_softmax_temperature h \<noteq> 0
        then tensor_div logits (head_softmax_temperature h) else logits)"
    by (auto simp: head_forward_def Let_def split: sum.splits)
  from head_logits_no_rows [OF assms(1) lg] have "size0 logits = 0" by simp
  then show ?thesis
    by (simp add: preds log_softmax_def tensor_div_def rows_of_def)
qed

lemma masked_select_no_True: "\<forall>b\<in>set ms. \<not> b \<Longrightarrow> masked_select xs ms = []"
proof (induction xs arbitrary: ms)
  case Nil
  then show ?case by simp
next
  case (Cons x xs)
  show ?case
  proof (cases ms)
    case Nil
    then show ?thesis by simp
  next
    case (Cons b bs)
    with Cons.prems have "\<not> b" and "\<forall>b\<in>set bs. \<not> b" by auto
    with Cons.IH [of bs] Cons show ?thesis by simp
  qed
qed

lemma ne_mask_all_padding: "\<forall>v\<in>set ls. v = p \<Longrightarrow> \<forall>b\<in>set (ne_mask ls p). \<not> b"
  by (auto simp: ne_mask_def)

lemma unsqueeze1_expand_as_no_True:
  assumes "\<forall>b\<in>set msk. \<not> b" and "unsqueeze1_expand_as msk inp = Inr m"
  shows "\<forall>b\<in>set (data m). \<not> b"
proof (cases "length msk = size0 inp")
  case True
  with assms show ?thesis by (auto simp: unsqueeze1_expand_as_def)
next
  case False
  with assms(2) have one: "length msk = 1"
    and m: "data m = replicate (size0 inp * size1 inp) (hd msk)"
    by (auto simp: unsqueeze1_expand_as_def split: if_splits)
  from one have "msk \<noteq> []" by auto
  then have "hd msk \<in> set msk" by simp
  with assms(1) have "\<not> hd msk" by blast
  then show ?thesis by (simp add: m)
qed

text \<open>
  Whatever the shapes are, when the label-extraction step returns on labels that all
  equal the padding index, it returns no label and a matrix of no row.
\<close>

lemma remove_pad_3d_no_True:
  assumes "\<forall>b\<in>set msk. \<not> b" and "remove_pad_3d x msk = Inr x1"
  shows "size0 x1 = 0 \<and> data x1 = []"
proof -
  let ?inp = "flatten_end_dim1 x"
  from assms(2) obtain m where m: "unsqueeze1_expand_as msk ?inp = Inr m"
    and v: "view_rows (masked_select (data ?inp) (data m)) (size1 ?inp) = Inr x1"
    by (auto simp: remove_pad_3d_def Let_def split: sum.splits)
  from unsqueeze1_expand_as_no_True [OF assms(1) m]
  have "masked_select (data ?inp) (data m) = []" by (rule masked_select_no_True)
  with v show ?thesis by (auto simp: view_rows_def split: if_splits)
qed

lemma remove_padded_items_all_padding_result:
  assumes "\<forall>v\<in>set (flatten lbls). v = p"
    and "remove_padded_items lbls p x = Inr (ls, x1)"
  shows "ls = [] \<and> size0 x1 = 0 \<and> data x1 = []"
proof -
  let ?m = "ne_mask (flatten lbls) p"
  from assms(2) have ls: "ls = masked_select (flatten lbls) ?m"
    and rp: "remove_pad_3d x ?m = Inr x1"
    by (auto simp: remove_padded_items_def Let_def split: sum.splits)
  have none: "\<forall>b\<in>set ?m. \<not> b" using assms(1) by (rule ne_mask_all_padding)
  from none have "masked_select (flatten lbls) ?m = []" by (rule masked_select_no_True)
  with ls remove_pad_3d_no_True [OF none rp] show ?thesis by simp
qed

lemma forward_all_padding:
  assumes lb: "retrieve_labels self = Some lbls"
    and pad: "\<forall>v\<in>set (flatten lbls). v = padding_idx self"
    and fwd: "forward s self inputs = Inr out"
  shows "size0 (predictions_of out) = 0 \<and> data (predictions_of out) = [] \<and>
         (hf_format self \<longrightarrow> targets_of out targets = [])"
proof -
  from fwd lb obtain x ls x1 h x2
    where ex: "remove_padded_items lbls (padding_idx self) x = Inr (ls, x1)"
      and hd: "head_forward s h x1 = Inr x2"
      and out: "out = (if hf_format self then HF_outputs (loss self x2 ls) ls x2
                       else Predictions x2)"
    by (auto simp: forward_def Let_def retrieve_labels_def
        split: option.splits sum.splits prod.splits)
  from remove_padded_items_all_padding_result [OF pad ex]
  have ls: "ls = []" and x1: "size0 x1 = 0" by simp_all
  from head_forward_no_rows [OF x1 hd] ls show ?thesis by (simp add: out)
qed

text \<open>
  \<^verbatim>\<open>calculate_metrics\<close> has no test of the size of the batch: when it returns,
  the outputs hold one entry per metric name and every metric of the task is the metric
  after one call on the predictions and the targets.
\<close>

lemma calculate_metrics_calls_every_metric:
  assumes "calculate_metrics c2s s self call targets = Inr (outputs, self')"
  shows "fst ` set outputs = metric_name c2s self ` set (metrics self) \<and>
         (\<exists>preds tg.
            metrics self' = map (\<lambda>m. snd (call_metric m preds tg)) (metrics self) \<and>
            (case call of
               Without_forward p \<Rightarrow> preds = p \<and> tg = targets
             | With_forward x \<Rightarrow>
                 (\<exists>out. forward s self x = Inr out \<and> preds = predictions_of out \<and>
                        tg = targets_of out targets)))"
proof -
  let ?out = "\<lambda>preds tg. fold (\<lambda>m. dict_set (metric_name c2s self m) (fst (call_metric m preds tg)))
      (metrics self) []"
  let ?ms = "\<lambda>preds tg. map (\<lambda>m. snd (call_metric m preds tg)) (metrics self)"
  have keys: "fst ` set (?out preds tg) = metric_name c2s self ` set (metrics self)" for preds tg
    by (simp add: fold_dict_set_keys)
  have "\<exists>preds tg. outputs = ?out preds tg \<and> metrics self' = ?ms preds tg \<and>
      (case call of
         Without_forward p \<Rightarrow> preds = p \<and> tg = targets
       | With_forward x \<Rightarrow>
           (\<exists>out. forward s self x = Inr out \<and> preds = predictions_of out \<and>
                  tg = targets_of out targets))"
  proof (cases call)
    case (Without_forward p)
    with assms show ?thesis
      by (auto simp: calculate_metrics_def bind_err_def)
  next
    case (With_forward x)
    with assms obtain out where fwd: "forward s self x = Inr out"
      by (cases "forward s self x") (auto simp: calculate_metrics_def bind_err_def)
    show ?thesis
    proof (cases out)
      case (Predictions preds)
      with assms With_forward fwd show ?thesis
        by (auto simp: calculate_metrics_def bind_err_def)
    next
      case (HF_outputs l labels preds)
      with assms With_forward fwd show ?thesis
        by (auto simp: calculate_metrics_def bind_err_def)
    qed
  qed
  then obtain preds tg where o: "outputs = ?out preds tg"
    and rest: "metrics self' = ?ms preds tg \<and>
      (case call of
         Without_forward p \<Rightarrow> preds = p \<and> tg = targets
       | With_forward x \<Rightarrow>
           (\<exists>out. forward s self x = Inr out \<and> preds = predictions_of out \<and>
                  tg = targets_of out targets))"
    by blast
  from keys [of preds tg] o have "fst ` set outputs = metric_name c2s self ` set (metrics self)"
    by simp
  with rest show ?thesis by blast
qed

text \<open>
  A call on predictions of no row adds nothing to the running sums and counts of a
  ranking metric.
\<close>

lemma ranking_update_no_rows:
  assumes "size0 preds = 0" and "length acc = length ks"
  shows "ranking_update row_value ks preds tg acc = acc"
proof -
  from assms(1) have "rows_of preds = []" by (simp add: rows_of_def)
  then have "ranking_update row_value ks preds tg acc = map snd (zip ks acc)"
    by (simp add: ranking_update_def case_prod_unfold)
  also have "\<dots> = acc" using assms(2) by simp
  finally show ?thesis .
qed

lemma call_ranking_metric_no_rows:
  assumes "size0 preds = 0" and "length acc = length ks"
  shows "snd (call_metric (ranking_metric cls row_value ks acc) preds tg) =
         ranking_metric cls row_value ks acc"
  using ranking_update_no_rows [OF assms, of row_value tg]
  by (simp add: call_metric_def ranking_metric_def)

lemma ranking_metrics_unchanged_all_padding:
  assumes lb: "retrieve_labels self = Some lbls"
    and pad: "\<forall>v\<in>set (flatten lbls). v = padding_idx self"
    and rk: "\<forall>m\<in>set (metrics self). \<exists>cls row_value ks acc.
               m = ranking_metric cls row_value ks acc \<and> length acc = length ks"
    and calc: "calculate_metrics c2s s self (With_forward x) targets = Inr (outputs, self')"
  shows "metrics self' = metrics self \<and>
         fst ` set outputs = metric_name c2s self ` set (metrics self)"
proof -
  from calculate_metrics_calls_every_metric [OF calc]
  obtain preds tg out where keys: "fst ` set outputs = metric_name c2s self ` set (metrics self)"
    and ms: "metrics self' = map (\<lambda>m. snd (call_metric m preds tg)) (metrics self)"
    and fwd: "forward s self x = Inr out" and preds: "preds = predictions_of out"
    by auto
  from forward_all_padding [OF lb pad fwd] preds have empty: "size0 preds = 0" by simp
  have "snd (call_metric m preds tg) = m" if "m \<in> set (metrics self)" for m
  proof -
    from rk that obtain cls row_value ks acc
      where m: "m = ranking_metric cls row_value ks acc" and len: "length acc = length ks"
      by blast
    show ?thesis unfolding m using empty len by (rule call_ranking_metric_no_rows)
  qed
  then have "map (\<lambda>m. snd (call_metric m preds tg)) (metrics self) = metrics self"
    by (simp add: map_idI)
  with ms keys show ?thesis by simp
qed

text \<open>
  Claim C7, as the code has it. For a batch whose labels all equal the padding index:
  on labels of shape \<open>[B, S]\<close> and states of shape \<open>[B, S, D]\<close> with \<open>D\<close> at least 1 the
  label-extraction step gives no label and a matrix of no row without raising;
  whenever \<^verbatim>\<open>forward\<close> returns, its predictions have no row and, in
  \<^verbatim>\<open>hf_format\<close>, it hands no label on; the metric update is not skipped, for
  whenever \<^verbatim>\<open>calculate_metrics\<close> returns, its outputs hold an entry for every
  metric and every metric has been called once on the predictions and the targets (the
  labels of \<^verbatim>\<open>forward\<close> in \<^verbatim>\<open>hf_format\<close>, the caller's targets otherwise);
  and the accumulators of the ranking metrics, the running sums and counts of the spec,
  are after the batch what they were before it.
\<close>

theorem all_padding_batch_reaches_metrics:
  "(wf2 labels \<and> wf3 x \<and> size0 labels = dim0 x \<and> size1 labels = dim1 x \<and> 0 < dim2 x \<and>
    (\<forall>v\<in>set (flatten labels). v = p) \<longrightarrow>
      remove_padded_items labels p x = Inr ([], \<lparr>size0 = 0, size1 = dim2 x, data = []\<rparr>)) \<and>
   (retrieve_labels self = Some lbls \<and> (\<forall>v\<in>set (flatten lbls). v = padding_idx self) \<and>
    forward s self inputs = Inr out \<longrightarrow>
      size0 (predictions_of out) = 0 \<and> data (predictions_of out) = [] \<and>
      (hf_format self \<longrightarrow> targets_of out targets = [])) \<and>
   (calculate_metrics c2s s self call targets = Inr (outputs, self') \<longrightarrow>
      fst ` set outputs = metric_name c2s self ` set (metrics self) \<and>
      (\<exists>preds tg.
         metrics self' = map (\<lambda>m. snd (call_metric m preds tg)) (metrics self) \<and>
         (case call of
            Without_forward p \<Rightarrow> preds = p \<and> tg = targets
          | With_forward x \<Rightarrow>
              (\<exists>out. forward s self x = Inr out \<and> preds = predictions_of out \<and>
                     tg = targets_of out targets)))) \<and>
   (retrieve_labels self = Some lbls \<and> (\<forall>v\<in>set (flatten lbls). v = padding_idx self) \<and>
    (\<forall>m\<in>set (metrics self). \<exists>cls row_value ks acc.
        m = ranking_metric cls row_value ks acc \<and> length acc = length ks) \<and>
    calculate_metrics c2s s self (With_forward inputs) targets = Inr (outputs, self') \<longrightarrow>
      metrics self' = metrics self \<and>
      fst ` set outputs = metric_name c2s self ` set (metrics self))"
proof (intro conjI impI)
  assume "wf2 labels \<and> wf3 x \<and> size0 labels = dim0 x \<and> size1 labels = dim1 x \<and> 0 < dim2 x \<and>
    (\<forall>v\<in>set (flatten labels). v = p)"
  then show "remove_padded_items labels p x = Inr ([], \<lparr>size0 = 0, size1 = dim2 x, data = []\<rparr>)"
    by (intro remove_padded_items_all_padding) blast+
next
  assume "retrieve_labels self = Some lbls \<and> (\<forall>v\<in>set (flatten lbls). v = padding_idx self) \<and>
    forward s self inputs = Inr out"
  then have "size0 (predictions_of out) = 0 \<and> data (predictions_of out) = [] \<and>
      (hf_format self \<longrightarrow> targets_of out targets = [])"
    by (intro forward_all_padding) blast+
  then show "size0 (predictions_of out) = 0" and "data (predictions_of out) = []"
    and "hf_format self \<Longrightarrow> targets_of out targets = []"
    by blast+
next
  assume "calculate_metrics c2s s self call targets = Inr (outputs, self')"
  from calculate_metrics_calls_every_metric [OF this]
  show "fst ` set outputs = metric_name c2s self ` set (metrics self)"
    and "\<exists>preds tg.
         metrics self' = map (\<lambda>m. snd (call_metric m preds tg)) (metrics self) \<and>
         (case call of
            Without_forward p \<Rightarrow> preds = p \<and> tg = targets
          | With_forward x \<Rightarrow>
              (\<exists>out. forward s self x = Inr out \<and> preds = predictions_of out \<and>
                     tg = targets_of out targets))"
    by blast+
next
  assume h: "retrieve_labels self = Some lbls \<and> (\<forall>v\<in>set (flatten lbls). v = padding_idx self) \<and>
    (\<forall>m\<in>set (metrics self). \<exists>cls row_value ks acc.
        m = ranking_metric cls row_value ks acc \<and> length acc = length ks) \<and>
    calculate_metrics c2s s self (With_forward inputs) targets = Inr (outputs, self')"
  then have "metrics self' = metrics self \<and>
      fst ` set outputs = metric_name c2s self ` set (metrics self)"
    by (intro ranking_metrics_unchanged_all_padding [where lbls = lbls]) blast+
  then show "metrics self' = metrics self"
    and "fst ` set outputs = metric_name c2s self ` set (metrics self)"
    by blast+
qed

lemma example_head_forward_no_rows:
  "head_forward example_store example_head \<lparr>size0 = 0, size1 = 1, data = []\<rparr> =
   Inr \<lparr>size0 = 0, size1 = 2, data = []\<rparr>"
  by (simp add: head_forward_def head_logits_def example_head_def example_store_def
      example_table_def read_matrix_def read_vector_def functional_linear_def
      broadcast_bias_def rows_of_def log_softmax_def)

lemma padding_task_fields:
  "metrics padding_task = [ranking_metric ''NDCGAt'' ndcg_at [10, 20] (ranking_reset [10, 20])]"
  "task_name_attr padding_task = ''next-item''"
  "retrieve_labels padding_task = Some padding_labels"
  "padding_idx padding_task = 0"
  by (simp_all add: padding_task_def task_init_def retrieve_labels_def)

lemma padding_extraction:
  "remove_padded_items padding_labels 0 example_states =
   Inr ([], \<lparr>size0 = 0, size1 = 1, data = []\<rparr>)"
  by (simp add: remove_padded_items_def remove_pad_3d_def flatten_def ne_mask_def
      flatten_end_dim1_def unsqueeze1_expand_as_def view_rows_def Let_def
      padding_labels_def example_states_def)

lemma padding_task_forward:
  "forward example_store padding_task example_states =
   Inr (HF_outputs 0 [] \<lparr>size0 = 0, size1 = 2, data = []\<rparr>)"
  by (simp add: forward_def Let_def padding_task_def task_init_def padding_extraction
      example_head_forward_no_rows [unfolded One_nat_def])

text \<open>
  The session of two padding positions with the NDCG metric: the extraction gives
  nothing, and after \<^verbatim>\<open>calculate_metrics\<close>, called with two targets of the
  caller, the outputs hold the entry of the metric and the metric is as it was.
\<close>

theorem all_padding_batch_reaches_metrics_witness:
  "remove_padded_items padding_labels 0 example_states =
     Inr ([], \<lparr>size0 = 0, size1 = dim2 example_states, data = []\<rparr>) \<and>
   (\<exists>outputs self'.
      calculate_metrics (\<lambda>name. name) example_store padding_task
        (With_forward example_states) [5, 7] = Inr (outputs, self') \<and>
      metrics self' = metrics padding_task \<and>
      fst ` set outputs = metric_name (\<lambda>name. name) padding_task ` set (metrics padding_task))"
proof -
  have shapes: "wf2 padding_labels \<and> wf3 example_states \<and>
      size0 padding_labels = dim0 example_states \<and>
      size1 padding_labels = dim1 example_states \<and> 0 < dim2 example_states \<and>
      (\<forall>v\<in>set (flatten padding_labels). v = 0)"
    by (simp add: wf2_def wf3_def padding_labels_def example_states_def flatten_def)
  from all_padding_batch_reaches_metrics
    [where labels = padding_labels and x = example_states and p = 0, THEN conjunct1] shapes
  have first: "remove_padded_items padding_labels 0 example_states =
     Inr ([], \<lparr>size0 = 0, size1 = dim2 example_states, data = []\<rparr>)"
    by blast
  obtain outputs self' where calc: "calculate_metrics (\<lambda>name. name) example_store padding_task
        (With_forward example_states) [5, 7] = Inr (outputs, self')"
    by (simp add: calculate_metrics_def bind_err_def padding_task_forward)
  have pad: "\<forall>v\<in>set (flatten padding_labels). v = padding_idx padding_task"
    by (simp add: padding_task_fields padding_labels_def flatten_def)
  have rk: "\<forall>m\<in>set (metrics padding_task). \<exists>cls row_value ks acc.
        m = ranking_metric cls row_value ks acc \<and> length acc = length ks"
  proof -
    have "length (ranking_reset [10, 20]) = length [10, 20 :: nat]"
      by (simp add: ranking_reset_def)
    then have "\<exists>cls row_value ks acc.
        ranking_metric ''NDCGAt'' ndcg_at [10, 20] (ranking_reset [10, 20]) =
          ranking_metric cls row_value ks acc \<and> length acc = length ks"
      by blast
    then show ?thesis unfolding padding_task_fields by simp
  qed
  from all_padding_batch_reaches_metrics
    [where self = padding_task and lbls = padding_labels and s = example_store
       and inputs = example_states and c2s = "\<lambda>name. name" and targets = "[5, 7]"
       and outputs = outputs and self' = self',
     THEN conjunct2, THEN conjunct2, THEN conjunct2]
    padding_task_fields(3) pad rk calc
  have "metrics self' = metrics padding_task \<and>
      fst ` set outputs = metric_name (\<lambda>name. name) padding_task ` set (metrics padding_task)"
    by blast
  with first calc show ?thesis by blast
qed

text \<open>
  Against claim C7 as stated: on the session of two padding positions the metric update
  is not skipped. \<^verbatim>\<open>calculate_metrics\<close> calls the NDCG metric on the empty batch
  and puts what the call returns, the empty list of per-row values, into its outputs
  under the name of the metric; the accumulators of the metric are unchanged because
  the call adds nothing to them, not because it is left out.
\<close>

theorem all_padding_batch_update_not_skipped:
  "calculate_metrics (\<lambda>name. name) example_store padding_task (With_forward example_states) [] =
     Inr ([(Some ''next-item/NDCGAt'', [])], padding_task) \<and>
   [(Some ''next-item/NDCGAt'', [] :: real list)] \<noteq> []"
proof -
  let ?m = "ranking_metric ''NDCGAt'' ndcg_at [10, 20] (ranking_reset [10, 20])"
  let ?p = "\<lparr>size0 = 0, size1 = 2, data = [] :: real list\<rparr>"
  have nm: "metric_name (\<lambda>name. name) padding_task ?m = Some ''next-item/NDCGAt''"
    by (simp add: metric_name_def child_name_def task_name_def name_fn_def
        padding_task_fields ranking_metric_def)
  have upd: "ranking_update ndcg_at [10, 20] ?p [] (ranking_reset [10, 20]) = ranking_reset [10, 20]"
    by (rule ranking_update_no_rows) (simp_all add: ranking_reset_def)
  have call: "call_metric ?m ?p [] = ([], ?m)"
    using upd by (simp add: call_metric_def ranking_metric_def rows_of_def)
  have same: "padding_task\<lparr>metrics := [?m]\<rparr> = padding_task"
    using padding_task_fields(1) by (cases padding_task) simp
  have "calculate_metrics (\<lambda>name. name) example_store padding_task
      (With_forward example_states) [] =
     Inr ([(Some ''next-item/NDCGAt'', [])], padding_task\<lparr>metrics := [?m]\<rparr>)"
    by (simp add: calculate_metrics_def bind_err_def padding_task_forward
        padding_task_fields(1) nm call dict_set_def)
  then show ?thesis by (simp add: same)
qed

subsection \<open>Building the task\<close>

lemma is_ValueError_Inl: "is_ValueError (Inl e) \<longleftrightarrow> (\<exists>msg. e = ValueError msg)"
  by (cases e) simp_all

lemma is_ValueError_bind_err:
  "is_ValueError (bind_err r f) \<longleftrightarrow>
   is_ValueError r \<or> (\<exists>v. r = Inr v \<and> is_ValueError (f v))"
proof (cases r)
  case (Inl e)
  then show ?thesis by (cases e) (simp_all add: bind_err_def)
next
  case (Inr v)
  then show ?thesis by (simp add: bind_err_def)
qed

lemma embeddings_item_embedding_table_not_ValueError:
  "\<not> is_ValueError (embeddings_item_embedding_table self)"
  by (simp add: embeddings_item_embedding_table_def split: option.splits)

lemma read_matrix_not_ValueError: "\<not> is_ValueError (read_matrix s a)"
  by (simp add: read_matrix_def split: option.splits param.splits)

lemma read_vector_not_ValueError: "\<not> is_ValueError (read_vector s a)"
  by (simp add: read_vector_def split: option.splits param.splits)

lemma set_target_dim_not_ValueError: "\<not> is_ValueError (set_target_dim self)"
  by (simp add: set_target_dim_def is_ValueError_bind_err
      embeddings_item_embedding_table_not_ValueError)

lemma set_target_dim_task_block:
  "set_target_dim self = Inr self' \<Longrightarrow>
   task_block self' = task_block self \<and> weight_tying self' = weight_tying self \<and>
   embeddings self' = embeddings self"
  by (auto simp: set_target_dim_def bind_err_def split: if_splits sum.splits)

lemma tie_weights_not_ValueError: "\<not> is_ValueError (tie_weights MLPBlock s self isz tba)"
  by (simp add: tie_weights_def is_ValueError_bind_err Let_def
      embeddings_item_embedding_table_not_ValueError read_matrix_not_ValueError)

lemma tie_weights_block:
  assumes "tie_weights MLPBlock s self isz tba = Inr (self', tb)"
  shows "task_block self' = task_block self \<and>
         (tb = tba \<or> (\<exists>d. tb = Some (Buildable (MLPBlock d))))"
  using assms
  by (auto simp: tie_weights_def bind_err_def Let_def
      split: if_splits sum.splits option.splits)

lemma head_init_not_ValueError: "\<not> is_ValueError (head_init rnd s isz V wt tbl temp)"
  by (simp add: head_init_def alloc_def Let_def split: prod.splits)

text \<open>
  The exceptions of \<^verbatim>\<open>PredictionTask.build\<close> come from building the task block
  or from the constructor of the scoring head, and the latter raises no
  \<^verbatim>\<open>ValueError\<close>.
\<close>

lemma PredictionTask_build_not_ValueError:
  assumes "\<And>bld. tba = Some (Buildable bld) \<Longrightarrow> \<not> is_ValueError (bld isz)"
    and "\<And>bld. tba = None \<Longrightarrow> task_block self = Some (Buildable bld) \<Longrightarrow>
           \<not> is_ValueError (bld isz)"
  shows "\<not> is_ValueError (PredictionTask_build rnd s self isz tba V)"
proof -
  let ?self1 = "case tba of None \<Rightarrow> self | Some b \<Rightarrow> self\<lparr>task_block := Some b\<rparr>"
  have blk: "\<not> is_ValueError (bld isz)" if "task_block ?self1 = Some (Buildable bld)" for bld
    using that assms by (cases tba) auto
  have hi: "\<not> is_ValueError
      (case head_init rnd s sz V wt tbl temp of
         Inl e \<Rightarrow> Inl e
       | Inr (h, s') \<Rightarrow> Inr (g h s'))" for sz wt tbl temp and g :: "head \<Rightarrow> store \<Rightarrow> 'a task \<times> store"
    using head_init_not_ValueError [of rnd s sz V wt tbl temp]
    by (cases "head_init rnd s sz V wt tbl temp") (auto simp: is_ValueError_Inl)
  show ?thesis
  proof (cases "task_block ?self1")
    case None
    then show ?thesis
      by (simp add: PredictionTask_build_def Let_def hi)
  next
    case (Some b)
    show ?thesis
    proof (cases b)
      case (Module m)
      with Some show ?thesis
        by (simp add: PredictionTask_build_def Let_def hi)
    next
      case (Buildable bld)
      with Some have nv: "\<not> is_ValueError (bld isz)" by (simp add: blk)
      show ?thesis
      proof (cases "bld isz")
        case (Inl e)
        with nv Some Buildable show ?thesis
          by (simp add: PredictionTask_build_def Let_def is_ValueError_Inl)
      next
        case (Inr m)
        with Some Buildable show ?thesis
          by (simp add: PredictionTask_build_def Let_def hi)
      qed
    qed
  qed
qed

lemma build_past_checks:
  assumes "input_size = Shape isz" and "length isz = 3"
    and "resolve_inputs inputs bdy = Some inp" and "truthy_str (item_id inp)"
  shows "build MLPBlock rnd s self bdy input_size inputs tba =
     bind_err (set_target_dim (self\<lparr>embeddings := categorical_module inp\<rparr>))
       (\<lambda>self2.
     bind_err (tie_weights MLPBlock s self2 isz tba)
       (\<lambda>(self3, task_block1).
     PredictionTask_build rnd s (set_masking self3 inp) isz task_block1
       (case target_dim self3 of None \<Rightarrow> 0 | Some n \<Rightarrow> n)))"
  using assms by (simp add: build_def getattr_item_id_def)

lemma build_checks_fail:
  assumes "len_input_size input_size \<noteq> 3 \<or> is_dict input_size \<or>
           \<not> truthy_str (getattr_item_id (resolve_inputs inputs bdy))"
  shows "is_ValueError (build MLPBlock rnd s self bdy input_size inputs tba)"
  using assms by (auto simp: build_def)

lemma is_ValueError_case_sum:
  "is_ValueError (case r of Inl e \<Rightarrow> Inl e | Inr v \<Rightarrow> f v) \<longleftrightarrow>
   is_ValueError r \<or> (\<exists>v. r = Inr v \<and> is_ValueError (f v))"
  using is_ValueError_bind_err [of r f] by (simp add: bind_err_def)

lemma functional_linear_not_ValueError: "\<not> is_ValueError (functional_linear x w b)"
  by (simp add: functional_linear_def broadcast_bias_def)

lemma head_logits_not_ValueError: "\<not> is_ValueError (head_logits s h x)"
  by (simp add: head_logits_def is_ValueError_case_sum read_matrix_not_ValueError
      read_vector_not_ValueError functional_linear_not_ValueError
      split: option.splits prod.splits)

lemma head_forward_not_ValueError: "\<not> is_ValueError (head_forward s h x)"
  by (simp add: head_forward_def Let_def is_ValueError_case_sum head_logits_not_ValueError)

lemma remove_pad_3d_not_ValueError: "\<not> is_ValueError (remove_pad_3d x msk)"
  by (simp add: remove_pad_3d_def Let_def is_ValueError_case_sum unsqueeze1_expand_as_def
      view_rows_def)

lemma remove_padded_items_not_ValueError: "\<not> is_ValueError (remove_padded_items labels p x)"
  by (simp add: remove_padded_items_def Let_def is_ValueError_case_sum
      remove_pad_3d_not_ValueError)

text \<open>
  \<^verbatim>\<open>forward\<close> has no test of its own that raises \<^verbatim>\<open>ValueError\<close>: one can only
  come out of the task block.
\<close>

lemma forward_not_ValueError:
  assumes "\<And>m. task_block self = Some (Module m) \<Longrightarrow> \<not> is_ValueError (block_apply m x)"
  shows "\<not> is_ValueError (forward s self x)"
proof -
  have blk: "\<not> is_ValueError
      (case task_block self of
         None \<Rightarrow> Inr x
       | Some (Module m) \<Rightarrow> block_apply m x
       | Some (Buildable bld) \<Rightarrow> Inl (TypeError ''object is not callable''))"
    using assms by (simp split: option.splits block.splits)
  have lbl: "\<not> is_ValueError
      (case masking self of
         Some mk \<Rightarrow> Inr (masked_targets mk)
       | None \<Rightarrow>
           (case embeddings self of
              None \<Rightarrow> Inl (AttributeError ''embeddings'')
            | Some emb \<Rightarrow> Inr (item_seq emb)))"
    by (simp split: option.splits)
  have hd: "\<not> is_ValueError
      (case pre self of
         None \<Rightarrow> Inl (TypeError ''NoneType object is not callable'')
       | Some h \<Rightarrow>
           (case head_forward s h x1 of
              Inl e \<Rightarrow> Inl e
            | Inr x2 \<Rightarrow> Inr (g x2)))" for x1 and g :: "real tensor2 \<Rightarrow> forward_output"
    by (simp add: is_ValueError_case_sum head_forward_not_ValueError split: option.splits)
  show ?thesis
    unfolding forward_def Let_def
    by (simp add: is_ValueError_case_sum blk lbl hd remove_padded_items_not_ValueError
        split: prod.splits)
qed

lemma set_masking_task_block [simp]:
  "task_block (set_masking self inp) = task_block self"
  "weight_tying (set_masking self inp) = weight_tying self"
  "item_embedding_table (set_masking self inp) = item_embedding_table self"
  "softmax_temperature (set_masking self inp) = softmax_temperature self"
  by (simp_all add: set_masking_def split: option.splits)

text \<open>Past its two tests, \<^verbatim>\<open>build\<close> raises no \<^verbatim>\<open>ValueError\<close> unless a block does.\<close>

lemma build_ValueError_only_from_checks:
  assumes mlp: "\<And>d sh. \<not> is_ValueError (MLPBlock d sh)"
    and arg: "\<And>bld sh. tba = Some (Buildable bld) \<Longrightarrow> \<not> is_ValueError (bld sh)"
    and own: "\<And>bld sh. task_block self = Some (Buildable bld) \<Longrightarrow> \<not> is_ValueError (bld sh)"
    and ve: "is_ValueError (build MLPBlock rnd s self bdy input_size inputs tba)"
  shows "len_input_size input_size \<noteq> 3 \<or> is_dict input_size \<or>
         \<not> truthy_str (getattr_item_id (resolve_inputs inputs bdy))"
proof (rule ccontr)
  assume "\<not> ?thesis"
  then have len: "len_input_size input_size = 3" and nd: "\<not> is_dict input_size"
    and it: "truthy_str (getattr_item_id (resolve_inputs inputs bdy))"
    by simp_all
  from nd obtain isz where isz: "input_size = Shape isz" by (cases input_size) simp_all
  with len have l3: "length isz = 3" by simp
  from it obtain inp where inp: "resolve_inputs inputs bdy = Some inp"
    and tr: "truthy_str (item_id inp)"
    by (cases "resolve_inputs inputs bdy") (simp_all add: getattr_item_id_def)
  let ?self1 = "self\<lparr>embeddings := categorical_module inp\<rparr>"
  note unfolded = build_past_checks [OF isz l3 inp tr, of MLPBlock rnd s self tba]
  from ve obtain self2 where s2: "set_target_dim ?self1 = Inr self2"
    and ve2: "is_ValueError (bind_err (tie_weights MLPBlock s self2 isz tba)
        (\<lambda>(self3, task_block1).
           PredictionTask_build rnd s (set_masking self3 inp) isz task_block1
             (case target_dim self3 of None \<Rightarrow> 0 | Some n \<Rightarrow> n)))"
    unfolding unfolded
    by (auto simp: is_ValueError_bind_err set_target_dim_not_ValueError)
  from ve2 obtain self3 tb where tw: "tie_weights MLPBlock s self2 isz tba = Inr (self3, tb)"
    and ve3: "is_ValueError (PredictionTask_build rnd s (set_masking self3 inp) isz tb
        (case target_dim self3 of None \<Rightarrow> 0 | Some n \<Rightarrow> n))"
    by (auto simp: is_ValueError_bind_err tie_weights_not_ValueError)
  from set_target_dim_task_block [OF s2] have tb2: "task_block self2 = task_block self"
    by simp
  from tie_weights_block [OF tw] tb2 have tb3: "task_block self3 = task_block self"
    and tbc: "tb = tba \<or> (\<exists>d. tb = Some (Buildable (MLPBlock d)))"
    by simp_all
  have "\<not> is_ValueError (PredictionTask_build rnd s (set_masking self3 inp) isz tb
        (case target_dim self3 of None \<Rightarrow> 0 | Some n \<Rightarrow> n))"
  proof (rule PredictionTask_build_not_ValueError)
    fix bld assume "tb = Some (Buildable bld)"
    with tbc show "\<not> is_ValueError (bld isz)" using mlp arg by auto
  next
    fix bld assume "tb = None"
      and "task_block (set_masking self3 inp) = Some (Buildable bld)"
    with tb3 show "\<not> is_ValueError (bld isz)" using own by simp
  qed
  with ve3 show False by simp
qed

lemma set_target_dim_succeeds:
  assumes "embeddings self = Some emb" and "cat_item_embedding_table emb = Some tbl"
  obtains self' where "set_target_dim self = Inr self'"
    and "task_block self' = task_block self" and "weight_tying self' = weight_tying self"
    and "embeddings self' = Some emb"
proof -
  from assms have "\<exists>self'. set_target_dim self = Inr self'"
    by (simp add: set_target_dim_def bind_err_def embeddings_item_embedding_table_def)
  then obtain self' where ok: "set_target_dim self = Inr self'" ..
  from set_target_dim_task_block [OF ok] assms(1) ok that show thesis by simp
qed

lemma head_init_succeeds:
  assumes "wt \<or> (isz \<noteq> [] \<and> 0 \<le> last isz)"
  shows "\<exists>h s'. head_init rnd s isz V wt tbl temp = Inr (h, s') \<and>
           head_input_size h = isz \<and> head_weight_tying h = wt \<and>
           head_item_embedding_table h = tbl"
proof (cases wt)
  case True
  then show ?thesis by (simp add: head_init_def alloc_def)
next
  case False
  with assms show ?thesis
    by (simp add: head_init_def alloc_def split: prod.splits)
qed

text \<open>
  A well-formed configuration with no task block: a shape of three dimensions, an input
  block with an item-id column and an item embedding table, and with weight tying the
  table's weight in the store, of the width of the input. \<^verbatim>\<open>build\<close> returns the
  built task.
\<close>

lemma build_succeeds_without_task_block:
  assumes isz: "input_size = Shape isz" and l3: "length isz = 3"
    and inp: "resolve_inputs inputs bdy = Some inp" and tr: "truthy_str (item_id inp)"
    and emb: "categorical_module inp = Some emb"
    and tbl: "cat_item_embedding_table emb = Some tbl"
    and wt: "weight_tying self \<longrightarrow>
             (\<exists>w. cells s (weight tbl) = Some (P2 w) \<and> last isz = int (size1 w))"
    and nn: "0 \<le> last isz"
    and tba: "tba = None" and own: "task_block self = None"
  shows "\<exists>self' s'. build MLPBlock rnd s self bdy input_size inputs tba = Inr (self', s') \<and>
           built self' \<and> pre self' \<noteq> None"
proof -
  let ?self1 = "self\<lparr>embeddings := categorical_module inp\<rparr>"
  have e1: "embeddings ?self1 = Some emb" by (simp add: emb)
  from set_target_dim_succeeds [OF e1 tbl] obtain self2
    where s2: "set_target_dim ?self1 = Inr self2"
      and tb2: "task_block self2 = task_block ?self1"
      and wt2: "weight_tying self2 = weight_tying ?self1"
      and e2: "embeddings self2 = Some emb"
    by blast
  have "\<exists>self3. tie_weights MLPBlock s self2 isz tba = Inr (self3, None) \<and>
      task_block self3 = None \<and> weight_tying self3 = weight_tying self"
  proof (cases "weight_tying self")
    case True
    with wt obtain w where w: "cells s (weight tbl) = Some (P2 w)"
      and dim: "last isz = int (size1 w)" by blast
    from True wt2 e2 tbl w dim tba tb2 own show ?thesis
      by (simp add: tie_weights_def bind_err_def embeddings_item_embedding_table_def
          read_matrix_def Let_def)
  next
    case False
    with wt2 tba tb2 own show ?thesis by (simp add: tie_weights_def)
  qed
  then obtain self3 where tw: "tie_weights MLPBlock s self2 isz tba = Inr (self3, None)"
    and tb3: "task_block self3 = None" and wt3: "weight_tying self3 = weight_tying self"
    by blast
  from l3 have ne: "isz \<noteq> []" by auto
  let ?V = "case target_dim self3 of None \<Rightarrow> 0 | Some n \<Rightarrow> n"
  from head_init_succeeds [of "weight_tying self3" isz rnd s ?V
      "item_embedding_table self3" "softmax_temperature self3"] ne nn
  obtain h s' where hi: "head_init rnd s isz ?V (weight_tying self3)
      (item_embedding_table self3) (softmax_temperature self3) = Inr (h, s')"
    by blast
  have "PredictionTask_build rnd s (set_masking self3 inp) isz None ?V =
      Inr ((set_masking self3 inp)\<lparr>pre := Some h, built := True\<rparr>, s')"
    by (simp add: PredictionTask_build_def Let_def tb3 hi)
  then have "build MLPBlock rnd s self bdy input_size inputs tba =
      Inr ((set_masking self3 inp)\<lparr>pre := Some h, built := True\<rparr>, s')"
    by (simp add: build_past_checks [OF isz l3 inp tr] bind_err_def s2 tw)
  then show ?thesis by simp
qed

text \<open>
  Claim C8. \<^verbatim>\<open>build\<close> raises \<^verbatim>\<open>ValueError\<close> whenever the input size has not
  three dimensions or is a dictionary, or the input block found has no item-id column;
  when no block that is built raises a \<^verbatim>\<open>ValueError\<close> of its own, these are the
  only cases in which \<^verbatim>\<open>build\<close> raises one; on a well-formed configuration with
  no task block \<^verbatim>\<open>build\<close> does not raise at all; and \<^verbatim>\<open>forward\<close> raises
  no \<^verbatim>\<open>ValueError\<close> unless the task block does.
\<close>

theorem build_raises_configuration_errors:
  "(len_input_size input_size \<noteq> 3 \<or> is_dict input_size \<or>
      \<not> truthy_str (getattr_item_id (resolve_inputs inputs bdy)) \<longrightarrow>
    is_ValueError (build MLPBlock rnd s self bdy input_size inputs tba)) \<and>
   ((\<forall>d sh. \<not> is_ValueError (MLPBlock d sh)) \<and>
    (\<forall>bld sh. tba = Some (Buildable bld) \<or> task_block self = Some (Buildable bld) \<longrightarrow>
       \<not> is_ValueError (bld sh)) \<and>
    is_ValueError (build MLPBlock rnd s self bdy input_size inputs tba) \<longrightarrow>
    len_input_size input_size \<noteq> 3 \<or> is_dict input_size \<or>
      \<not> truthy_str (getattr_item_id (resolve_inputs inputs bdy))) \<and>
   (input_size = Shape isz \<and> length isz = 3 \<and> 0 \<le> last isz \<and>
    resolve_inputs inputs bdy = Some inp \<and> truthy_str (item_id inp) \<and>
    categorical_module inp = Some emb \<and> cat_item_embedding_table emb = Some tbl \<and>
    (weight_tying self \<longrightarrow>
       (\<exists>w. cells s (weight tbl) = Some (P2 w) \<and> last isz = int (size1 w))) \<and>
    tba = None \<and> task_block self = None \<longrightarrow>
    (\<exists>self' s'. build MLPBlock rnd s self bdy input_size inputs tba = Inr (self', s') \<and>
       built self' \<and> pre self' \<noteq> None)) \<and>
   ((\<forall>m. task_block self = Some (Module m) \<longrightarrow> \<not> is_ValueError (block_apply m x)) \<longrightarrow>
    \<not> is_ValueError (forward s self x))"
proof (intro conjI impI)
  assume "len_input_size input_size \<noteq> 3 \<or> is_dict input_size \<or>
      \<not> truthy_str (getattr_item_id (resolve_inputs inputs bdy))"
  then show "is_ValueError (build MLPBlock rnd s self bdy input_size inputs tba)"
    by (rule build_checks_fail)
next
  assume h: "(\<forall>d sh. \<not> is_ValueError (MLPBlock d sh)) \<and>
    (\<forall>bld sh. tba = Some (Buildable bld) \<or> task_block self = Some (Buildable bld) \<longrightarrow>
       \<not> is_ValueError (bld sh)) \<and>
    is_ValueError (build MLPBlock rnd s self bdy input_size inputs tba)"
  show "len_input_size input_size \<noteq> 3 \<or> is_dict input_size \<or>
      \<not> truthy_str (getattr_item_id (resolve_inputs inputs bdy))"
  proof (rule build_ValueError_only_from_checks)
    show "\<not> is_ValueError (MLPBlock d sh)" for d sh using h by blast
    show "\<not> is_ValueError (bld sh)" if "tba = Some (Buildable bld)" for bld sh
      using h that by blast
    show "\<not> is_ValueError (bld sh)" if "task_block self = Some (Buildable bld)" for bld sh
      using h that by blast
    show "is_ValueError (build MLPBlock rnd s self bdy input_size inputs tba)"
      using h by blast
  qed
next
  assume "input_size = Shape isz \<and> length isz = 3 \<and> 0 \<le> last isz \<and>
    resolve_inputs inputs bdy = Some inp \<and> truthy_str (item_id inp) \<and>
    categorical_module inp = Some emb \<and> cat_item_embedding_table emb = Some tbl \<and>
    (weight_tying self \<longrightarrow>
       (\<exists>w. cells s (weight tbl) = Some (P2 w) \<and> last isz = int (size1 w))) \<and>
    tba = None \<and> task_block self = None"
  then show "\<exists>self' s'. build MLPBlock rnd s self bdy input_size inputs tba = Inr (self', s') \<and>
       built self' \<and> pre self' \<noteq> None"
    by (intro build_succeeds_without_task_block) blast+
next
  assume "\<forall>m. task_block self = Some (Module m) \<longrightarrow> \<not> is_ValueError (block_apply m x)"
  then show "\<not> is_ValueError (forward s self x)"
    by (intro forward_not_ValueError) blast
qed

text \<open>
  A declared input size of two dimensions makes \<^verbatim>\<open>build\<close> raise
  \<^verbatim>\<open>ValueError\<close>; the size \<open>[8, 20, 1]\<close> on the example table of dimension 1
  builds; and \<^verbatim>\<open>forward\<close> of the built example task raises no \<^verbatim>\<open>ValueError\<close>.
\<close>

theorem build_raises_configuration_errors_witness:
  "len_input_size (Shape [8, 20]) \<noteq> 3 \<and>
   is_ValueError (build example_mlp example_linear_init example_store example_new_task
     \<lparr>body_inputs = None\<rparr> (Shape [8, 20]) (Some example_inputs) None) \<and>
   (\<exists>self' s'. build example_mlp example_linear_init example_store example_new_task
        \<lparr>body_inputs = None\<rparr> (Shape [8, 20, 1]) (Some example_inputs) None = Inr (self', s') \<and>
      built self' \<and> pre self' \<noteq> None) \<and>
   \<not> is_ValueError (forward example_store example_task example_states)"
proof -
  let ?w = "\<lparr>size0 = 2, size1 = 1, data = [1, 2::real]\<rparr>"
  let ?emb = "\<lparr>cat_item_embedding_table = Some example_table, item_seq = padding_labels\<rparr>"
  have two: "len_input_size (Shape [8, 20]) \<noteq> 3" by simp
  from build_raises_configuration_errors
    [where input_size = "Shape [8, 20]" and inputs = "Some example_inputs"
       and bdy = "\<lparr>body_inputs = None\<rparr>" and MLPBlock = example_mlp
       and rnd = example_linear_init and s = example_store and self = example_new_task
       and tba = None, THEN conjunct1]
  have bad: "is_ValueError (build example_mlp example_linear_init example_store
      example_new_task \<lparr>body_inputs = None\<rparr> (Shape [8, 20]) (Some example_inputs) None)"
    using two by blast
  have wf: "Shape [8, 20, 1] = Shape [8, 20, 1] \<and> length [8, 20, 1 :: int] = 3 \<and>
      0 \<le> last [8, 20, 1 :: int] \<and>
      resolve_inputs (Some example_inputs) \<lparr>body_inputs = None\<rparr> = Some example_inputs \<and>
      truthy_str (item_id example_inputs) \<and>
      categorical_module example_inputs = Some ?emb \<and>
      cat_item_embedding_table ?emb = Some example_table \<and>
      (weight_tying example_new_task \<longrightarrow>
         (\<exists>w. cells example_store (weight example_table) = Some (P2 w) \<and>
              last [8, 20, 1] = int (size1 w))) \<and>
      (None :: block option) = None \<and> task_block example_new_task = None"
    by (simp add: resolve_inputs_def example_inputs_def example_store_def example_table_def
        example_new_task_def task_init_def)
  from build_raises_configuration_errors
    [where input_size = "Shape [8, 20, 1]" and isz = "[8, 20, 1]"
       and inputs = "Some example_inputs" and inp = example_inputs and emb = ?emb
       and tbl = example_table
       and bdy = "\<lparr>body_inputs = None\<rparr>" and MLPBlock = example_mlp
       and rnd = example_linear_init and s = example_store and self = example_new_task
       and tba = None, THEN conjunct2, THEN conjunct2, THEN conjunct1] wf
  have good: "\<exists>self' s'. build example_mlp example_linear_init example_store example_new_task
        \<lparr>body_inputs = None\<rparr> (Shape [8, 20, 1]) (Some example_inputs) None = Inr (self', s') \<and>
      built self' \<and> pre self' \<noteq> None"
    by blast
  have nb: "\<forall>m. task_block example_task = Some (Module m) \<longrightarrow>
      \<not> is_ValueError (block_apply m example_states)"
    by (simp add: example_task_def task_init_def)
  from build_raises_configuration_errors
    [where self = example_task and s = example_store and x = example_states,
       THEN conjunct2, THEN conjunct2, THEN conjunct2] nb
  have fw: "\<not> is_ValueError (forward example_store example_task example_states)"
    by blast
  from two bad good fw show ?thesis by blast
qed

lemma set_target_dim_result:
  assumes "embeddings self = Some emb" and "cat_item_embedding_table emb = Some tbl"
  shows "set_target_dim self =
           Inr (self\<lparr>target_dim :=
                  Some (case target_dim self of
                          None \<Rightarrow> num_embeddings tbl
                        | Some n \<Rightarrow> if n = 0 then num_embeddings tbl else n)\<rparr>)"
proof (cases "target_dim self")
  case None
  with assms show ?thesis
    by (simp add: set_target_dim_def bind_err_def embeddings_item_embedding_table_def)
next
  case (Some n)
  then have "self\<lparr>target_dim := Some n\<rparr> = self" by simp
  with Some assms show ?thesis
    by (simp add: set_target_dim_def bind_err_def embeddings_item_embedding_table_def)
qed

text \<open>
  A tied head whose table and bias are in the store maps every matrix of the width of
  the table's weight to scores, one column per row of the weight.
\<close>

lemma head_forward_tied_succeeds:
  assumes "head_weight_tying h" and "head_item_embedding_table h = Some tbl"
    and "output_layer_bias h = Some b"
    and "cells st (weight tbl) = Some (P2 w)" and "cells st b = Some (P1 bv)"
    and "length bv = size0 w" and "size1 x1 = size1 w"
  shows "\<exists>preds. head_forward st h x1 = Inr preds \<and> size0 preds = size0 x1 \<and>
           size1 preds = size0 w"
proof -
  have "\<exists>logits. head_logits st h x1 = Inr logits \<and> size0 logits = size0 x1 \<and>
      size1 logits = size0 w"
    using assms
    by (simp add: head_logits_def read_matrix_def read_vector_def functional_linear_def)
  then obtain logits where lg: "head_logits st h x1 = Inr logits"
    and sz: "size0 logits = size0 x1" "size1 logits = size0 w"
    by blast
  show ?thesis
    using sz by (simp add: head_forward_def lg Let_def log_softmax_def tensor_div_def)
qed

lemma remove_padded_items_succeeds:
  assumes "wf2 labels" and "wf3 x"
    and "size0 labels = dim0 x" and "size1 labels = dim1 x" and "0 < dim2 x"
  shows "\<exists>ls x1. remove_padded_items labels p x = Inr (ls, x1) \<and> size1 x1 = dim2 x"
proof -
  have len: "length (ne_mask (flatten labels) p) = dim0 x * dim1 x"
    using assms(1,3,4) by (simp add: wf2_def flatten_def)
  from remove_pad_3d_rows [OF assms(2) len assms(5)] show ?thesis
    by (simp add: remove_padded_items_def Let_def)
qed

text \<open>
  \<^verbatim>\<open>forward\<close> of a task with a built task block: the block, the extraction on
  the output of the block, the head on the rows that are left.
\<close>

lemma forward_with_block:
  assumes "task_block self = Some (Module blk)" and "block_apply blk x = Inr y"
    and "retrieve_labels self = Some lbls"
    and "remove_padded_items lbls (padding_idx self) y = Inr (ls, x1)"
    and "pre self = Some h"
  shows "forward s self x =
           (case head_forward s h x1 of
              Inl e \<Rightarrow> Inl e
            | Inr preds \<Rightarrow>
                Inr (if hf_format self then HF_outputs (loss self preds ls) ls preds
                     else Predictions preds))"
proof -
  from assms(3) have "(case masking self of
        Some mk \<Rightarrow> Inr (masked_targets mk)
      | None \<Rightarrow>
          (case embeddings self of
             None \<Rightarrow> Inl (AttributeError ''embeddings'')
           | Some emb \<Rightarrow> Inr (item_seq emb))) = Inr lbls"
    by (simp add: retrieve_labels_def split: option.splits)
  with assms(1,2,4,5) show ?thesis by (simp add: forward_def Let_def)
qed

text \<open>
  With weight tying, a last input dimension different from the width of the table's
  weight and no task block given, \<^verbatim>\<open>build\<close> makes
  \<^verbatim>\<open>MLPBlock([item_dim])\<close> the task block, builds it on the input size and ties
  the head to the table, with a new zero bias of one entry per target.
\<close>

lemma build_inserts_projection:
  assumes isz: "input_size = Shape isz" and l3: "length isz = 3"
    and inp: "resolve_inputs inputs bdy = Some inp" and tr: "truthy_str (item_id inp)"
    and emb: "categorical_module inp = Some emb"
    and tbl: "cat_item_embedding_table emb = Some tbl"
    and w: "cells s (weight tbl) = Some (P2 w)"
    and wt: "weight_tying self"
    and dim: "last isz \<noteq> int (size1 w)"
    and tba: "tba = None"
    and mlp: "MLPBlock [size1 w] isz = Inr blk"
    and td: "td = (case target_dim self of
                     None \<Rightarrow> num_embeddings tbl
                   | Some n \<Rightarrow> if n = 0 then num_embeddings tbl else n)"
  shows "\<exists>self' s' h. build MLPBlock rnd s self bdy input_size inputs tba = Inr (self', s') \<and>
           built self' \<and> task_block self' = Some (Module blk) \<and> pre self' = Some h \<and>
           hf_format self' = hf_format self \<and> loss self' = loss self \<and>
           padding_idx self' =
             (case inputs_masking inp of
                Some mk \<Rightarrow> masking_padding_idx mk
              | None \<Rightarrow> padding_idx self) \<and>
           retrieve_labels self' =
             Some (case inputs_masking inp of
                     Some mk \<Rightarrow> masked_targets mk
                   | None \<Rightarrow> item_seq emb) \<and>
           head_weight_tying h \<and> head_item_embedding_table h = Some tbl \<and>
           head_target_dim h = td \<and>
           output_layer_bias h = Some (next_addr s) \<and>
           cells s' = (cells s)(next_addr s \<mapsto> P1 (replicate td 0))"
proof -
  let ?self1 = "self\<lparr>embeddings := categorical_module inp\<rparr>"
  let ?self2 = "?self1\<lparr>target_dim := Some td\<rparr>"
  let ?self3 = "?self2\<lparr>item_embedding_table := Some tbl\<rparr>"
  have e1: "embeddings ?self1 = Some emb" by (simp add: emb)
  have s2: "set_target_dim ?self1 = Inr ?self2"
    by (simp add: set_target_dim_result [OF e1 tbl] td)
  have tw: "tie_weights MLPBlock s ?self2 isz tba =
      Inr (?self3, Some (Buildable (MLPBlock [size1 w])))"
    using wt emb tbl w dim tba
    by (simp add: tie_weights_def bind_err_def embeddings_item_embedding_table_def
        read_matrix_def Let_def)
  let ?h = "\<lparr>head_input_size = output_size blk, head_target_dim = td,
      head_weight_tying = True, head_item_embedding_table = Some tbl,
      head_softmax_temperature = softmax_temperature self,
      output_layer_bias = Some (next_addr s), output_layer = None\<rparr>"
  let ?s' = "s\<lparr>cells := (cells s)(next_addr s \<mapsto> P1 (replicate td 0)),
      next_addr := Suc (next_addr s)\<rparr>"
  let ?selfF = "(set_masking ?self3 inp)
      \<lparr>task_block := Some (Module blk), pre := Some ?h, built := True\<rparr>"
  have hi: "head_init rnd s (output_size blk) td True (Some tbl) (softmax_temperature self) =
      Inr (?h, ?s')"
    by (simp add: head_init_def alloc_def)
  have pb: "PredictionTask_build rnd s (set_masking ?self3 inp) isz
      (Some (Buildable (MLPBlock [size1 w]))) td = Inr (?selfF, ?s')"
    using wt hi
    by (simp add: PredictionTask_build_def Let_def mlp set_masking_def split: option.splits)
  have run: "build MLPBlock rnd s self bdy input_size inputs tba = Inr (?selfF, ?s')"
    using pb by (simp add: build_past_checks [OF isz l3 inp tr] bind_err_def s2 tw)
  have lbl: "retrieve_labels ?selfF =
      Some (case inputs_masking inp of
              Some mk \<Rightarrow> masked_targets mk
            | None \<Rightarrow> item_seq emb)"
    by (simp add: retrieve_labels_def set_masking_def emb split: option.splits)
  have hf: "hf_format ?selfF = hf_format self" "loss ?selfF = loss self"
    by (simp_all add: set_masking_def split: option.splits)
  have pd: "padding_idx ?selfF =
      (case inputs_masking inp of
         Some mk \<Rightarrow> masking_padding_idx mk
       | None \<Rightarrow> padding_idx self)"
    by (simp add: set_masking_def split: option.splits)
  from run lbl hf pd show ?thesis by simp
qed

text \<open>
  The example block builds for every layer dimension and maps well-formed states to
  well-formed states of that width.
\<close>

lemma example_mlp_projects:
  "\<exists>blk. example_mlp [d] isz = Inr blk \<and>
     (\<forall>x. wf3 x \<and> int (dim2 x) = last isz \<longrightarrow>
        (\<exists>y. block_apply blk x = Inr y \<and> wf3 y \<and> dim0 y = dim0 x \<and> dim1 y = dim1 x \<and>
             dim2 y = d))"
  by (simp add: example_mlp_def wf3_def length_concat_rows [where d = d])

text \<open>
  Claim C10. With weight tying, an input size of three dimensions whose last differs
  from the width \<open>item_dim\<close> (at least 1) of the item embedding table's weight, an input
  block with an item-id column and that table, and no task block given to
  \<^verbatim>\<open>build\<close>: when \<^verbatim>\<open>MLPBlock\<close> builds, for any one layer dimension \<open>d\<close>, a
  module that maps states of the input width to states of width \<open>d\<close>, \<^verbatim>\<open>build\<close>
  does not raise; the built task has the module of \<^verbatim>\<open>MLPBlock([item_dim])\<close> as
  its task block and a head tied to the table; and \<^verbatim>\<open>forward\<close> of the built task,
  on states of the input width with labels of the same batch shape, calls the head on
  the non-padding rows of the module's output, which have width \<open>item_dim\<close>, and
  returns what the head returns; the head returns scores, one column per row of the
  table's weight, when the target dimension is the number of those rows.
\<close>

theorem weight_tying_inserts_projection:
  assumes isz: "input_size = Shape isz" and l3: "length isz = 3"
    and inp: "resolve_inputs inputs bdy = Some inp" and tr: "truthy_str (item_id inp)"
    and emb: "categorical_module inp = Some emb"
    and tbl: "cat_item_embedding_table emb = Some tbl"
    and ok: "store_ok s"
    and w: "cells s (weight tbl) = Some (P2 w)"
    and pos: "0 < size1 w"
    and wt: "weight_tying self"
    and dim: "last isz \<noteq> int (size1 w)"
    and tba: "tba = None"
    and mlp: "\<And>d. \<exists>blk. MLPBlock [d] isz = Inr blk \<and>
               (\<forall>x. wf3 x \<and> int (dim2 x) = last isz \<longrightarrow>
                  (\<exists>y. block_apply blk x = Inr y \<and> wf3 y \<and> dim0 y = dim0 x \<and>
                       dim1 y = dim1 x \<and> dim2 y = d))"
  shows "\<exists>self' s' blk h.
           build MLPBlock rnd s self bdy input_size inputs tba = Inr (self', s') \<and>
           built self' \<and> MLPBlock [size1 w] isz = Inr blk \<and>
           task_block self' = Some (Module blk) \<and> pre self' = Some h \<and>
           head_weight_tying h \<and> head_item_embedding_table h = Some tbl \<and>
           head_target_dim h =
             (case target_dim self of
                None \<Rightarrow> num_embeddings tbl
              | Some n \<Rightarrow> if n = 0 then num_embeddings tbl else n) \<and>
           hf_format self' = hf_format self \<and> loss self' = loss self \<and>
           padding_idx self' =
             (case inputs_masking inp of
                Some mk \<Rightarrow> masking_padding_idx mk
              | None \<Rightarrow> padding_idx self) \<and>
           retrieve_labels self' =
             Some (case inputs_masking inp of
                     Some mk \<Rightarrow> masked_targets mk
                   | None \<Rightarrow> item_seq emb) \<and>
           (\<forall>x lbls. retrieve_labels self' = Some lbls \<and> wf3 x \<and> int (dim2 x) = last isz \<and>
              wf2 lbls \<and> size0 lbls = dim0 x \<and> size1 lbls = dim1 x \<longrightarrow>
              (\<exists>y ls x1.
                 block_apply blk x = Inr y \<and>
                 remove_padded_items lbls (padding_idx self') y = Inr (ls, x1) \<and>
                 size1 x1 = size1 w \<and>
                 forward s' self' x =
                   (case head_forward s' h x1 of
                      Inl e \<Rightarrow> Inl e
                    | Inr preds \<Rightarrow>
                        Inr (if hf_format self' then HF_outputs (loss self' preds ls) ls preds
                             else Predictions preds)) \<and>
                 (head_target_dim h = size0 w \<longrightarrow>
                    (\<exists>preds. head_forward s' h x1 = Inr preds \<and>
                       size0 preds = size0 x1 \<and> size1 preds = size0 w))))"
proof -
  define td where "td = (case target_dim self of
      None \<Rightarrow> num_embeddings tbl
    | Some n \<Rightarrow> if n = 0 then num_embeddings tbl else n)"
  from mlp [of "size1 w"] obtain blk where b: "MLPBlock [size1 w] isz = Inr blk"
    and maps: "\<And>x. wf3 x \<Longrightarrow> int (dim2 x) = last isz \<Longrightarrow>
        \<exists>y. block_apply blk x = Inr y \<and> wf3 y \<and> dim0 y = dim0 x \<and>
            dim1 y = dim1 x \<and> dim2 y = size1 w"
    by blast
  from build_inserts_projection [where MLPBlock = MLPBlock and rnd = rnd and blk = blk,
      OF isz l3 inp tr emb tbl w wt dim tba b td_def]
  obtain self' s' h
    where run: "build MLPBlock rnd s self bdy input_size inputs tba = Inr (self', s')"
      and built: "built self'" and tb: "task_block self' = Some (Module blk)"
      and pre: "pre self' = Some h"
      and hfm: "hf_format self' = hf_format self" and ls: "loss self' = loss self"
      and pd: "padding_idx self' =
        (case inputs_masking inp of
           Some mk \<Rightarrow> masking_padding_idx mk
         | None \<Rightarrow> padding_idx self)"
      and rl: "retrieve_labels self' =
        Some (case inputs_masking inp of
                Some mk \<Rightarrow> masked_targets mk
              | None \<Rightarrow> item_seq emb)"
      and hwt: "head_weight_tying h" and htb: "head_item_embedding_table h = Some tbl"
      and htd: "head_target_dim h = td"
      and hb: "output_layer_bias h = Some (next_addr s)"
      and cs: "cells s' = (cells s)(next_addr s \<mapsto> P1 (replicate td 0))"
    by blast
  from ok w have fresh: "weight tbl \<noteq> next_addr s" by (auto simp: store_ok_def)
  have cw: "cells s' (weight tbl) = Some (P2 w)" using fresh w by (simp add: cs)
  have cb: "cells s' (next_addr s) = Some (P1 (replicate td 0))" by (simp add: cs)
  have fw: "\<exists>y ls x1.
      block_apply blk x = Inr y \<and>
      remove_padded_items lbls (padding_idx self') y = Inr (ls, x1) \<and>
      size1 x1 = size1 w \<and>
      forward s' self' x =
        (case head_forward s' h x1 of
           Inl e \<Rightarrow> Inl e
         | Inr preds \<Rightarrow>
             Inr (if hf_format self' then HF_outputs (loss self' preds ls) ls preds
                  else Predictions preds)) \<and>
      (head_target_dim h = size0 w \<longrightarrow>
         (\<exists>preds. head_forward s' h x1 = Inr preds \<and>
            size0 preds = size0 x1 \<and> size1 preds = size0 w))"
    if lb: "retrieve_labels self' = Some lbls" and wx: "wf3 x"
      and dx: "int (dim2 x) = last isz"
      and wl: "wf2 lbls" and l0: "size0 lbls = dim0 x" and l1: "size1 lbls = dim1 x"
    for x lbls
  proof -
    from maps [OF wx dx] obtain y where y: "block_apply blk x = Inr y" and wy: "wf3 y"
      and y0: "dim0 y = dim0 x" and y1: "dim1 y = dim1 x" and y2: "dim2 y = size1 w"
      by blast
    from remove_padded_items_succeeds [OF wl wy, of "padding_idx self'"] l0 l1 y0 y1 y2 pos
    obtain ls x1 where ex: "remove_padded_items lbls (padding_idx self') y = Inr (ls, x1)"
      and x1: "size1 x1 = size1 w"
      by auto
    have hd: "\<exists>preds. head_forward s' h x1 = Inr preds \<and>
        size0 preds = size0 x1 \<and> size1 preds = size0 w"
      if eq: "head_target_dim h = size0 w"
    proof -
      from eq htd have "length (replicate td (0::real)) = size0 w" by simp
      from head_forward_tied_succeeds [OF hwt htb hb cw cb this x1] show ?thesis .
    qed
    from forward_with_block [OF tb y lb ex pre] ex x1 y hd show ?thesis by blast
  qed
  from run built b tb pre hwt htb htd [unfolded td_def] hfm ls pd rl fw show ?thesis by blast
qed

theorem weight_tying_inserts_projection_witness:
  "\<exists>self' s' blk h.
     build example_mlp example_linear_init example_store example_new_task
       \<lparr>body_inputs = None\<rparr> (Shape [1, 2, 2]) (Some session_inputs) None = Inr (self', s') \<and>
     task_block self' = Some (Module blk) \<and> pre self' = Some h \<and>
     block_apply blk session_states = Inr \<lparr>dim0 = 1, dim1 = 2, dim2 = 1, data3 = [3, 7]\<rparr> \<and>
     remove_padded_items \<lparr>size0 = 1, size1 = 2, data = [1, 0]\<rparr> 0
         \<lparr>dim0 = 1, dim1 = 2, dim2 = 1, data3 = [3, 7 :: real]\<rparr> =
       Inr ([1], \<lparr>size0 = 1, size1 = 1, data = [3]\<rparr>) \<and>
     (\<exists>preds. head_forward s' h \<lparr>size0 = 1, size1 = 1, data = [3]\<rparr> = Inr preds \<and>
        size0 preds = 1 \<and> size1 preds = 2 \<and>
        forward s' self' session_states = Inr (Predictions preds))"
proof -
  let ?w = "\<lparr>size0 = 2, size1 = 1, data = [1, 2::real]\<rparr>"
  let ?lbls = "\<lparr>size0 = 1, size1 = 2, data = [1, 0::int]\<rparr>"
  let ?emb = "\<lparr>cat_item_embedding_table = Some example_table, item_seq = ?lbls\<rparr>"
  let ?y = "\<lparr>dim0 = 1, dim1 = 2, dim2 = 1, data3 = [3, 7::real]\<rparr>"
  let ?x1 = "\<lparr>size0 = 1, size1 = 1, data = [3::real]\<rparr>"
  have h1: "Shape [1, 2, 2] = Shape [1, 2, 2]" and h2: "length [1, 2, 2 :: int] = 3"
    by simp_all
  have h3: "resolve_inputs (Some session_inputs) \<lparr>body_inputs = None\<rparr> = Some session_inputs"
    by (simp add: resolve_inputs_def)
  have h4: "truthy_str (item_id session_inputs)" by (simp add: session_inputs_def)
  have h5: "categorical_module session_inputs = Some ?emb" by (simp add: session_inputs_def)
  have h6: "cat_item_embedding_table ?emb = Some example_table" by simp
  have h7: "store_ok example_store" by (simp add: store_ok_def example_store_def)
  have h8: "cells example_store (weight example_table) = Some (P2 ?w)"
    by (simp add: example_store_def example_table_def)
  have h9: "0 < size1 ?w" by simp
  have h10: "weight_tying example_new_task" by (simp add: example_new_task_def task_init_def)
  have h11: "last [1, 2, 2] \<noteq> int (size1 ?w)" by simp
  have h12: "(None :: block option) = None" by simp
  from weight_tying_inserts_projection
    [where MLPBlock = example_mlp and w = ?w and isz = "[1, 2, 2]" and rnd = example_linear_init
       and self = example_new_task,
     OF h1 h2 h3 h4 h5 h6 h7 h8 h9 h10 h11 h12 example_mlp_projects]
  obtain self' s' blk h
    where run: "build example_mlp example_linear_init example_store example_new_task
        \<lparr>body_inputs = None\<rparr> (Shape [1, 2, 2]) (Some session_inputs) None = Inr (self', s')"
      and b: "example_mlp [size1 ?w] [1, 2, 2] = Inr blk"
      and tb: "task_block self' = Some (Module blk)" and pre: "pre self' = Some h"
      and htd: "head_target_dim h =
        (case target_dim example_new_task of
           None \<Rightarrow> num_embeddings example_table
         | Some n \<Rightarrow> if n = 0 then num_embeddings example_table else n)"
      and hfm: "hf_format self' = hf_format example_new_task"
      and pd: "padding_idx self' =
        (case inputs_masking session_inputs of
           Some mk \<Rightarrow> masking_padding_idx mk
         | None \<Rightarrow> padding_idx example_new_task)"
      and rl: "retrieve_labels self' =
        Some (case inputs_masking session_inputs of
                Some mk \<Rightarrow> masked_targets mk
              | None \<Rightarrow> item_seq ?emb)"
      and fw: "\<And>x lbls. retrieve_labels self' = Some lbls \<Longrightarrow> wf3 x \<Longrightarrow>
          int (dim2 x) = last [1, 2, 2] \<Longrightarrow> wf2 lbls \<Longrightarrow> size0 lbls = dim0 x \<Longrightarrow>
          size1 lbls = dim1 x \<Longrightarrow>
          \<exists>y ls x1.
            block_apply blk x = Inr y \<and>
            remove_padded_items lbls (padding_idx self') y = Inr (ls, x1) \<and>
            size1 x1 = size1 ?w \<and>
            forward s' self' x =
              (case head_forward s' h x1 of
                 Inl e \<Rightarrow> Inl e
               | Inr preds \<Rightarrow>
                   Inr (if hf_format self' then HF_outputs (loss self' preds ls) ls preds
                        else Predictions preds)) \<and>
            (head_target_dim h = size0 ?w \<longrightarrow>
               (\<exists>preds. head_forward s' h x1 = Inr preds \<and>
                  size0 preds = size0 x1 \<and> size1 preds = size0 ?w))"
    by blast
  have hf: "\<not> hf_format self'" by (simp add: hfm example_new_task_def task_init_def)
  have p0: "padding_idx self' = 0"
    by (simp add: pd session_inputs_def example_new_task_def task_init_def)
  have rl': "retrieve_labels self' = Some ?lbls" by (simp add: rl session_inputs_def)
  have td: "head_target_dim h = size0 ?w"
    by (simp add: htd example_new_task_def task_init_def example_table_def)
  have by': "block_apply blk session_states = Inr ?y"
    using b by (auto simp: example_mlp_def session_states_def numeral_2_eq_2)
  have ex: "remove_padded_items ?lbls 0 ?y = Inr ([1], ?x1)"
    by (simp add: remove_padded_items_def remove_pad_3d_def flatten_def ne_mask_def
        flatten_end_dim1_def unsqueeze1_expand_as_def view_rows_def Let_def)
  have "wf3 session_states" "int (dim2 session_states) = last [1, 2, 2]" "wf2 ?lbls"
    "size0 ?lbls = dim0 session_states" "size1 ?lbls = dim1 session_states"
    by (simp_all add: wf3_def wf2_def session_states_def)
  from fw [OF rl' this] obtain y ls x1
    where "block_apply blk session_states = Inr y"
      and "remove_padded_items ?lbls (padding_idx self') y = Inr (ls, x1)"
      and f: "forward s' self' session_states =
        (case head_forward s' h x1 of
           Inl e \<Rightarrow> Inl e
         | Inr preds \<Rightarrow>
             Inr (if hf_format self' then HF_outputs (loss self' preds ls) ls preds
                  else Predictions preds))"
      and hd: "head_target_dim h = size0 ?w \<longrightarrow>
        (\<exists>preds. head_forward s' h x1 = Inr preds \<and>
           size0 preds = size0 x1 \<and> size1 preds = size0 ?w)"
    by blast
  with by' ex p0 have yx: "y = ?y" "x1 = ?x1" by simp_all
  from hd td yx obtain preds where hp: "head_forward s' h ?x1 = Inr preds"
    and "size0 preds = 1" and "size1 preds = 2"
    by auto
  moreover from f yx hp hf have "forward s' self' session_states = Inr (Predictions preds)"
    by simp
  ultimately show ?thesis using run tb pre by' ex by blast
qed

subsection \<open>The keys of the metric results\<close>

lemma map_of_named:
  "distinct (map f xs) \<Longrightarrow> x \<in> set xs \<Longrightarrow> map_of (map (\<lambda>x. (f x, g x)) xs) (f x) = Some (g x)"
  by (induction xs) (auto simp: image_iff)

lemma snd_set_zip: "snd ` set (zip xs ys) = set (take (length xs) ys)"
proof (induction xs arbitrary: ys)
  case Nil
  then show ?case by simp
next
  case (Cons x xs)
  then show ?case by (cases ys) simp_all
qed

text \<open>
  The loop over the computed metrics adds, for each name and each cutoff that has a
  measure, the key made of the name, an underscore and the cutoff.
\<close>

lemma explode_metrics_keys:
  assumes "\<forall>(name, metric)\<in>set entries. map_of topks name \<noteq> None"
    and "distinct (map fst results)"
  shows "\<exists>r. explode_metrics entries topks results = Inr r \<and> distinct (map fst r) \<and>
           fst ` set r = fst ` set results \<union>
             (\<Union>(name, metric)\<in>set entries.
                (\<lambda>k. py_format name @ ''_'' @ string_of_nat k) `
                  set (take (length metric) (the (map_of topks name))))"
  using assms
proof (induction entries arbitrary: results)
  case Nil
  then show ?case by simp
next
  case (Cons e entries)
  obtain name metric where e: "e = (name, metric)" by (cases e)
  with Cons.prems(1) obtain ks where ks: "map_of topks name = Some ks" by auto
  let ?key = "\<lambda>k. py_format name @ ''_'' @ string_of_nat k"
  let ?step = "fold (\<lambda>(measure, k). dict_set (?key k) measure) (zip metric ks) results"
  have fold_eq: "?step = fold (\<lambda>p. dict_set (?key (snd p)) (fst p)) (zip metric ks) results"
    by (simp add: case_prod_unfold)
  have d: "distinct (map fst ?step)"
    unfolding fold_eq using Cons.prems(2) by (rule fold_dict_set_distinct)
  have "(\<lambda>p. ?key (snd p)) ` set (zip metric ks) = ?key ` snd ` set (zip metric ks)"
    by (simp add: image_image)
  then have img: "(\<lambda>p. ?key (snd p)) ` set (zip metric ks) =
      ?key ` set (take (length metric) ks)"
    by (simp only: snd_set_zip)
  have keys: "fst ` set ?step = fst ` set results \<union> ?key ` set (take (length metric) ks)"
    unfolding fold_eq fold_dict_set_keys img by auto
  from Cons.prems(1) have rest: "\<forall>(name, metric)\<in>set entries. map_of topks name \<noteq> None"
    by simp
  from Cons.IH [OF rest d] obtain r where r: "explode_metrics entries topks ?step = Inr r"
    and dr: "distinct (map fst r)"
    and kr: "fst ` set r = fst ` set ?step \<union>
             (\<Union>(name, metric)\<in>set entries.
                (\<lambda>k. py_format name @ ''_'' @ string_of_nat k) `
                  set (take (length metric) (the (map_of topks name))))"
    by blast
  have run: "explode_metrics (e # entries) topks results = Inr r"
    using r by (simp add: e ks)
  have "fst ` set r = fst ` set results \<union>
             (\<Union>(name, metric)\<in>set (e # entries).
                (\<lambda>k. py_format name @ ''_'' @ string_of_nat k) `
                  set (take (length metric) (the (map_of topks name))))"
    unfolding kr keys by (simp add: e ks Un_assoc)
  with run dr show ?case by blast
qed

lemma metric_name_named:
  "task_name_attr self \<noteq> [] \<Longrightarrow>
   py_format (metric_name c2s self m) = task_name_attr self @ ''/'' @ c2s (metric_class m)"
  by (simp add: metric_name_def child_name_def task_name_def name_fn_def py_format_def)

text \<open>
  Claim C9, as the code has it. For a task with a name, whose metrics all have a
  \<^verbatim>\<open>top_ks\<close> attribute and have distinct names, \<^verbatim>\<open>compute_metrics\<close> returns a
  dictionary whose keys are exactly, for each metric and each of its cutoffs \<open>k\<close> that
  has a computed measure, the task name, a slash, the converted class name of the
  metric, an underscore and \<open>k\<close>.
\<close>

theorem compute_metrics_result_keys:
  assumes present: "\<forall>m\<in>set (metrics self). top_ks m \<noteq> None"
    and names: "distinct (map (metric_name c2s self) (metrics self))"
    and tn: "task_name_attr self \<noteq> []"
  shows "\<exists>results. compute_metrics c2s self = Inr results \<and> distinct (map fst results) \<and>
     fst ` set results =
       (\<Union>m\<in>set (metrics self).
          (\<lambda>k. task_name_attr self @ ''/'' @ c2s (metric_class m) @ ''_'' @ string_of_nat k) `
            set (take (length (metric_compute m (metric_state m))) (the (top_ks m))))"
proof -
  let ?ms = "metrics self"
  let ?nm = "metric_name c2s self"
  let ?rk = "filter (\<lambda>m. truthy_ks (top_ks m)) ?ms"
  let ?ks = "\<lambda>m. case top_ks m of None \<Rightarrow> [] | Some ks \<Rightarrow> ks"
  let ?cmp = "\<lambda>m. metric_compute m (metric_state m)"
  let ?key = "\<lambda>m k. task_name_attr self @ ''/'' @ c2s (metric_class m) @ ''_'' @ string_of_nat k"
  have drk: "distinct (map ?nm ?rk)" using names by (rule distinct_map_filter)
  have md: "fold (\<lambda>m. dict_set (?nm m) (?cmp m)) ?rk [] = map (\<lambda>m. (?nm m, ?cmp m)) ?rk"
    using fold_dict_set_fresh [OF drk, of "[]" ?cmp] by simp
  have tk: "fold (\<lambda>m. dict_set (?nm m) (?ks m)) ?ms [] = map (\<lambda>m. (?nm m, ?ks m)) ?ms"
    using fold_dict_set_fresh [OF names, of "[]" ?ks] by simp
  let ?topks = "map (\<lambda>m. (?nm m, ?ks m)) ?ms"
  have look: "map_of ?topks (?nm m) = Some (?ks m)" if "m \<in> set ?ms" for m
    using names that by (rule map_of_named)
  have no_missing: "\<not> list_ex (\<lambda>m. top_ks m = None) ?ms"
    using present by (simp add: list_ex_iff)
  have run: "compute_metrics c2s self =
      explode_metrics (map (\<lambda>m. (?nm m, ?cmp m)) ?rk) ?topks []"
    by (simp add: compute_metrics_def Let_def md tk no_missing)
  have "\<forall>(name, metric)\<in>set (map (\<lambda>m. (?nm m, ?cmp m)) ?rk). map_of ?topks name \<noteq> None"
    using look by auto
  from explode_metrics_keys [OF this, of "[]"]
  obtain r where r: "explode_metrics (map (\<lambda>m. (?nm m, ?cmp m)) ?rk) ?topks [] = Inr r"
    and dr: "distinct (map fst r)"
    and kr: "fst ` set r =
        (\<Union>(name, metric)\<in>set (map (\<lambda>m. (?nm m, ?cmp m)) ?rk).
           (\<lambda>k. py_format name @ ''_'' @ string_of_nat k) `
             set (take (length metric) (the (map_of ?topks name))))"
    by auto
  have "fst ` set r =
      (\<Union>m\<in>set ?rk. (\<lambda>k. py_format (?nm m) @ ''_'' @ string_of_nat k) `
         set (take (length (?cmp m)) (the (map_of ?topks (?nm m)))))"
    unfolding kr by auto
  also have "\<dots> = (\<Union>m\<in>set ?rk. ?key m ` set (take (length (?cmp m)) (?ks m)))"
    using look by (simp add: metric_name_named [OF tn])
  also have "\<dots> = (\<Union>m\<in>set ?ms. ?key m ` set (take (length (?cmp m)) (?ks m)))"
  proof -
    have tr: "truthy_ks (top_ks m)" if "k \<in> set (take (length (?cmp m)) (?ks m))" for m k
    proof (cases "top_ks m")
      case None
      with that show ?thesis by simp
    next
      case (Some ks)
      with that have "k \<in> set ks" by (auto dest: in_set_takeD)
      with Some show ?thesis by auto
    qed
    show ?thesis
    proof (intro equalityI subsetI)
      fix y assume "y \<in> (\<Union>m\<in>set ?rk. ?key m ` set (take (length (?cmp m)) (?ks m)))"
      then show "y \<in> (\<Union>m\<in>set ?ms. ?key m ` set (take (length (?cmp m)) (?ks m)))"
        by auto
    next
      fix y assume "y \<in> (\<Union>m\<in>set ?ms. ?key m ` set (take (length (?cmp m)) (?ks m)))"
      then obtain m k where m: "m \<in> set ?ms"
        and k: "k \<in> set (take (length (?cmp m)) (?ks m))" and y: "y = ?key m k"
        by auto
      from tr [OF k] m have "m \<in> set ?rk" by simp
      with k y show "y \<in> (\<Union>m\<in>set ?rk. ?key m ` set (take (length (?cmp m)) (?ks m)))"
        by blast
    qed
  qed
  also have "\<dots> = (\<Union>m\<in>set ?ms. ?key m ` set (take (length (?cmp m)) (the (top_ks m))))"
  proof (rule SUP_cong)
    show "set ?ms = set ?ms" ..
    fix m assume "m \<in> set ?ms"
    with present have "?ks m = the (top_ks m)" by (cases "top_ks m") auto
    then show "?key m ` set (take (length (?cmp m)) (?ks m)) =
        ?key m ` set (take (length (?cmp m)) (the (top_ks m)))"
      by simp
  qed
  finally have "fst ` set r =
      (\<Union>m\<in>set ?ms. ?key m ` set (take (length (?cmp m)) (the (top_ks m))))" .
  with run r dr show ?thesis by auto
qed

lemma string_of_nat_10: "string_of_nat 10 = ''10''"
  by (simp add: string_of_nat.simps digit_char_def)

lemma string_of_nat_20: "string_of_nat 20 = ''20''"
  by (simp add: string_of_nat.simps digit_char_def)

lemma example_task_metrics:
  "metrics example_task = [batch_counter ''NDCGAt'' [10, 20] 0]"
  "task_name_attr example_task = ''next-item''"
  by (simp_all add: example_task_def task_init_def)

text \<open>
  The task named \<^verbatim>\<open>next-item\<close> with one metric of class \<^verbatim>\<open>NDCGAt\<close> and the
  cutoffs 10 and 20, the class name left as it is: the keys are
  \<^verbatim>\<open>next-item/NDCGAt_10\<close> and \<^verbatim>\<open>next-item/NDCGAt_20\<close>.
\<close>

theorem compute_metrics_result_keys_witness:
  "task_name_attr example_task \<noteq> [] \<and>
   (\<exists>results. compute_metrics (\<lambda>name. name) example_task = Inr results \<and>
      fst ` set results = {''next-item/NDCGAt_10'', ''next-item/NDCGAt_20''})"
proof -
  have h1: "\<forall>m\<in>set (metrics example_task). top_ks m \<noteq> None"
    by (simp add: example_task_metrics batch_counter_def)
  have h2: "distinct (map (metric_name (\<lambda>name. name) example_task) (metrics example_task))"
    by (simp add: example_task_metrics)
  have h3: "task_name_attr example_task \<noteq> []" by (simp add: example_task_metrics)
  from compute_metrics_result_keys [OF h1 h2 h3]
  obtain results where run: "compute_metrics (\<lambda>name. name) example_task = Inr results"
    and keys: "fst ` set results =
       (\<Union>m\<in>set (metrics example_task).
          (\<lambda>k. task_name_attr example_task @ ''/'' @ metric_class m @ ''_'' @ string_of_nat k) `
            set (take (length (metric_compute m (metric_state m))) (the (top_ks m))))"
    by blast
  have "fst ` set results = {''next-item/NDCGAt_10'', ''next-item/NDCGAt_20''}"
    unfolding keys
    by (simp add: example_task_metrics batch_counter_def string_of_nat_10 string_of_nat_20)
  with run h3 show ?thesis by blast
qed

text \<open>
  Against claim C9 as stated: for the task with the default name \<^verbatim>\<open>next-item\<close> and a
  metric of class \<^verbatim>\<open>NDCGAt\<close> with the cutoffs 10 and 20, whatever
  \<^verbatim>\<open>camelcase_to_snakecase\<close> makes of the class name, the keys of the result begin
  with the task name and a slash, and \<^verbatim>\<open>ndcg_10\<close> is not among them.
\<close>

theorem compute_metrics_key_is_not_ndcg_10:
  "\<forall>c2s. compute_metrics c2s example_task =
           Inr [(''next-item/'' @ c2s ''NDCGAt'' @ ''_10'', 0),
                (''next-item/'' @ c2s ''NDCGAt'' @ ''_20'', 0)] \<and>
         ''ndcg_10'' \<notin> fst ` set [(''next-item/'' @ c2s ''NDCGAt'' @ ''_10'', 0::real),
                                  (''next-item/'' @ c2s ''NDCGAt'' @ ''_20'', 0)]"
proof (intro allI conjI)
  fix c2s :: "string \<Rightarrow> string"
  have nm: "metric_name c2s example_task (batch_counter ''NDCGAt'' [10, 20] 0) =
      Some (''next-item/'' @ c2s ''NDCGAt'')"
    by (simp add: metric_name_def child_name_def task_name_def name_fn_def
        example_task_metrics batch_counter_def)
  have flds: "top_ks (batch_counter ''NDCGAt'' [10, 20] 0) = Some [10, 20]"
    "metric_compute (batch_counter ''NDCGAt'' [10, 20] 0)
       (metric_state (batch_counter ''NDCGAt'' [10, 20] 0)) = [0, 0]"
    by (simp_all add: batch_counter_def)
  show "compute_metrics c2s example_task =
           Inr [(''next-item/'' @ c2s ''NDCGAt'' @ ''_10'', 0),
                (''next-item/'' @ c2s ''NDCGAt'' @ ''_20'', 0)]"
    by (simp add: compute_metrics_def Let_def example_task_metrics nm flds dict_set_def
        py_format_def string_of_nat_10 string_of_nat_20)
  show "''ndcg_10'' \<notin> fst ` set [(''next-item/'' @ c2s ''NDCGAt'' @ ''_10'', 0::real),
                                  (''next-item/'' @ c2s ''NDCGAt'' @ ''_20'', 0)]"
    by simp
qed

end
